theory Spec2Isabelle
  imports Main "HOL-Library.Word"
begin

section \<open>JavaScript values\<close>

text \<open>
  The library (class \<open>Aivmlib\<close>, the revision with
  \<open>loadAndValidateHyperParametersAndStyleVectors\<close>) is embedded function by
  function; \<open>updateAivmMetadata\<close> is embedded a second time as the file \<open>src/index.ts\<close>
  has it. A JavaScript string is modelled by its UTF-8 bytes, so \<open>===\<close> on
  well-formed strings is equality of \<^typ>\<open>string\<close>, and the empty string is the
  only falsy one. A plain object is the list of its own properties in the order
  \<open>Object.keys\<close>, \<open>Object.entries\<close> and \<open>for ... in\<close> enumerate them: the array indices
  first, in ascending numeric order, then the other names in the order of their
  creation. A number that the schemas restrict to integers is an \<^typ>\<open>int\<close>.
\<close>

type_synonym byte = "8 word"

datatype json =
    JNull
  | JBool bool
  | JNum int
  | JStr string
  | JArr "json list"
  | JObj "(string \<times> json) list"

text \<open>
  An array index is the canonical decimal numeral of an integer from 0 to
  \<open>2\<^sup>3\<^sup>2 - 2\<close>: digits only, and no leading zero except for \<open>"0"\<close> itself.
\<close>

definition is_digit :: "char \<Rightarrow> bool" where
  "is_digit c \<longleftrightarrow> 48 \<le> (of_char c :: nat) \<and> (of_char c :: nat) \<le> 57"

definition decimal :: "string \<Rightarrow> nat" where
  "decimal k = foldl (\<lambda>n c. 10 * n + (of_char c - 48)) 0 k"

definition array_index :: "string \<Rightarrow> nat option" where
  "array_index k =
     (if k \<noteq> [] \<and> list_all is_digit k \<and> (if hd k = CHR ''0'' then k = ''0'' else True) \<and>
         decimal k < 2 ^ 32 - 1
      then Some (decimal k) else None)"

text \<open>
  \<open>o[k] = v\<close> on a plain object. An existing property keeps its place and takes the new
  value. A new property whose name is an array index goes before the first property
  that is not a smaller array index; any other new property goes to the end. The name
  \<open>__proto__\<close> is outside this model: assigning a number or a string under it to an
  object that has no own property of that name creates none.
\<close>

fun obj_overwrite :: "(string \<times> 'v) list \<Rightarrow> string \<Rightarrow> 'v \<Rightarrow> (string \<times> 'v) list" where
  "obj_overwrite [] k v = []"
| "obj_overwrite ((k', v') # kvs) k v =
     (if k' = k then (k, v) # kvs else (k', v') # obj_overwrite kvs k v)"

fun insert_index :: "nat \<Rightarrow> string \<times> 'v \<Rightarrow> (string \<times> 'v) list \<Rightarrow> (string \<times> 'v) list" where
  "insert_index n kv [] = [kv]"
| "insert_index n kv (kv' # kvs) =
     (case array_index (fst kv') of
        Some m \<Rightarrow> if m < n then kv' # insert_index n kv kvs else kv # kv' # kvs
      | None \<Rightarrow> kv # kv' # kvs)"

definition obj_set :: "(string \<times> 'v) list \<Rightarrow> string \<Rightarrow> 'v \<Rightarrow> (string \<times> 'v) list" where
  "obj_set kvs k v =
     (if k \<in> set (map fst kvs) then obj_overwrite kvs k v
      else (case array_index k of
              Some n \<Rightarrow> insert_index n (k, v) kvs
            | None \<Rightarrow> kvs @ [(k, v)]))"

text \<open>
  The same on an array of \<open>{key, value}\<close> entries, as the source does it with \<open>find\<close>
  and \<open>push\<close>: the first entry with the key takes the new value, and without such an
  entry a new one is pushed.
\<close>

fun prop_set :: "(string \<times> 'v) list \<Rightarrow> string \<Rightarrow> 'v \<Rightarrow> (string \<times> 'v) list" where
  "prop_set [] k v = [(k, v)]"
| "prop_set ((k', v') # kvs) k v =
     (if k' = k then (k, v) # kvs else (k', v') # prop_set kvs k v)"

text \<open>\<open>Object.keys(o).find(key => o[key] === x)\<close>: the first key holding \<open>x\<close>.\<close>

fun find_key :: "(string \<times> int) list \<Rightarrow> int \<Rightarrow> string option" where
  "find_key [] x = None"
| "find_key ((k, v) # kvs) x = (if v = x then Some k else find_key kvs x)"

section \<open>Data model (schemas/aivm-manifest.ts, schemas/style-bert-vits2.ts)\<close>

datatype model_format = Safetensors | ONNX

record voice_sample =
  audio :: string
  transcript :: string

record style =
  style_name :: string
  style_icon :: "string option"
  style_local_id :: int
  voice_samples :: "voice_sample list"

record speaker =
  speaker_name :: string
  speaker_icon :: string
  supported_languages :: "string list"
  speaker_uuid :: string
  speaker_local_id :: int
  styles :: "style list"

text \<open>
  \<open>model_architecture\<close> is a string at run time; the code compares it with the two
  recognised names by \<open>includes\<close> and keeps an \<open>else\<close> branch for any other value.
\<close>

record manifest =
  manifest_version :: string
  name :: string
  description :: string
  creators :: "string list"
  license :: "string option"
  model_architecture :: string
  model_format :: model_format
  training_epochs :: "int option"
  training_steps :: "int option"
  uuid :: string
  version :: string
  speakers :: "speaker list"

text \<open>
  Of the hyper-parameters only the fields the library reads or writes are spelled out;
  \<open>train\<close>, \<open>model\<close> and the remaining \<open>data\<close> fields are carried as opaque values.
\<close>

record hp_data =
  use_jp_extra :: "bool option"
  training_files :: "string option"
  validation_files :: "string option"
  n_speakers :: int
  spk2id :: "(string \<times> int) list"
  num_styles :: int
  style2id :: "(string \<times> int) list"
  data_rest :: json

record hyper_parameters =
  model_name :: string
  hp_version :: string
  train :: json
  data :: hp_data
  model :: json

record aivm_metadata =
  manifest :: manifest
  hyper_parameters :: hyper_parameters
  style_vectors :: "byte list option"

definition StyleBertVITS2 :: string where
  "StyleBertVITS2 = ''Style-Bert-VITS2''"

definition StyleBertVITS2_JPExtra :: string where
  "StyleBertVITS2_JPExtra = ''Style-Bert-VITS2 (JP-Extra)''"

text \<open>\<open>ModelArchitectureSchema = z.enum([...])\<close>.\<close>

definition ModelArchitectureSchema :: "string list" where
  "ModelArchitectureSchema = [StyleBertVITS2, StyleBertVITS2_JPExtra]"

definition Neutral :: string where
  "Neutral = ''Neutral''"

text \<open>The label \<open>U+30CE U+30FC U+30DE U+30EB\<close> ("normal" in katakana), in UTF-8.\<close>

definition Normal_ja :: string where
  "Normal_ja = [CHR 0xE3, CHR 0x83, CHR 0x8E, CHR 0xE3, CHR 0x83, CHR 0xBC,
                CHR 0xE3, CHR 0x83, CHR 0x9E, CHR 0xE3, CHR 0x83, CHR 0xAB]"

section \<open>Errors\<close>

text \<open>
  Every \<open>throw new Error(...)\<close> of the source is one constructor, named after its
  message; the last three are the exceptions of the JavaScript platform that the
  source does not catch.
\<close>

datatype error =
    HyperParametersFileFormatError string
  | NoSpeakers
  | NoStyles
  | DuplicateSpeakerId int "string list"
  | DuplicateStyleId int "string list"
  | StyleIdOutOfRange string int
  | SpeakerIdOutOfRange string int
  | StyleVectorsFileMissing
  | UnsupportedArchitecture string
  | SpeakersBecameEmpty
  | StylesBecameEmpty string int
  | ManifestNotFound
  | ManifestFormatError
  | HyperParametersNotFound
  | HyperParametersFormatError
  | UnsupportedHyperParameters string
  | StyleVectorsDecodeError
  | AivmFormatError
  | AivmxFormatError
  | StyleVectorsNotSet
  | RangeError
  | SyntaxError
  | TypeError

section \<open>Collaborators outside the repository\<close>

text \<open>
  The functions of the platform and of the imported packages are parameters of the
  model: the zod parsers applied to \<open>JSON.parse\<close> of a JavaScript value (\<open>None\<close> when
  either throws), \<open>JSON.stringify\<close>, the Base64 pair, \<open>TextDecoder\<close> followed by
  \<open>JSON.parse\<close> on header bytes and \<open>JSON.stringify\<close> followed by \<open>TextEncoder\<close>,
  the protobuf codec of \<open>onnx.ModelProto\<close>, and the constant
  \<open>DEFAULT_ICON_DATA_URL\<close>. \<open>parse_manifest_fields\<close> stands for every
  check of \<open>AivmManifestSchema\<close> except the enumeration of \<open>model_architecture\<close>, which
  \<open>AivmManifestSchema_parse\<close> below adds from the source.
\<close>

text \<open>
  Of a decoded \<open>onnx.ModelProto\<close> the library touches \<open>metadataProps\<close> alone, an array
  of \<open>{key, value}\<close> entries; everything else of the message is carried along.
\<close>

record model_proto =
  metadataProps :: "(string \<times> string) list"
  other_fields :: "byte list"

record platform =
  DEFAULT_ICON_DATA_URL :: string
  parse_hyper_parameters :: "json \<Rightarrow> hyper_parameters option"
  parse_manifest_fields :: "json \<Rightarrow> manifest option"
  stringify_manifest :: "manifest \<Rightarrow> string"
  stringify_hyper_parameters :: "hyper_parameters \<Rightarrow> string"
  Base64_toUint8Array :: "json \<Rightarrow> byte list option"
  Base64_fromUint8Array :: "byte list \<Rightarrow> string"
  JSON_parse_bytes :: "byte list \<Rightarrow> json option"
  JSON_stringify_bytes :: "json \<Rightarrow> byte list"
  ModelProto_decode :: "byte list \<Rightarrow> model_proto option"
  ModelProto_encode :: "model_proto \<Rightarrow> byte list"

section \<open>Loading and validating hyper-parameters\<close>

definition is_style_bert_vits2 :: "string \<Rightarrow> bool" where
  "is_style_bert_vits2 arch \<longleftrightarrow> arch \<in> set [StyleBertVITS2, StyleBertVITS2_JPExtra]"

text \<open>
  The duplicate check: walk the entries with the set of ids seen so far; at the first
  repeated id throw, naming every key of the whole map that holds it.
\<close>

fun find_duplicate_id :: "int set \<Rightarrow> (string \<times> int) list \<Rightarrow> int option" where
  "find_duplicate_id seen [] = None"
| "find_duplicate_id seen ((k, v) # kvs) =
     (if v \<in> seen then Some v else find_duplicate_id (insert v seen) kvs)"

definition names_with_id :: "(string \<times> int) list \<Rightarrow> int \<Rightarrow> string list" where
  "names_with_id m i = map fst (filter (\<lambda>(_, v). v = i) m)"

definition loadAndValidateHyperParametersAndStyleVectors ::
  "platform \<Rightarrow> string \<Rightarrow> string \<Rightarrow> byte list option \<Rightarrow>
   error + (hyper_parameters \<times> byte list)" where
  "loadAndValidateHyperParametersAndStyleVectors P arch hp_file sv_file =
   (if is_style_bert_vits2 arch then
      (case parse_hyper_parameters P (JStr hp_file) of
         None \<Rightarrow> Inl (HyperParametersFileFormatError arch)
       | Some hp \<Rightarrow>
           if spk2id (data hp) = [] then Inl NoSpeakers
           else if style2id (data hp) = [] then Inl NoStyles
           else (case find_duplicate_id {} (spk2id (data hp)) of
                   Some i \<Rightarrow> Inl (DuplicateSpeakerId i (names_with_id (spk2id (data hp)) i))
                 | None \<Rightarrow>
               (case find_duplicate_id {} (style2id (data hp)) of
                   Some i \<Rightarrow> Inl (DuplicateStyleId i (names_with_id (style2id (data hp)) i))
                 | None \<Rightarrow>
               (case find (\<lambda>(_, style_id). style_id < 0 \<or> style_id > 31) (style2id (data hp)) of
                   Some (sname, sid) \<Rightarrow> Inl (StyleIdOutOfRange sname sid)
                 | None \<Rightarrow>
               (case find (\<lambda>(_, speaker_id). speaker_id < 0) (spk2id (data hp)) of
                   Some (spname, spid) \<Rightarrow> Inl (SpeakerIdOutOfRange spname spid)
                 | None \<Rightarrow>
               (case sv_file of
                   None \<Rightarrow> Inl StyleVectorsFileMissing
                 | Some sv \<Rightarrow> Inr (hp, sv)))))))
    else Inl (UnsupportedArchitecture arch))"

section \<open>generateAivmMetadata\<close>

definition DefaultAivmManifest :: "platform \<Rightarrow> manifest" where
  "DefaultAivmManifest P =
     \<lparr>manifest_version = ''1.0'', name = ''Model Name'', description = '''',
      creators = [], license = None, model_architecture = StyleBertVITS2_JPExtra,
      model_format = Safetensors, training_epochs = None, training_steps = None,
      uuid = ''00000000-0000-0000-0000-000000000000'', version = ''1.0.0'',
      speakers =
        [\<lparr>speaker_name = ''Speaker Name'', speaker_icon = DEFAULT_ICON_DATA_URL P,
          supported_languages = [''ja''],
          speaker_uuid = ''00000000-0000-0000-0000-000000000000'',
          speaker_local_id = 0,
          styles = [\<lparr>style_name = Normal_ja, style_icon = None, style_local_id = 0,
                     voice_samples = []\<rparr>]\<rparr>]\<rparr>"

text \<open>\<open>x ? a : b\<close> on the optional flag: \<open>undefined\<close> is falsy.\<close>

definition jp_extra :: "hyper_parameters \<Rightarrow> bool" where
  "jp_extra hp = (use_jp_extra (data hp) = Some True)"

definition architecture_of :: "hyper_parameters \<Rightarrow> string" where
  "architecture_of hp = (if jp_extra hp then StyleBertVITS2_JPExtra else StyleBertVITS2)"

definition languages_of :: "hyper_parameters \<Rightarrow> string list" where
  "languages_of hp = (if jp_extra hp then [''ja''] else [''ja'', ''en-US'', ''zh-CN''])"

text \<open>
  The renaming of "Neutral", written three times in the source with the same
  condition: \<open>style_name === 'Neutral' && !Object.keys(style2id).includes(Normal_ja)\<close>.
\<close>

definition new_style_name :: "(string \<times> int) list \<Rightarrow> string \<Rightarrow> string" where
  "new_style_name s2i sname =
     (if sname = Neutral \<and> Normal_ja \<notin> set (map fst s2i) then Normal_ja else sname)"

text \<open>
  \<open>uuid.v4()\<close> draws from a supply \<open>v4 :: nat \<Rightarrow> string\<close>; the calls are numbered in
  the order the source makes them. In \<open>Object.keys(m).map((key, index) => ...)\<close> the
  second argument of the callback is the position in the array of keys.
\<close>

definition generated_styles :: "hyper_parameters \<Rightarrow> style list" where
  "generated_styles hp =
     map (\<lambda>(index, sname).
            \<lparr>style_name = new_style_name (style2id (data hp)) sname,
             style_icon = None, style_local_id = int index, voice_samples = []\<rparr>)
         (enumerate 0 (map fst (style2id (data hp))))"

definition generated_speakers ::
  "platform \<Rightarrow> (nat \<Rightarrow> string) \<Rightarrow> hyper_parameters \<Rightarrow> speaker list" where
  "generated_speakers P v4 hp =
     map (\<lambda>(index, spname).
            \<lparr>speaker_name = spname, speaker_icon = DEFAULT_ICON_DATA_URL P,
             supported_languages = languages_of hp,
             speaker_uuid = v4 (Suc index),
             speaker_local_id = int index,
             styles = generated_styles hp\<rparr>)
         (enumerate 0 (map fst (spk2id (data hp))))"

definition generateAivmMetadata ::
  "platform \<Rightarrow> (nat \<Rightarrow> string) \<Rightarrow> string \<Rightarrow> string \<Rightarrow> byte list option \<Rightarrow>
   error + aivm_metadata" where
  "generateAivmMetadata P v4 arch hp_file sv_file =
   (case loadAndValidateHyperParametersAndStyleVectors P arch hp_file sv_file of
      Inl e \<Rightarrow> Inl e
    | Inr (hp, sv) \<Rightarrow>
        if is_style_bert_vits2 arch then
          Inr \<lparr>manifest = (DefaultAivmManifest P)
                 \<lparr>name := model_name hp, model_architecture := architecture_of hp,
                  uuid := v4 0, speakers := generated_speakers P v4 hp\<rparr>,
               hyper_parameters = hp, style_vectors = Some sv\<rparr>
        else Inl (UnsupportedArchitecture arch))"

section \<open>updateAivmMetadata\<close>

text \<open>The messages pushed to \<open>warnings\<close>, one constructor per message template.\<close>

datatype warning =
    StyleRemoved string string int
  | StyleAdded string string int
  | LanguagesChanged string "string list"
  | SpeakerRemoved string int
  | SpeakerAdded string int

text \<open>\<open>new Map(...).has(id)\<close> after every \<open>(name, id)\<close> entry was \<open>set(id, name)\<close>.\<close>

definition has_id :: "(string \<times> int) list \<Rightarrow> int \<Rightarrow> bool" where
  "has_id m i \<longleftrightarrow> i \<in> snd ` set m"

text \<open>
  The loop over \<open>existing_speaker.styles\<close>; its state is
  \<open>(processed_new_style_local_ids, updated_styles, warnings)\<close>.
\<close>

fun existing_styles_loop ::
  "(string \<times> int) list \<Rightarrow> speaker \<Rightarrow> style list \<Rightarrow>
   int set \<times> style list \<times> warning list \<Rightarrow> int set \<times> style list \<times> warning list" where
  "existing_styles_loop new_style2id sp [] st = st"
| "existing_styles_loop new_style2id sp (existing_style # rest) (processed, updated, ws) =
     (if has_id new_style2id (style_local_id existing_style) then
        existing_styles_loop new_style2id sp rest
          (insert (style_local_id existing_style) processed, updated @ [existing_style], ws)
      else
        existing_styles_loop new_style2id sp rest
          (processed, updated,
           ws @ [StyleRemoved (speaker_name sp) (style_name existing_style)
                   (style_local_id existing_style)]))"

text \<open>
  The style object built for an entry \<open>[style_name, style_local_id]\<close> of
  \<open>new_style2id\<close>; the source writes this literal in both places that create styles.
\<close>

definition created_style :: "(string \<times> int) list \<Rightarrow> string \<times> int \<Rightarrow> style" where
  "created_style new_style2id entry =
     \<lparr>style_name = new_style_name new_style2id (fst entry), style_icon = None,
      style_local_id = snd entry, voice_samples = []\<rparr>"

text \<open>The loop over \<open>Object.entries(new_style2id)\<close> that appends the styles not yet processed.\<close>

fun added_styles_loop ::
  "(string \<times> int) list \<Rightarrow> speaker \<Rightarrow> int set \<Rightarrow> (string \<times> int) list \<Rightarrow>
   style list \<times> warning list \<Rightarrow> style list \<times> warning list" where
  "added_styles_loop new_style2id sp processed [] st = st"
| "added_styles_loop new_style2id sp processed ((sname, lid) # rest) (updated, ws) =
     (if lid \<notin> processed then
        added_styles_loop new_style2id sp processed rest
          (updated @ [created_style new_style2id (sname, lid)],
           ws @ [StyleAdded (speaker_name sp) sname lid])
      else added_styles_loop new_style2id sp processed rest (updated, ws))"

text \<open>
  The loop over \<open>existing_metadata.manifest.speakers\<close>; its state is
  \<open>(processed_new_speaker_local_ids, updated_speakers, warnings)\<close>.
\<close>

fun existing_speakers_loop ::
  "hyper_parameters \<Rightarrow> speaker list \<Rightarrow>
   int set \<times> speaker list \<times> warning list \<Rightarrow> int set \<times> speaker list \<times> warning list" where
  "existing_speakers_loop hp [] st = st"
| "existing_speakers_loop hp (existing_speaker # rest) (processed, updated_speakers, ws) =
     (if has_id (spk2id (data hp)) (speaker_local_id existing_speaker) then
        (let (processed_styles, updated_styles1, ws1) =
               existing_styles_loop (style2id (data hp)) existing_speaker
                 (styles existing_speaker) ({}, [], ws);
             (updated_styles, ws2) =
               added_styles_loop (style2id (data hp)) existing_speaker processed_styles
                 (style2id (data hp)) (updated_styles1, ws1);
             changed = (supported_languages existing_speaker \<noteq> languages_of hp);
             langs = (if changed then languages_of hp
                      else supported_languages existing_speaker);
             ws3 = (if changed
                    then ws2 @ [LanguagesChanged (speaker_name existing_speaker) langs]
                    else ws2)
         in existing_speakers_loop hp rest
              (insert (speaker_local_id existing_speaker) processed,
               updated_speakers @
                 [existing_speaker\<lparr>supported_languages := langs, styles := updated_styles\<rparr>],
               ws3))
      else
        existing_speakers_loop hp rest
          (processed, updated_speakers,
           ws @ [SpeakerRemoved (speaker_name existing_speaker)
                   (speaker_local_id existing_speaker)]))"

text \<open>The styles of a speaker that the new hyper-parameters add: every entry of \<open>new_style2id\<close>.\<close>

definition new_speaker_styles :: "(string \<times> int) list \<Rightarrow> style list" where
  "new_speaker_styles new_style2id = map (created_style new_style2id) new_style2id"

text \<open>
  The loop over \<open>Object.entries(new_spk2id)\<close>; its state is
  \<open>(updated_speakers, warnings, number of uuid.v4() calls made)\<close>.
\<close>

fun new_speakers_loop ::
  "platform \<Rightarrow> (nat \<Rightarrow> string) \<Rightarrow> hyper_parameters \<Rightarrow> int set \<Rightarrow> (string \<times> int) list \<Rightarrow>
   speaker list \<times> warning list \<times> nat \<Rightarrow> speaker list \<times> warning list \<times> nat" where
  "new_speakers_loop P v4 hp processed [] st = st"
| "new_speakers_loop P v4 hp processed ((spname, lid) # rest) (updated_speakers, ws, n) =
     (if lid \<notin> processed then
        new_speakers_loop P v4 hp processed rest
          (updated_speakers @
             [\<lparr>speaker_name = spname, speaker_icon = DEFAULT_ICON_DATA_URL P,
               supported_languages = languages_of hp, speaker_uuid = v4 n,
               speaker_local_id = lid,
               styles = new_speaker_styles (style2id (data hp))\<rparr>],
           ws @ [SpeakerAdded spname lid], Suc n)
      else new_speakers_loop P v4 hp processed rest (updated_speakers, ws, n))"

text \<open>The two checks after \<open>manifest.speakers = updated_speakers\<close>.\<close>

definition check_updated_speakers :: "speaker list \<Rightarrow> error option" where
  "check_updated_speakers updated_speakers =
     (if updated_speakers = [] then Some SpeakersBecameEmpty
      else (case find (\<lambda>sp. styles sp = []) updated_speakers of
              Some sp \<Rightarrow> Some (StylesBecameEmpty (speaker_name sp) (speaker_local_id sp))
            | None \<Rightarrow> None))"

definition updateAivmMetadata ::
  "platform \<Rightarrow> (nat \<Rightarrow> string) \<Rightarrow> aivm_metadata \<Rightarrow> string \<Rightarrow> byte list option \<Rightarrow>
   error + (aivm_metadata \<times> warning list)" where
  "updateAivmMetadata P v4 existing_metadata hp_file sv_file =
   (let arch = model_architecture (manifest existing_metadata) in
    case loadAndValidateHyperParametersAndStyleVectors P arch hp_file sv_file of
      Inl e \<Rightarrow> Inl e
    | Inr (hp, sv) \<Rightarrow>
        if is_style_bert_vits2 arch then
          (let (processed, updated1, ws1) =
                 existing_speakers_loop hp (speakers (manifest existing_metadata)) ({}, [], []);
               (updated_speakers, ws, n) =
                 new_speakers_loop P v4 hp processed (spk2id (data hp)) (updated1, ws1, 0)
           in case check_updated_speakers updated_speakers of
                Some e \<Rightarrow> Inl e
              | None \<Rightarrow>
                  Inr (\<lparr>manifest = (manifest existing_metadata)
                          \<lparr>model_architecture := architecture_of hp,
                           speakers := updated_speakers\<rparr>,
                        hyper_parameters = hp, style_vectors = Some sv\<rparr>, ws))
        else Inl (UnsupportedArchitecture arch))"

section \<open>updateAivmMetadata as src/index.ts has it\<close>









section \<open>applyAivmManifestToHyperParameters\<close>

text \<open>
  The two loops that rebuild \<open>spk2id\<close> and \<open>style2id\<close>: for each \<open>(name, local_id)\<close>
  of the manifest, look for the first key of the current map that holds \<open>local_id\<close>, and if
  the key found is truthy, set \<open>new_map[name] = local_id\<close>.
\<close>

fun rebuild_id_map ::
  "(string \<times> int) list \<Rightarrow> (string \<times> int) list \<Rightarrow> (string \<times> int) list \<Rightarrow>
   (string \<times> int) list" where
  "rebuild_id_map old [] new = new"
| "rebuild_id_map old ((nm, local_id) # rest) new =
     (case find_key old local_id of
        Some old_key \<Rightarrow>
          if old_key \<noteq> [] then rebuild_id_map old rest (obj_set new nm local_id)
          else rebuild_id_map old rest new
      | None \<Rightarrow> rebuild_id_map old rest new)"

definition speaker_ids :: "manifest \<Rightarrow> (string \<times> int) list" where
  "speaker_ids m = map (\<lambda>sp. (speaker_name sp, speaker_local_id sp)) (speakers m)"

definition style_ids :: "manifest \<Rightarrow> (string \<times> int) list" where
  "style_ids m =
     concat (map (\<lambda>sp. map (\<lambda>st. (style_name st, style_local_id st)) (styles sp))
                 (speakers m))"

text \<open>
  The function mutates its argument and returns nothing: the model returns the
  aggregate as it is after the call, or the error thrown (nothing is written before the
  only \<open>throw\<close>).
\<close>

definition applyAivmManifestToHyperParameters :: "aivm_metadata \<Rightarrow> error + aivm_metadata" where
  "applyAivmManifestToHyperParameters aivm_metadata =
   (if is_style_bert_vits2 (model_architecture (manifest aivm_metadata)) then
      (if style_vectors aivm_metadata = None then Inl StyleVectorsNotSet
       else
         (let hp = hyper_parameters aivm_metadata;
              new_spk2id = rebuild_id_map (spk2id (data hp))
                              (speaker_ids (manifest aivm_metadata)) [];
              new_style2id = rebuild_id_map (style2id (data hp))
                                (style_ids (manifest aivm_metadata)) []
          in Inr (aivm_metadata
               \<lparr>hyper_parameters := hp
                  \<lparr>model_name := name (manifest aivm_metadata),
                   data := (data hp)
                     \<lparr>training_files := Some ''train.list'',
                      validation_files := Some ''val.list'',
                      spk2id := new_spk2id,
                      n_speakers := int (length new_spk2id),
                      style2id := new_style2id,
                      num_styles := int (length new_style2id)\<rparr>\<rparr>\<rparr>)))
    else Inr aivm_metadata)"

section \<open>validateAivmMetadata and serializeAivmMetadata\<close>

text \<open>Truthiness, and the read \<open>v[k]\<close> of a property whose name is not an array index.\<close>

fun truthy :: "json \<Rightarrow> bool" where
  "truthy JNull = False"
| "truthy (JBool b) = b"
| "truthy (JNum n) = (n \<noteq> 0)"
| "truthy (JStr s) = (s \<noteq> [])"
| "truthy (JArr _) = True"
| "truthy (JObj _) = True"

fun get_prop :: "json \<Rightarrow> string \<Rightarrow> json option" where
  "get_prop (JObj kvs) k = map_of kvs k"
| "get_prop _ k = None"

definition truthy_prop :: "json \<Rightarrow> string \<Rightarrow> bool" where
  "truthy_prop v k = (case get_prop v k of Some x \<Rightarrow> truthy x | None \<Rightarrow> False)"

text \<open>
  \<open>AivmManifestSchema.parse(JSON.parse(v))\<close>: the field checks of the platform's
  parser, and the closed enumeration of \<open>model_architecture\<close>.
\<close>

definition AivmManifestSchema_parse :: "platform \<Rightarrow> json \<Rightarrow> manifest option" where
  "AivmManifestSchema_parse P v =
     (case parse_manifest_fields P v of
        None \<Rightarrow> None
      | Some m \<Rightarrow> if model_architecture m \<in> set ModelArchitectureSchema then Some m else None)"

text \<open>
  The block that validates the hyper-parameters. Inside its \<open>try\<close> the code either
  parses or throws for an architecture it does not recognise; the \<open>catch\<close> rethrows
  whatever was thrown as the one format error.
\<close>

definition hyper_parameters_try :: "platform \<Rightarrow> manifest \<Rightarrow> json \<Rightarrow> error + hyper_parameters" where
  "hyper_parameters_try P aivm_manifest v =
     (if is_style_bert_vits2 (model_architecture aivm_manifest) then
        (case parse_hyper_parameters P v of Some hp \<Rightarrow> Inr hp | None \<Rightarrow> Inl SyntaxError)
      else Inl (UnsupportedHyperParameters (model_architecture aivm_manifest)))"

definition validate_hyper_parameters ::
  "platform \<Rightarrow> manifest \<Rightarrow> json \<Rightarrow> error + hyper_parameters" where
  "validate_hyper_parameters P aivm_manifest raw_metadata =
     (if truthy_prop raw_metadata ''aivm_hyper_parameters'' then
        (case hyper_parameters_try P aivm_manifest
                (the (get_prop raw_metadata ''aivm_hyper_parameters'')) of
           Inr hp \<Rightarrow> Inr hp
         | Inl _ \<Rightarrow> Inl HyperParametersFormatError)
      else Inl HyperParametersNotFound)"

definition validate_style_vectors :: "platform \<Rightarrow> json \<Rightarrow> error + byte list option" where
  "validate_style_vectors P raw_metadata =
     (if truthy_prop raw_metadata ''aivm_style_vectors'' then
        (case Base64_toUint8Array P (the (get_prop raw_metadata ''aivm_style_vectors'')) of
           Some bs \<Rightarrow> Inr (Some bs)
         | None \<Rightarrow> Inl StyleVectorsDecodeError)
      else Inr None)"

text \<open>The argument is \<open>None\<close> when the caller passes \<open>undefined\<close>.\<close>

definition validateAivmMetadata :: "platform \<Rightarrow> json option \<Rightarrow> error + aivm_metadata" where
  "validateAivmMetadata P raw =
     (case raw of
        None \<Rightarrow> Inl ManifestNotFound
      | Some raw_metadata \<Rightarrow>
          if \<not> truthy raw_metadata \<or> \<not> truthy_prop raw_metadata ''aivm_manifest''
          then Inl ManifestNotFound
          else (case AivmManifestSchema_parse P (the (get_prop raw_metadata ''aivm_manifest'')) of
                  None \<Rightarrow> Inl ManifestFormatError
                | Some aivm_manifest \<Rightarrow>
              (case validate_hyper_parameters P aivm_manifest raw_metadata of
                  Inl e \<Rightarrow> Inl e
                | Inr aivm_hyper_parameters \<Rightarrow>
              (case validate_style_vectors P raw_metadata of
                  Inl e \<Rightarrow> Inl e
                | Inr aivm_style_vectors \<Rightarrow>
                    Inr \<lparr>manifest = aivm_manifest, hyper_parameters = aivm_hyper_parameters,
                         style_vectors = aivm_style_vectors\<rparr>))))"

definition serializeAivmMetadata :: "platform \<Rightarrow> aivm_metadata \<Rightarrow> (string \<times> string) list" where
  "serializeAivmMetadata P aivm_metadata =
     [(''aivm_manifest'', stringify_manifest P (manifest aivm_metadata)),
      (''aivm_hyper_parameters'', stringify_hyper_parameters P (hyper_parameters aivm_metadata))]
     @ (case style_vectors aivm_metadata of
          Some sv \<Rightarrow> [(''aivm_style_vectors'', Base64_fromUint8Array P sv)]
        | None \<Rightarrow> [])"

text \<open>A string-to-string object as a JavaScript value.\<close>

definition raw_object :: "(string \<times> string) list \<Rightarrow> json" where
  "raw_object entries = JObj (map (\<lambda>(k, v). (k, JStr v)) entries)"

section \<open>The tensor container (AIVM)\<close>

text \<open>
  \<open>getBigUint64(0, true)\<close> and \<open>setBigUint64(0, n, true)\<close>: eight bytes, least
  significant first; writing keeps \<open>n mod 2^64\<close>. \<open>Number\<close> of the length read is
  exact below \<open>2^53\<close>, and above it is larger than any buffer, so the comparisons with
  the length of the file come out as they do on the exact value.
\<close>

fun le_decode :: "byte list \<Rightarrow> nat" where
  "le_decode [] = 0"
| "le_decode (b # bs) = unat b + 256 * le_decode bs"

fun le_encode :: "nat \<Rightarrow> nat \<Rightarrow> byte list" where
  "le_encode 0 n = []"
| "le_encode (Suc k) n = of_nat (n mod 256) # le_encode k (n div 256)"

definition header_size_of :: "byte list \<Rightarrow> nat" where
  "header_size_of bytes = le_decode (take 8 bytes)"

text \<open>
  \<open>readAivmMetadata\<close> up to the value of \<open>header_json['__metadata__']\<close>
  (\<open>None\<close> is \<open>undefined\<close>). \<open>getBigUint64\<close> throws a \<open>RangeError\<close> on fewer than eight
  bytes; the \<open>Uint8Array\<close> view throws one when \<open>8 + header_size\<close> exceeds the
  buffer, and only that one is inside a \<open>try\<close>; \<open>JSON.parse\<close> throws a \<open>SyntaxError\<close>;
  reading a property of \<open>null\<close> throws a \<open>TypeError\<close>.
\<close>

definition read_raw_metadata :: "platform \<Rightarrow> byte list \<Rightarrow> error + json option" where
  "read_raw_metadata P bytes =
     (if length bytes < 8 then Inl RangeError
      else if 8 + header_size_of bytes > length bytes then Inl AivmFormatError
      else (case JSON_parse_bytes P (take (header_size_of bytes) (drop 8 bytes)) of
              None \<Rightarrow> Inl SyntaxError
            | Some header_json \<Rightarrow>
                if header_json = JNull then Inl TypeError
                else Inr (get_prop header_json ''__metadata__'')))"

definition readAivmMetadata :: "platform \<Rightarrow> byte list \<Rightarrow> error + aivm_metadata" where
  "readAivmMetadata P aivm_file =
     (case read_raw_metadata P aivm_file of
        Inl e \<Rightarrow> Inl e
      | Inr raw_metadata \<Rightarrow> validateAivmMetadata P raw_metadata)"

text \<open>
  The module is strict-mode code. \<open>existing_metadata[key] = value\<close> with a key that is
  not an array index: a new or overwritten property of a plain object, a property that
  \<open>JSON.stringify\<close> does not print on an array, a \<open>TypeError\<close> on a primitive.
\<close>

fun set_prop :: "json \<Rightarrow> string \<Rightarrow> json \<Rightarrow> error + json" where
  "set_prop (JObj kvs) k v = Inr (JObj (obj_set kvs k v))"
| "set_prop (JArr xs) k v = Inr (JArr xs)"
| "set_prop _ k v = Inl TypeError"

fun set_props :: "json \<Rightarrow> (string \<times> string) list \<Rightarrow> error + json" where
  "set_props obj [] = Inr obj"
| "set_props obj ((k, v) # rest) =
     (case set_prop obj k (JStr v) of Inl e \<Rightarrow> Inl e | Inr obj' \<Rightarrow> set_props obj' rest)"

text \<open>\<open>existing_header['__metadata__'] || {}\<close>.\<close>

definition metadata_or_empty :: "json \<Rightarrow> json" where
  "metadata_or_empty existing_header =
     (case get_prop existing_header ''__metadata__'' of
        Some v \<Rightarrow> if truthy v then v else JObj []
      | None \<Rightarrow> JObj [])"

text \<open>
  \<open>writeAivmMetadata\<close> from the point where the file is read, for the serialised
  entries \<open>raw_metadata\<close>. \<open>slice\<close> clamps to the end of the file; the allocation of the
  result, or the \<open>set\<close> of the new header into it, throws a \<open>RangeError\<close> when the file
  is shorter than \<open>8 + existing_header_size\<close>.
\<close>

definition write_raw_metadata ::
  "platform \<Rightarrow> byte list \<Rightarrow> (string \<times> string) list \<Rightarrow> error + byte list" where
  "write_raw_metadata P aivm_file_bytes raw_metadata =
     (if length aivm_file_bytes < 8 then Inl RangeError
      else
        (let existing_header_size = header_size_of aivm_file_bytes in
         case JSON_parse_bytes P (take existing_header_size (drop 8 aivm_file_bytes)) of
           None \<Rightarrow> Inl AivmFormatError
         | Some existing_header \<Rightarrow>
             if existing_header = JNull then Inl TypeError
             else (case set_props (metadata_or_empty existing_header) raw_metadata of
                     Inl e \<Rightarrow> Inl e
                   | Inr existing_metadata \<Rightarrow>
                 (case set_prop existing_header ''__metadata__'' existing_metadata of
                     Inl e \<Rightarrow> Inl e
                   | Inr new_header \<Rightarrow>
                       (let new_header_bytes = JSON_stringify_bytes P new_header in
                        if length aivm_file_bytes < 8 + existing_header_size
                        then Inl RangeError
                        else Inr (le_encode 8 (length new_header_bytes) @ new_header_bytes
                                  @ drop (8 + existing_header_size) aivm_file_bytes))))))"

text \<open>
  The write operations assign to the aggregate they are given, so they return it as it
  is afterwards next to their result.
\<close>

definition writeAivmMetadata ::
  "platform \<Rightarrow> byte list \<Rightarrow> aivm_metadata \<Rightarrow> (error + byte list) \<times> aivm_metadata" where
  "writeAivmMetadata P aivm_file aivm_metadata =
     (let md1 = aivm_metadata
                  \<lparr>manifest := (manifest aivm_metadata)\<lparr>model_format := Safetensors\<rparr>\<rparr> in
      case applyAivmManifestToHyperParameters md1 of
        Inl e \<Rightarrow> (Inl e, md1)
      | Inr md2 \<Rightarrow>
          (let raw_metadata = serializeAivmMetadata P md2 in
           case validateAivmMetadata P (Some (raw_object raw_metadata)) of
             Inl e \<Rightarrow> (Inl e, md2)
           | Inr _ \<Rightarrow> (write_raw_metadata P aivm_file raw_metadata, md2)))"

section \<open>The graph container (AIVMX)\<close>

definition readAivmxMetadata :: "platform \<Rightarrow> byte list \<Rightarrow> error + aivm_metadata" where
  "readAivmxMetadata P aivmx_file =
     (case ModelProto_decode P aivmx_file of
        None \<Rightarrow> Inl AivmxFormatError
      | Some model_proto \<Rightarrow>
          validateAivmMetadata P
            (Some (raw_object
               (fold (\<lambda>(k, v) raw_metadata.
                        if k \<noteq> [] \<and> v \<noteq> [] then obj_set raw_metadata k v else raw_metadata)
                     (metadataProps model_proto) []))))"

text \<open>
  \<open>find(prop => prop.key === key)\<close> returns the first entry with the key, and its value
  is overwritten; without such an entry a new one is pushed. This is \<open>prop_set\<close>.
\<close>

definition writeAivmxMetadata ::
  "platform \<Rightarrow> byte list \<Rightarrow> aivm_metadata \<Rightarrow> (error + byte list) \<times> aivm_metadata" where
  "writeAivmxMetadata P aivmx_file aivm_metadata =
     (let md1 = aivm_metadata\<lparr>manifest := (manifest aivm_metadata)\<lparr>model_format := ONNX\<rparr>\<rparr> in
      case applyAivmManifestToHyperParameters md1 of
        Inl e \<Rightarrow> (Inl e, md1)
      | Inr md2 \<Rightarrow>
          (case ModelProto_decode P aivmx_file of
             None \<Rightarrow> (Inl AivmxFormatError, md2)
           | Some model_proto \<Rightarrow>
               (let raw_metadata = serializeAivmMetadata P md2 in
                case validateAivmMetadata P (Some (raw_object raw_metadata)) of
                  Inl e \<Rightarrow> (Inl e, md2)
                | Inr _ \<Rightarrow>
                    (Inr (ModelProto_encode P
                            (model_proto\<lparr>metadataProps :=
                               fold (\<lambda>(k, v) props. prop_set props k v) raw_metadata
                                    (metadataProps model_proto)\<rparr>)),
                     md2))))"

section \<open>Notions used in the statements\<close>

text \<open>
  What the loops of \<open>updateAivmMetadata\<close> compute, written with \<open>filter\<close> and \<open>map\<close>:
  the styles of an existing speaker that are kept, the entries of \<open>new_style2id\<close> that
  are added to it, the speaker pushed for it, and the warnings pushed while it is handled.
\<close>

definition kept_styles :: "(string \<times> int) list \<Rightarrow> speaker \<Rightarrow> style list" where
  "kept_styles s2i sp = filter (\<lambda>st. has_id s2i (style_local_id st)) (styles sp)"

definition added_entries :: "(string \<times> int) list \<Rightarrow> speaker \<Rightarrow> (string \<times> int) list" where
  "added_entries s2i sp =
     filter (\<lambda>e. snd e \<notin> style_local_id ` set (kept_styles s2i sp)) s2i"

definition reconciled_speaker :: "hyper_parameters \<Rightarrow> speaker \<Rightarrow> speaker" where
  "reconciled_speaker hp sp =
     sp\<lparr>supported_languages := languages_of hp,
        styles := kept_styles (style2id (data hp)) sp
                  @ map (created_style (style2id (data hp))) (added_entries (style2id (data hp)) sp)\<rparr>"

definition speaker_warnings :: "hyper_parameters \<Rightarrow> speaker \<Rightarrow> warning list" where
  "speaker_warnings hp sp =
     (if has_id (spk2id (data hp)) (speaker_local_id sp) then
        map (\<lambda>st. StyleRemoved (speaker_name sp) (style_name st) (style_local_id st))
            (filter (\<lambda>st. \<not> has_id (style2id (data hp)) (style_local_id st)) (styles sp))
        @ map (\<lambda>e. StyleAdded (speaker_name sp) (fst e) (snd e))
              (added_entries (style2id (data hp)) sp)
        @ (if supported_languages sp \<noteq> languages_of hp
           then [LanguagesChanged (speaker_name sp) (languages_of hp)] else [])
      else [SpeakerRemoved (speaker_name sp) (speaker_local_id sp)])"

text \<open>The aggregate as it is after a call of \<open>applyAivmManifestToHyperParameters\<close>.\<close>

definition sync_state :: "aivm_metadata \<Rightarrow> aivm_metadata" where
  "sync_state aivm_metadata =
     (case applyAivmManifestToHyperParameters aivm_metadata of
        Inr md \<Rightarrow> md
      | Inl e \<Rightarrow> aivm_metadata)"

text \<open>
  Two notions for reasoning about \<open>rebuild_id_map\<close>: whether the lookup of an id finds a
  truthy key, and the assignments \<open>new_map[name] = local_id\<close> made in a row.
\<close>

definition found :: "(string \<times> int) list \<Rightarrow> int \<Rightarrow> bool" where
  "found old i = (case find_key old i of Some k \<Rightarrow> k \<noteq> [] | None \<Rightarrow> False)"

definition set_all ::
  "(string \<times> int) list \<Rightarrow> (string \<times> int) list \<Rightarrow> (string \<times> int) list" where
  "set_all ps acc = fold (\<lambda>(n, i) a. obj_set a n i) ps acc"

text \<open>The hyper-parameters without their two id maps.\<close>

definition without_id_maps :: "hyper_parameters \<Rightarrow> hyper_parameters" where
  "without_id_maps hp = hp\<lparr>data := (data hp)\<lparr>spk2id := [], style2id := []\<rparr>\<rparr>"

text \<open>No name occurs with two different ids.\<close>

definition one_id_per_name :: "(string \<times> int) list \<Rightarrow> bool" where
  "one_id_per_name ps = (\<forall>(n, i) \<in> set ps. \<forall>(n', i') \<in> set ps. n = n' \<longrightarrow> i = i')"

section \<open>updateAivmMetadata on a store of objects\<close>

text \<open>
  To state what \<open>updateAivmMetadata\<close> does to the objects it is given, its objects and
  arrays live in a store: a list of cells, an address being an index. Creating an object
  or an array appends a cell; assigning a field or pushing onto an array overwrites the
  cell at its address. Objects: the aggregate, a manifest, a speaker, a style (with its
  voice samples) and the arrays \<open>speakers\<close>, \<open>styles\<close> and \<open>supported_languages\<close>. The
  computation returns the error thrown or its result, and the store as it is then.
\<close>

type_synonym addr = nat

record manifest_fields =
  mf_manifest_version :: string
  mf_name :: string
  mf_description :: string
  mf_creators :: "string list"
  mf_license :: "string option"
  mf_model_architecture :: string
  mf_model_format :: model_format
  mf_training_epochs :: "int option"
  mf_training_steps :: "int option"
  mf_uuid :: string
  mf_version :: string

datatype cell =
    StyleCell style
  | SpeakerCell string string addr string int addr
  | ManifestCell manifest_fields addr
  | RefArray "addr list"
  | StringArray "string list"
  | MetadataCell addr hyper_parameters "byte list option"

type_synonym store = "cell list"

type_synonym 'a computation = "store \<Rightarrow> (error + 'a) \<times> store"

definition ret :: "'a \<Rightarrow> 'a computation" where
  "ret x = (\<lambda>h. (Inr x, h))"

definition throw :: "error \<Rightarrow> 'a computation" where
  "throw e = (\<lambda>h. (Inl e, h))"

definition bnd :: "'a computation \<Rightarrow> ('a \<Rightarrow> 'b computation) \<Rightarrow> 'b computation" where
  "bnd m f = (\<lambda>h. case m h of (Inl e, h') \<Rightarrow> (Inl e, h') | (Inr x, h') \<Rightarrow> f x h')"

definition alloc :: "cell \<Rightarrow> addr computation" where
  "alloc c = (\<lambda>h. (Inr (length h), h @ [c]))"

text \<open>Reading through a reference that holds no object of the expected kind is a \<open>TypeError\<close>.\<close>

definition get_cell :: "addr \<Rightarrow> cell computation" where
  "get_cell a = (\<lambda>h. if a < length h then (Inr (h ! a), h) else (Inl TypeError, h))"

definition put_cell :: "addr \<Rightarrow> cell \<Rightarrow> unit computation" where
  "put_cell a c = (\<lambda>h. if a < length h then (Inr (), h[a := c]) else (Inl TypeError, h))"

definition get_refs :: "addr \<Rightarrow> addr list computation" where
  "get_refs a = bnd (get_cell a) (\<lambda>c. case c of RefArray xs \<Rightarrow> ret xs | _ \<Rightarrow> throw TypeError)"

definition get_strings :: "addr \<Rightarrow> string list computation" where
  "get_strings a =
     bnd (get_cell a) (\<lambda>c. case c of StringArray xs \<Rightarrow> ret xs | _ \<Rightarrow> throw TypeError)"

definition get_style :: "addr \<Rightarrow> style computation" where
  "get_style a = bnd (get_cell a) (\<lambda>c. case c of StyleCell s \<Rightarrow> ret s | _ \<Rightarrow> throw TypeError)"

text \<open>\<open>array.push(x)\<close>.\<close>

definition push :: "addr \<Rightarrow> addr \<Rightarrow> unit computation" where
  "push array x = bnd (get_refs array) (\<lambda>xs. put_cell array (RefArray (xs @ [x])))"

text \<open>\<open>for (const x of xs) { ... }\<close> with the variables the body updates as its state.\<close>

primrec for_each ::
  "'a list \<Rightarrow> ('a \<Rightarrow> 's \<Rightarrow> 's computation) \<Rightarrow> 's \<Rightarrow> 's computation" where
  "for_each [] body s = ret s"
| "for_each (x # xs) body s = bnd (body x s) (for_each xs body)"

text \<open>\<open>xs.map(f)\<close> for an \<open>f\<close> that creates objects.\<close>

primrec map_each :: "'a list \<Rightarrow> ('a \<Rightarrow> 'b computation) \<Rightarrow> 'b list computation" where
  "map_each [] f = ret []"
| "map_each (x # xs) f = bnd (f x) (\<lambda>y. bnd (map_each xs f) (\<lambda>ys. ret (y # ys)))"

text \<open>\<open>structuredClone\<close> of a manifest: a copy of every object and array below it.\<close>

definition clone_style :: "addr \<Rightarrow> addr computation" where
  "clone_style a = bnd (get_style a) (\<lambda>s. alloc (StyleCell s))"

definition clone_speaker :: "addr \<Rightarrow> addr computation" where
  "clone_speaker a =
     bnd (get_cell a) (\<lambda>c. case c of
        SpeakerCell nm icon langs uid lid sts \<Rightarrow>
          bnd (get_strings langs) (\<lambda>ls.
          bnd (alloc (StringArray ls)) (\<lambda>langs'.
          bnd (get_refs sts) (\<lambda>style_refs.
          bnd (map_each style_refs clone_style) (\<lambda>style_refs'.
          bnd (alloc (RefArray style_refs')) (\<lambda>sts'.
          alloc (SpeakerCell nm icon langs' uid lid sts'))))))
      | _ \<Rightarrow> throw TypeError)"

definition structuredClone_manifest :: "addr \<Rightarrow> addr computation" where
  "structuredClone_manifest a =
     bnd (get_cell a) (\<lambda>c. case c of
        ManifestCell mf sps \<Rightarrow>
          bnd (get_refs sps) (\<lambda>speaker_refs.
          bnd (map_each speaker_refs clone_speaker) (\<lambda>speaker_refs'.
          bnd (alloc (RefArray speaker_refs')) (\<lambda>sps'.
          alloc (ManifestCell mf sps'))))
      | _ \<Rightarrow> throw TypeError)"

text \<open>
  The body of the loop over \<open>existing_speaker.styles\<close>; \<open>updated_styles\<close> is the address
  of the array being filled, the state is
  \<open>(processed_new_style_local_ids, warnings)\<close>.
\<close>

definition existing_style_step ::
  "(string \<times> int) list \<Rightarrow> string \<Rightarrow> addr \<Rightarrow> addr \<Rightarrow> int set \<times> warning list \<Rightarrow>
   (int set \<times> warning list) computation" where
  "existing_style_step new_style2id spname updated_styles existing_style st =
     bnd (get_style existing_style) (\<lambda>s.
       if has_id new_style2id (style_local_id s) then
         bnd (push updated_styles existing_style) (\<lambda>_.
           ret (insert (style_local_id s) (fst st), snd st))
       else ret (fst st, snd st @ [StyleRemoved spname (style_name s) (style_local_id s)]))"

text \<open>The body of the loop over \<open>Object.entries(new_style2id)\<close> for a retained speaker.\<close>

definition added_style_step ::
  "(string \<times> int) list \<Rightarrow> string \<Rightarrow> int set \<Rightarrow> addr \<Rightarrow> string \<times> int \<Rightarrow> warning list \<Rightarrow>
   warning list computation" where
  "added_style_step new_style2id spname processed updated_styles entry ws =
     (if snd entry \<notin> processed then
        bnd (alloc (StyleCell (created_style new_style2id entry))) (\<lambda>new_style.
        bnd (push updated_styles new_style) (\<lambda>_.
          ret (ws @ [StyleAdded spname (fst entry) (snd entry)])))
      else ret ws)"

text \<open>
  The body of the loop over \<open>existing_metadata.manifest.speakers\<close>; the state is
  \<open>(processed_new_speaker_local_ids, warnings)\<close>.
\<close>

definition existing_speaker_step ::
  "hyper_parameters \<Rightarrow> addr \<Rightarrow> addr \<Rightarrow> int set \<times> warning list \<Rightarrow>
   (int set \<times> warning list) computation" where
  "existing_speaker_step hp updated_speakers existing_speaker st =
     bnd (get_cell existing_speaker) (\<lambda>c. case c of
        SpeakerCell nm icon langs uid lid sts \<Rightarrow>
          if has_id (spk2id (data hp)) lid then
            bnd (alloc (RefArray [])) (\<lambda>updated_styles.
            bnd (get_refs sts) (\<lambda>style_refs.
            bnd (for_each style_refs
                   (existing_style_step (style2id (data hp)) nm updated_styles) ({}, snd st))
              (\<lambda>(processed_styles, ws1).
            bnd (for_each (style2id (data hp))
                   (added_style_step (style2id (data hp)) nm processed_styles updated_styles) ws1)
              (\<lambda>ws2.
            bnd (get_strings langs) (\<lambda>supported.
            bnd (alloc (StringArray (languages_of hp))) (\<lambda>new_langs.
            bnd (ret (if supported \<noteq> languages_of hp
                      then (new_langs, ws2 @ [LanguagesChanged nm (languages_of hp)])
                      else (langs, ws2)))
              (\<lambda>(langs', ws3).
            bnd (alloc (SpeakerCell nm icon langs' uid lid updated_styles)) (\<lambda>updated_speaker.
            bnd (push updated_speakers updated_speaker) (\<lambda>_.
              ret (insert lid (fst st), ws3))))))))))
          else ret (fst st, snd st @ [SpeakerRemoved nm lid])
      | _ \<Rightarrow> throw TypeError)"

text \<open>
  The body of the loop over \<open>Object.entries(new_spk2id)\<close>; the state is
  \<open>(warnings, number of uuid.v4() calls made)\<close>.
\<close>

definition new_speaker_step ::
  "platform \<Rightarrow> (nat \<Rightarrow> string) \<Rightarrow> hyper_parameters \<Rightarrow> int set \<Rightarrow> addr \<Rightarrow> string \<times> int \<Rightarrow>
   warning list \<times> nat \<Rightarrow> (warning list \<times> nat) computation" where
  "new_speaker_step P v4 hp processed updated_speakers entry st =
     (if snd entry \<notin> processed then
        bnd (alloc (RefArray [])) (\<lambda>new_speaker_styles.
        bnd (for_each (style2id (data hp))
               (\<lambda>style_entry (_ :: unit).
                  bnd (alloc (StyleCell (created_style (style2id (data hp)) style_entry)))
                    (\<lambda>new_style. push new_speaker_styles new_style)) ())
          (\<lambda>_.
        bnd (alloc (StringArray (languages_of hp))) (\<lambda>langs.
        bnd (alloc (SpeakerCell (fst entry) (DEFAULT_ICON_DATA_URL P) langs (v4 (snd st))
                      (snd entry) new_speaker_styles)) (\<lambda>new_speaker.
        bnd (push updated_speakers new_speaker) (\<lambda>_.
          ret (fst st @ [SpeakerAdded (fst entry) (snd entry)], Suc (snd st)))))))
      else ret st)"

text \<open>The two checks on \<open>updated_speakers\<close>.\<close>

definition check_updated_speakers_store :: "addr \<Rightarrow> unit computation" where
  "check_updated_speakers_store updated_speakers =
     bnd (get_refs updated_speakers) (\<lambda>speaker_refs.
       if speaker_refs = [] then throw SpeakersBecameEmpty
       else for_each speaker_refs
              (\<lambda>sp (_ :: unit).
                 bnd (get_cell sp) (\<lambda>c. case c of
                    SpeakerCell nm icon langs uid lid sts \<Rightarrow>
                      bnd (get_refs sts) (\<lambda>style_refs.
                        if style_refs = [] then throw (StylesBecameEmpty nm lid) else ret ())
                  | _ \<Rightarrow> throw TypeError)) ())"

text \<open>
  \<open>updateAivmMetadata\<close> for the aggregate at the address \<open>existing_metadata\<close>. It returns
  the address of the new aggregate and the warnings.
\<close>

definition updateAivmMetadata_store ::
  "platform \<Rightarrow> (nat \<Rightarrow> string) \<Rightarrow> addr \<Rightarrow> string \<Rightarrow> byte list option \<Rightarrow>
   (addr \<times> warning list) computation" where
  "updateAivmMetadata_store P v4 existing_metadata hp_file sv_file =
     bnd (get_cell existing_metadata) (\<lambda>c. case c of
        MetadataCell existing_manifest _ _ \<Rightarrow>
          bnd (get_cell existing_manifest) (\<lambda>c. case c of
             ManifestCell existing_fields existing_speakers \<Rightarrow>
               (case loadAndValidateHyperParametersAndStyleVectors P
                       (mf_model_architecture existing_fields) hp_file sv_file of
                  Inl e \<Rightarrow> throw e
                | Inr (hp, sv) \<Rightarrow>
                    if is_style_bert_vits2 (mf_model_architecture existing_fields) then
                      bnd (structuredClone_manifest existing_manifest) (\<lambda>new_manifest.
                      bnd (get_cell new_manifest) (\<lambda>c. case c of
                         ManifestCell mf cloned_speakers \<Rightarrow>
                           bnd (put_cell new_manifest
                                  (ManifestCell
                                     (mf\<lparr>mf_model_architecture := architecture_of hp\<rparr>)
                                     cloned_speakers)) (\<lambda>_.
                           bnd (alloc (RefArray [])) (\<lambda>updated_speakers.
                           bnd (get_refs existing_speakers) (\<lambda>speaker_refs.
                           bnd (for_each speaker_refs
                                  (existing_speaker_step hp updated_speakers) ({}, []))
                             (\<lambda>(processed, ws1).
                           bnd (for_each (spk2id (data hp))
                                  (new_speaker_step P v4 hp processed updated_speakers) (ws1, 0))
                             (\<lambda>(ws, n).
                           bnd (put_cell new_manifest
                                  (ManifestCell
                                     (mf\<lparr>mf_model_architecture := architecture_of hp\<rparr>)
                                     updated_speakers)) (\<lambda>_.
                           bnd (check_updated_speakers_store updated_speakers) (\<lambda>_.
                           bnd (alloc (MetadataCell new_manifest hp (Some sv))) (\<lambda>updated_metadata.
                             ret (updated_metadata, ws)))))))))
                       | _ \<Rightarrow> throw TypeError))
                    else throw (UnsupportedArchitecture (mf_model_architecture existing_fields)))
           | _ \<Rightarrow> throw TypeError)
      | _ \<Rightarrow> throw TypeError)"

text \<open>
  A computation run from a store that has at least \<open>n\<close> cells leaves the first \<open>n\<close>
  cells as they are, and never shrinks the store.
\<close>

definition preserves :: "nat \<Rightarrow> 'a computation \<Rightarrow> bool" where
  "preserves n m =
     (\<forall>h. n \<le> length h \<longrightarrow> length h \<le> length (snd (m h)) \<and> take n (snd (m h)) = take n h)"

text \<open>Every result of the computation, from a store with at least \<open>n\<close> cells, satisfies \<open>Q\<close>.\<close>

definition returns :: "nat \<Rightarrow> 'a computation \<Rightarrow> ('a \<Rightarrow> bool) \<Rightarrow> bool" where
  "returns n m Q = (\<forall>h x h'. n \<le> length h \<longrightarrow> m h = (Inr x, h') \<longrightarrow> Q x)"

text \<open>Reading an aggregate out of a store (\<open>None\<close> where a reference does not fit).\<close>

definition cell_at :: "store \<Rightarrow> addr \<Rightarrow> cell option" where
  "cell_at h a = (if a < length h then Some (h ! a) else None)"

definition style_at :: "store \<Rightarrow> addr \<Rightarrow> style option" where
  "style_at h a = (case cell_at h a of Some (StyleCell s) \<Rightarrow> Some s | _ \<Rightarrow> None)"

definition refs_at :: "store \<Rightarrow> addr \<Rightarrow> addr list option" where
  "refs_at h a = (case cell_at h a of Some (RefArray xs) \<Rightarrow> Some xs | _ \<Rightarrow> None)"

definition strings_at :: "store \<Rightarrow> addr \<Rightarrow> string list option" where
  "strings_at h a = (case cell_at h a of Some (StringArray xs) \<Rightarrow> Some xs | _ \<Rightarrow> None)"

definition speaker_at :: "store \<Rightarrow> addr \<Rightarrow> speaker option" where
  "speaker_at h a =
     (case cell_at h a of
        Some (SpeakerCell nm icon langs uid lid sts) \<Rightarrow>
          (case strings_at h langs of
             None \<Rightarrow> None
           | Some ls \<Rightarrow>
               (case refs_at h sts of
                  None \<Rightarrow> None
                | Some style_refs \<Rightarrow>
                    (case those (map (style_at h) style_refs) of
                       None \<Rightarrow> None
                     | Some ss \<Rightarrow>
                         Some \<lparr>speaker_name = nm, speaker_icon = icon, supported_languages = ls,
                               speaker_uuid = uid, speaker_local_id = lid, styles = ss\<rparr>)))
      | _ \<Rightarrow> None)"

definition manifest_at :: "store \<Rightarrow> addr \<Rightarrow> manifest option" where
  "manifest_at h a =
     (case cell_at h a of
        Some (ManifestCell mf sps) \<Rightarrow>
          (case refs_at h sps of
             None \<Rightarrow> None
           | Some speaker_refs \<Rightarrow>
               (case those (map (speaker_at h) speaker_refs) of
                  None \<Rightarrow> None
                | Some ss \<Rightarrow>
                    Some \<lparr>manifest_version = mf_manifest_version mf, name = mf_name mf,
                          description = mf_description mf, creators = mf_creators mf,
                          license = mf_license mf,
                          model_architecture = mf_model_architecture mf,
                          model_format = mf_model_format mf,
                          training_epochs = mf_training_epochs mf,
                          training_steps = mf_training_steps mf, uuid = mf_uuid mf,
                          version = mf_version mf, speakers = ss\<rparr>))
      | _ \<Rightarrow> None)"

definition metadata_at :: "store \<Rightarrow> addr \<Rightarrow> aivm_metadata option" where
  "metadata_at h a =
     (case cell_at h a of
        Some (MetadataCell m hp sv) \<Rightarrow>
          (case manifest_at h m of
             None \<Rightarrow> None
           | Some mv \<Rightarrow> Some \<lparr>manifest = mv, hyper_parameters = hp, style_vectors = sv\<rparr>)
      | _ \<Rightarrow> None)"

section \<open>Example inputs\<close>

text \<open>
  A platform given by tables: the hyper-parameter and manifest texts it can parse, and
  the header objects with their serialisations. Every other text fails to parse. Its
  Base64 pair is a stand-in that maps a character to the byte of its code.
\<close>

definition table_platform ::
  "(string \<times> hyper_parameters) list \<Rightarrow> (string \<times> manifest) list \<Rightarrow>
   (byte list \<times> json) list \<Rightarrow> platform" where
  "table_platform hp_table manifest_table header_table =
     \<lparr>DEFAULT_ICON_DATA_URL = ''data:image/png;base64,AAAA'',
      parse_hyper_parameters = (\<lambda>v. case v of JStr s \<Rightarrow> map_of hp_table s | _ \<Rightarrow> None),
      parse_manifest_fields = (\<lambda>v. case v of JStr s \<Rightarrow> map_of manifest_table s | _ \<Rightarrow> None),
      stringify_manifest = (\<lambda>m. ''manifest of '' @ name m),
      stringify_hyper_parameters = (\<lambda>hp. ''hyper-parameters of '' @ model_name hp),
      Base64_toUint8Array = (\<lambda>v. case v of JStr s \<Rightarrow> Some (map of_char s) | _ \<Rightarrow> None),
      Base64_fromUint8Array = map (\<lambda>b. char_of (unat b)),
      JSON_parse_bytes = map_of header_table,
      JSON_stringify_bytes =
        (\<lambda>j. case find (\<lambda>(bs, j'). j' = j) header_table of Some (bs, _) \<Rightarrow> bs | None \<Rightarrow> []),
      ModelProto_decode = (\<lambda>bs. None),
      ModelProto_encode = (\<lambda>m. [])\<rparr>"

definition example_v4 :: "nat \<Rightarrow> string" where
  "example_v4 n = ''uuid-'' @ replicate n CHR ''i''"

definition example_hp ::
  "bool \<Rightarrow> (string \<times> int) list \<Rightarrow> (string \<times> int) list \<Rightarrow> hyper_parameters" where
  "example_hp jp s2i st2i =
     \<lparr>model_name = ''Example'', hp_version = ''2.4.1'', train = JObj [],
      data = \<lparr>use_jp_extra = Some jp, training_files = Some ''Data/train.list'',
              validation_files = Some ''Data/val.list'', n_speakers = int (length s2i),
              spk2id = s2i, num_styles = int (length st2i), style2id = st2i,
              data_rest = JObj []\<rparr>,
      model = JObj []\<rparr>"

text \<open>Speaker and style names with their local ids, as a manifest lists them.\<close>

definition catalog :: "manifest \<Rightarrow> (string \<times> int \<times> (string \<times> int) list) list" where
  "catalog m =
     map (\<lambda>sp. (speaker_name sp, speaker_local_id sp,
                 map (\<lambda>st. (style_name st, style_local_id st)) (styles sp)))
         (speakers m)"

text \<open>
  Hyper-parameters \<open>spk2id = {"Alice": 5}\<close>, \<open>style2id = {"Neutral": 3}\<close>.
\<close>

definition hp_alice5 :: hyper_parameters where
  "hp_alice5 = example_hp True [(''Alice'', 5)] [(Neutral, 3)]"

text \<open>
  Scenarios A and B: \<open>spk2id = {"Alice": 0}\<close> with \<open>style2id = {"Neutral": 0}\<close>, and
  with \<open>style2id\<close> holding "Neutral" and the katakana label.
\<close>

definition hp_scenario_A :: hyper_parameters where
  "hp_scenario_A = example_hp True [(''Alice'', 0)] [(Neutral, 0)]"

definition hp_scenario_B :: hyper_parameters where
  "hp_scenario_B = example_hp True [(''Alice'', 0)] [(Neutral, 0), (Normal_ja, 1)]"

text \<open>
  An existing aggregate with one speaker, Alice (local id 0), whose styles have the local
  ids 0, 1 and 5, and replacement hyper-parameters with speakers 0 and 1 and styles 0, 1
  and 2 under other names.
\<close>

definition metadata_alice :: aivm_metadata where
  "metadata_alice =
     \<lparr>manifest =
        \<lparr>manifest_version = ''1.0'', name = ''Alice model'', description = '''',
         creators = [], license = None, model_architecture = StyleBertVITS2_JPExtra,
         model_format = Safetensors, training_epochs = None, training_steps = None,
         uuid = ''11111111-1111-4111-8111-111111111111'', version = ''1.0.0'',
         speakers =
           [\<lparr>speaker_name = ''Alice'', speaker_icon = ''data:image/png;base64,QUxJQ0U='',
             supported_languages = [''ja''],
             speaker_uuid = ''22222222-2222-4222-8222-222222222222'',
             speaker_local_id = 0,
             styles =
               [\<lparr>style_name = Normal_ja, style_icon = None, style_local_id = 0,
                 voice_samples = []\<rparr>,
                \<lparr>style_name = ''Happy'', style_icon = Some ''data:image/png;base64,SEFQUFk='',
                 style_local_id = 1,
                 voice_samples = [\<lparr>audio = ''data:audio/wav;base64,AAAA'',
                                    transcript = ''hello''\<rparr>]\<rparr>,
                \<lparr>style_name = ''Sad'', style_icon = None, style_local_id = 5,
                 voice_samples = []\<rparr>]\<rparr>]\<rparr>,
      hyper_parameters =
        example_hp True [(''Alice'', 0)] [(Neutral, 0), (''Happy'', 1), (''Sad'', 5)],
      style_vectors = Some [1, 2, 3]\<rparr>"

definition hp_bob_carol :: hyper_parameters where
  "hp_bob_carol =
     example_hp True [(''Bob'', 0), (''Carol'', 1)] [(Neutral, 0), (''Joy'', 1), (''Angry'', 2)]"

text \<open>
  A small tensor container: a header with a \<open>__metadata__\<close> object and one tensor
  entry, followed by four bytes of payload; the entries to write; and the header after
  the write. The texts are what \<open>JSON.stringify\<close> prints for the two headers.
\<close>

definition header0 :: json where
  "header0 =
     JObj [(''__metadata__'', JObj [(''format'', JStr ''pt''), (''aivm_manifest'', JStr ''old'')]),
           (''w'', JObj [(''dtype'', JStr ''F32''), (''shape'', JArr [JNum 1]),
                        (''data_offsets'', JArr [JNum 0, JNum 4])])]"

definition header0_text :: string where
  \<open>header0_text = ''{"__metadata__":{"format":"pt","aivm_manifest":"old"},"w":{"dtype":"F32","shape":[1],"data_offsets":[0,4]}}''\<close>

definition entries_new :: "(string \<times> string) list" where
  "entries_new = [(''aivm_manifest'', ''new''), (''aivm_hyper_parameters'', ''hp'')]"

definition header1 :: json where
  "header1 =
     JObj [(''__metadata__'',
            JObj [(''format'', JStr ''pt''), (''aivm_manifest'', JStr ''new''),
                  (''aivm_hyper_parameters'', JStr ''hp'')]),
           (''w'', JObj [(''dtype'', JStr ''F32''), (''shape'', JArr [JNum 1]),
                        (''data_offsets'', JArr [JNum 0, JNum 4])])]"

definition header1_text :: string where
  \<open>header1_text = ''{"__metadata__":{"format":"pt","aivm_manifest":"new","aivm_hyper_parameters":"hp"},"w":{"dtype":"F32","shape":[1],"data_offsets":[0,4]}}''\<close>

definition payload0 :: "byte list" where
  "payload0 = [0xDE, 0xAD, 0xBE, 0xEF]"

definition container0 :: "byte list" where
  "container0 = le_encode 8 (length header0_text) @ map of_char header0_text @ payload0"

definition container1 :: "byte list" where
  "container1 = le_encode 8 (length header1_text) @ map of_char header1_text @ payload0"

text \<open>A file whose length prefix says 1 and whose one header byte is the letter x.\<close>

definition not_json_file :: "byte list" where
  "not_json_file = le_encode 8 1 @ [0x78]"

text \<open>A file whose length prefix says 100, followed by two bytes.\<close>

definition truncated_file :: "byte list" where
  "truncated_file = le_encode 8 100 @ [0x7B, 0x7D]"

text \<open>
  A manifest that passes every field check but names an architecture outside the
  enumeration.
\<close>

definition manifest_vits :: manifest where
  "manifest_vits = (manifest metadata_alice)\<lparr>model_architecture := ''VITS''\<rparr>"

definition example_platform :: platform where
  "example_platform =
     table_platform
       [(''alice5.json'', hp_alice5), (''scenario_a.json'', hp_scenario_A),
        (''scenario_b.json'', hp_scenario_B), (''bob_carol.json'', hp_bob_carol)]
       [(''manifest (Alice)'', manifest metadata_alice), (''manifest (VITS)'', manifest_vits)]
       [(map of_char header0_text, header0), (map of_char header1_text, header1)]"

text \<open>
  An aggregate in which two speakers each have styles named A and B: A has local id 0 for
  the first speaker and 2 for the second, B has local id 1 for both.
\<close>

definition metadata_two_speakers :: aivm_metadata where
  "metadata_two_speakers =
     \<lparr>manifest =
        \<lparr>manifest_version = ''1.0'', name = ''Two speakers'', description = '''',
         creators = [], license = None, model_architecture = StyleBertVITS2_JPExtra,
         model_format = Safetensors, training_epochs = None, training_steps = None,
         uuid = ''33333333-3333-4333-8333-333333333333'', version = ''1.0.0'',
         speakers =
           [\<lparr>speaker_name = ''X'', speaker_icon = ''data:image/png;base64,WA=='',
             supported_languages = [''ja''],
             speaker_uuid = ''44444444-4444-4444-8444-444444444444'',
             speaker_local_id = 0,
             styles =
               [\<lparr>style_name = ''A'', style_icon = None, style_local_id = 0,
                 voice_samples = []\<rparr>,
                \<lparr>style_name = ''B'', style_icon = None, style_local_id = 1,
                 voice_samples = []\<rparr>]\<rparr>,
            \<lparr>speaker_name = ''Y'', speaker_icon = ''data:image/png;base64,WQ=='',
             supported_languages = [''ja''],
             speaker_uuid = ''55555555-5555-4555-8555-555555555555'',
             speaker_local_id = 1,
             styles =
               [\<lparr>style_name = ''A'', style_icon = None, style_local_id = 2,
                 voice_samples = []\<rparr>,
                \<lparr>style_name = ''B'', style_icon = None, style_local_id = 1,
                 voice_samples = []\<rparr>]\<rparr>]\<rparr>,
      hyper_parameters =
        example_hp True [(''X'', 0), (''Y'', 1)] [(''s0'', 0), (''s1'', 1), (''s2'', 2)],
      style_vectors = Some [1, 2, 3]\<rparr>"

text \<open>The aggregate \<open>metadata_alice\<close> after its speaker's name was blanked.\<close>

definition metadata_unnamed_speaker :: aivm_metadata where
  "metadata_unnamed_speaker =
     metadata_alice\<lparr>manifest := (manifest metadata_alice)
       \<lparr>speakers := map (\<lambda>sp. sp\<lparr>speaker_name := ''''\<rparr>) (speakers (manifest metadata_alice))\<rparr>\<rparr>"

text \<open>A store holding \<open>metadata_alice\<close>, the aggregate at address 8.\<close>

definition store_alice :: store where
  "store_alice =
     [StyleCell \<lparr>style_name = Normal_ja, style_icon = None, style_local_id = 0,
                 voice_samples = []\<rparr>,
      StyleCell \<lparr>style_name = ''Happy'', style_icon = Some ''data:image/png;base64,SEFQUFk='',
                 style_local_id = 1,
                 voice_samples = [\<lparr>audio = ''data:audio/wav;base64,AAAA'',
                                    transcript = ''hello''\<rparr>]\<rparr>,
      StyleCell \<lparr>style_name = ''Sad'', style_icon = None, style_local_id = 5,
                 voice_samples = []\<rparr>,
      RefArray [0, 1, 2],
      StringArray [''ja''],
      SpeakerCell ''Alice'' ''data:image/png;base64,QUxJQ0U='' 4
        ''22222222-2222-4222-8222-222222222222'' 0 3,
      RefArray [5],
      ManifestCell
        \<lparr>mf_manifest_version = ''1.0'', mf_name = ''Alice model'', mf_description = '''',
         mf_creators = [], mf_license = None, mf_model_architecture = StyleBertVITS2_JPExtra,
         mf_model_format = Safetensors, mf_training_epochs = None, mf_training_steps = None,
         mf_uuid = ''11111111-1111-4111-8111-111111111111'', mf_version = ''1.0.0''\<rparr>
        6,
      MetadataCell 7
        (example_hp True [(''Alice'', 0)] [(Neutral, 0), (''Happy'', 1), (''Sad'', 5)])
        (Some [1, 2, 3])]"

section \<open>Properties\<close>

subsection \<open>Property assignment\<close>

lemma map_of_obj_overwrite:
  "map_of (obj_overwrite a k v) =
     (if k \<in> fst ` set a then (map_of a)(k \<mapsto> v) else map_of a)"
proof (induction a)
  case Nil
  show ?case by simp
next
  case (Cons x a)
  obtain k' v' where x: "x = (k', v')" by (cases x)
  show ?case
  proof (cases "k' = k")
    case True
    with x show ?thesis by (simp add: fun_eq_iff)
  next
    case False
    with x Cons.IH show ?thesis by (simp add: fun_eq_iff)
  qed
qed

lemma map_fst_obj_overwrite: "map fst (obj_overwrite a k v) = map fst a"
  by (induction a) auto

lemma set_insert_index: "set (insert_index n kv a) = insert kv (set a)"
  by (induction a) (auto split: option.splits)

lemma map_of_insert_index:
  assumes "k \<notin> fst ` set a"
  shows "map_of (insert_index n (k, v) a) = (map_of a)(k \<mapsto> v)"
  using assms
proof (induction a)
  case Nil
  show ?case by simp
next
  case (Cons x a)
  obtain k' v' where x: "x = (k', v')" by (cases x)
  with Cons.prems have ne: "k' \<noteq> k" and nin: "k \<notin> fst ` set a" by auto
  note IH = Cons.IH [OF nin]
  show ?case
    using x ne by (auto simp: IH fun_eq_iff split: option.splits)
qed

lemma distinct_insert_index:
  assumes "k \<notin> fst ` set a" and "distinct (map fst a)"
  shows "distinct (map fst (insert_index n (k, v) a))"
  using assms
proof (induction a)
  case Nil
  show ?case by simp
next
  case (Cons x a)
  from Cons.prems have nin: "k \<notin> fst ` set a" and d: "distinct (map fst a)" by auto
  note IH = Cons.IH [OF nin d]
  from Cons.prems have "fst x \<noteq> k" and "fst x \<notin> fst ` set a" by auto
  with IH Cons.prems show ?case
    by (simp add: set_insert_index split: option.splits)
qed

lemma map_of_append_new:
  assumes "k \<notin> fst ` set a"
  shows "map_of (a @ [(k, v)]) = (map_of a)(k \<mapsto> v)"
proof -
  from assms have "map_of a k = None" by (simp add: map_of_eq_None_iff)
  then show ?thesis
    by (auto simp: fun_eq_iff map_add_def split: option.splits)
qed

lemma map_of_obj_set: "map_of (obj_set a k v) = (map_of a)(k \<mapsto> v)"
proof (cases "k \<in> fst ` set a")
  case True
  then show ?thesis by (simp add: obj_set_def map_of_obj_overwrite)
next
  case False
  show ?thesis
  proof (cases "array_index k")
    case None
    with False show ?thesis
      by (simp only: obj_set_def set_map if_False option.case map_of_append_new [OF False])
  next
    case (Some n)
    with False show ?thesis
      by (simp only: obj_set_def set_map if_False option.case map_of_insert_index [OF False])
  qed
qed

lemma keys_obj_set: "fst ` set (obj_set a k v) = insert k (fst ` set a)"
  using map_of_obj_set [of a k v, THEN arg_cong, of dom] by (simp add: dom_map_of_conv_image_fst)

lemma distinct_obj_set: "distinct (map fst a) \<Longrightarrow> distinct (map fst (obj_set a k v))"
  by (simp add: obj_set_def map_fst_obj_overwrite distinct_insert_index split: option.splits)

lemma obj_set_Nil [simp]: "obj_set [] k v = [(k, v)]"
  by (simp add: obj_set_def split: option.splits)

lemma obj_set_Cons_same [simp]: "obj_set ((k, v') # kvs) k v = (k, v) # kvs"
  by (simp add: obj_set_def)

lemma obj_set_Cons_other [simp]:
  "k' \<noteq> k \<Longrightarrow> array_index k = None \<Longrightarrow>
   obj_set ((k', v') # kvs) k v = (k', v') # obj_set kvs k v"
  by (simp add: obj_set_def)

lemma array_index_Nil [simp]: "array_index [] = None"
  by (simp add: array_index_def)

lemma array_index_no_digit [simp]: "\<not> is_digit c \<Longrightarrow> array_index (c # cs) = None"
  by (simp add: array_index_def)

lemma is_digit_Char [simp]:
  "is_digit (Char b0 b1 b2 b3 b4 b5 b6 b7) \<longleftrightarrow>
     \<not> b7 \<and> \<not> b6 \<and> b5 \<and> b4 \<and> (\<not> b3 \<or> (\<not> b2 \<and> \<not> b1))"
  by (cases b0; cases b1; cases b2; cases b3; cases b4; cases b5; cases b6; cases b7)
     (simp_all add: is_digit_def)

lemma obj_set_array_index_first:
  "obj_set (obj_set (obj_set [(''b'', x)] ''10'' y) ''a'' z) ''9'' w =
     [(''9'', w), (''10'', y), (''b'', x), (''a'', z)]"
  by (simp add: obj_set_def array_index_def decimal_def)

subsection \<open>The reconciliation loops in closed form\<close>

lemma existing_styles_loop_eq:
  "existing_styles_loop s2i sp sts (pr, up, ws) =
     (pr \<union> style_local_id ` set (filter (\<lambda>st. has_id s2i (style_local_id st)) sts),
      up @ filter (\<lambda>st. has_id s2i (style_local_id st)) sts,
      ws @ map (\<lambda>st. StyleRemoved (speaker_name sp) (style_name st) (style_local_id st))
             (filter (\<lambda>st. \<not> has_id s2i (style_local_id st)) sts))"
  by (induction sts arbitrary: pr up ws) auto

lemma added_styles_loop_eq:
  "added_styles_loop s2i sp pr ents (up, ws) =
     (up @ map (created_style s2i) (filter (\<lambda>e. snd e \<notin> pr) ents),
      ws @ map (\<lambda>e. StyleAdded (speaker_name sp) (fst e) (snd e))
             (filter (\<lambda>e. snd e \<notin> pr) ents))"
  by (induction ents arbitrary: up ws) auto

lemma existing_speakers_loop_eq:
  "existing_speakers_loop hp sps (pr, up, ws) =
     (pr \<union> speaker_local_id `
             set (filter (\<lambda>sp. has_id (spk2id (data hp)) (speaker_local_id sp)) sps),
      up @ map (reconciled_speaker hp)
             (filter (\<lambda>sp. has_id (spk2id (data hp)) (speaker_local_id sp)) sps),
      ws @ concat (map (speaker_warnings hp) sps))"
proof (induction sps arbitrary: pr up ws)
  case Nil
  then show ?case by simp
next
  case (Cons sp sps)
  show ?case
  proof (cases "has_id (spk2id (data hp)) (speaker_local_id sp)")
    case True
    have step: "existing_speakers_loop hp (sp # sps) (pr, up, ws) =
       existing_speakers_loop hp sps (insert (speaker_local_id sp) pr,
          up @ [reconciled_speaker hp sp], ws @ speaker_warnings hp sp)"
      using True
      apply (simp add: existing_styles_loop_eq added_styles_loop_eq Let_def del: existing_styles_loop.simps added_styles_loop.simps)
      apply (simp add: reconciled_speaker_def speaker_warnings_def added_entries_def kept_styles_def)
      done
    show ?thesis
      unfolding step Cons.IH using True by auto
  next
    case False
    then show ?thesis
      using Cons.IH by (simp add: speaker_warnings_def)
  qed
qed

lemma new_speakers_loop_eq:
  "new_speakers_loop P v4 hp pr ents (up, ws, n) =
     (up @ map (\<lambda>(k, e). \<lparr>speaker_name = fst e, speaker_icon = DEFAULT_ICON_DATA_URL P,
                  supported_languages = languages_of hp, speaker_uuid = v4 k,
                  speaker_local_id = snd e,
                  styles = new_speaker_styles (style2id (data hp))\<rparr>)
             (enumerate n (filter (\<lambda>e. snd e \<notin> pr) ents)),
      ws @ map (\<lambda>e. SpeakerAdded (fst e) (snd e)) (filter (\<lambda>e. snd e \<notin> pr) ents),
      n + length (filter (\<lambda>e. snd e \<notin> pr) ents))"
  by (induction ents arbitrary: up ws n) auto


lemma update_closed_form:
  assumes "updateAivmMetadata P v4 existing hp_file sv_file = Inr (updated, ws)"
  shows "\<exists>hp sv.
     loadAndValidateHyperParametersAndStyleVectors P
        (model_architecture (manifest existing)) hp_file sv_file = Inr (hp, sv) \<and>
     updated = \<lparr>manifest = (manifest existing)
                  \<lparr>model_architecture := architecture_of hp,
                   speakers :=
                     map (reconciled_speaker hp)
                       (filter (\<lambda>sp. has_id (spk2id (data hp)) (speaker_local_id sp))
                          (speakers (manifest existing)))
                     @ map (\<lambda>(k, e). \<lparr>speaker_name = fst e,
                                speaker_icon = DEFAULT_ICON_DATA_URL P,
                                supported_languages = languages_of hp, speaker_uuid = v4 k,
                                speaker_local_id = snd e,
                                styles = new_speaker_styles (style2id (data hp))\<rparr>)
                         (enumerate 0
                            (filter (\<lambda>e. snd e \<notin> speaker_local_id `
                                       set (filter (\<lambda>sp. has_id (spk2id (data hp))
                                                      (speaker_local_id sp))
                                              (speakers (manifest existing))))
                               (spk2id (data hp))))\<rparr>,
                hyper_parameters = hp, style_vectors = Some sv\<rparr> \<and>
     ws = concat (map (speaker_warnings hp) (speakers (manifest existing)))
          @ map (\<lambda>e. SpeakerAdded (fst e) (snd e))
              (filter (\<lambda>e. snd e \<notin> speaker_local_id `
                         set (filter (\<lambda>sp. has_id (spk2id (data hp)) (speaker_local_id sp))
                                (speakers (manifest existing))))
                 (spk2id (data hp)))"
  using assms
  by (auto simp: updateAivmMetadata_def Let_def existing_speakers_loop_eq new_speakers_loop_eq
      split: sum.splits if_splits option.splits prod.splits)

lemma check_updated_speakers_None:
  "check_updated_speakers sps = None \<longleftrightarrow> sps \<noteq> [] \<and> (\<forall>sp \<in> set sps. styles sp \<noteq> [])"
proof (cases "find (\<lambda>sp. styles sp = []) sps")
  case None
  then have "\<forall>sp \<in> set sps. styles sp \<noteq> []"
    by (auto simp: find_None_iff)
  then show ?thesis
    by (simp add: check_updated_speakers_def None)
next
  case (Some sp)
  then have "sp \<in> set sps \<and> styles sp = []"
    by (auto simp: find_Some_iff)
  with Some show ?thesis
    by (auto simp: check_updated_speakers_def)
qed

subsection \<open>generateAivmMetadata: local ids\<close>

lemma load_alice5:
  "loadAndValidateHyperParametersAndStyleVectors example_platform StyleBertVITS2
     ''alice5.json'' (Some []) = Inr (hp_alice5, [])"
  by (simp add: loadAndValidateHyperParametersAndStyleVectors_def example_platform_def
      table_platform_def hp_alice5_def example_hp_def is_style_bert_vits2_def
      StyleBertVITS2_def StyleBertVITS2_JPExtra_def Neutral_def)

lemma generate_local_ids:
  assumes "generateAivmMetadata P v4 arch hp_file sv_file = Inr md"
  shows "map speaker_local_id (speakers (manifest md)) =
           map int [0..<length (spk2id (data (hyper_parameters md)))]"
    and "\<forall>sp \<in> set (speakers (manifest md)).
           map style_local_id (styles sp) =
           map int [0..<length (style2id (data (hyper_parameters md)))]"
  using assms
  by (auto simp: generateAivmMetadata_def generated_speakers_def generated_styles_def
      enumerate_eq_zip map_zip_map2 comp_def split: sum.splits if_splits
      intro!: nth_equalityI)

text \<open>
  C1. In \<open>generateAivmMetadata\<close> the callbacks of \<open>Object.keys(...).map\<close> take the array
  index as the id: with \<open>spk2id = {"Alice": 5}\<close> and \<open>style2id = {"Neutral": 3}\<close> the
  speaker and its style both get \<open>local_id\<close> \<open>0\<close>, not \<open>5\<close> and \<open>3\<close>.
\<close>

theorem generate_local_id_is_position:
  "spk2id (data hp_alice5) = [(''Alice'', 5)] \<and>
   style2id (data hp_alice5) = [(Neutral, 3)] \<and>
   map_sum id (\<lambda>md. catalog (manifest md))
     (generateAivmMetadata example_platform example_v4 StyleBertVITS2 ''alice5.json'' (Some []))
   = Inr [(''Alice'', 0, [(Normal_ja, 0)])]"
  by (simp add: generateAivmMetadata_def load_alice5 catalog_def generated_speakers_def
      generated_styles_def new_style_name_def)
     (simp add: hp_alice5_def example_hp_def is_style_bert_vits2_def Neutral_def Normal_ja_def)

subsection \<open>Runs of the example inputs\<close>

lemma example_platform_parse:
  "parse_hyper_parameters example_platform (JStr ''scenario_a.json'') = Some hp_scenario_A"
  "parse_hyper_parameters example_platform (JStr ''scenario_b.json'') = Some hp_scenario_B"
  "parse_hyper_parameters example_platform (JStr ''bob_carol.json'') = Some hp_bob_carol"
  by (simp_all add: example_platform_def table_platform_def)

lemma load_scenario_A:
  "loadAndValidateHyperParametersAndStyleVectors example_platform StyleBertVITS2
     ''scenario_a.json'' (Some []) = Inr (hp_scenario_A, [])"
  by (simp add: loadAndValidateHyperParametersAndStyleVectors_def example_platform_parse
      is_style_bert_vits2_def)
     (simp add: hp_scenario_A_def example_hp_def)

lemma load_scenario_B:
  "loadAndValidateHyperParametersAndStyleVectors example_platform StyleBertVITS2
     ''scenario_b.json'' (Some []) = Inr (hp_scenario_B, [])"
  by (simp add: loadAndValidateHyperParametersAndStyleVectors_def example_platform_parse
      is_style_bert_vits2_def)
     (simp add: hp_scenario_B_def example_hp_def)

lemma load_bob_carol:
  "loadAndValidateHyperParametersAndStyleVectors example_platform StyleBertVITS2_JPExtra
     ''bob_carol.json'' (Some [4, 5]) = Inr (hp_bob_carol, [4, 5])"
  by (simp add: loadAndValidateHyperParametersAndStyleVectors_def example_platform_parse
      is_style_bert_vits2_def)
     (simp add: hp_bob_carol_def example_hp_def)

lemma generate_scenario_A:
  "generateAivmMetadata example_platform example_v4 StyleBertVITS2 ''scenario_a.json'' (Some [])
   = Inr \<lparr>manifest = (DefaultAivmManifest example_platform)
            \<lparr>name := model_name hp_scenario_A,
             model_architecture := architecture_of hp_scenario_A, uuid := example_v4 0,
             speakers := generated_speakers example_platform example_v4 hp_scenario_A\<rparr>,
          hyper_parameters = hp_scenario_A, style_vectors = Some []\<rparr>"
  by (simp add: generateAivmMetadata_def load_scenario_A) (simp add: is_style_bert_vits2_def)

lemma generate_scenario_B:
  "generateAivmMetadata example_platform example_v4 StyleBertVITS2 ''scenario_b.json'' (Some [])
   = Inr \<lparr>manifest = (DefaultAivmManifest example_platform)
            \<lparr>name := model_name hp_scenario_B,
             model_architecture := architecture_of hp_scenario_B, uuid := example_v4 0,
             speakers := generated_speakers example_platform example_v4 hp_scenario_B\<rparr>,
          hyper_parameters = hp_scenario_B, style_vectors = Some []\<rparr>"
  by (simp add: generateAivmMetadata_def load_scenario_B) (simp add: is_style_bert_vits2_def)

lemma update_alice:
  "updateAivmMetadata example_platform example_v4 metadata_alice ''bob_carol.json'' (Some [4, 5])
   = Inr (\<lparr>manifest = (manifest metadata_alice)
             \<lparr>speakers :=
                [\<lparr>speaker_name = ''Alice'', speaker_icon = ''data:image/png;base64,QUxJQ0U='',
                  supported_languages = [''ja''],
                  speaker_uuid = ''22222222-2222-4222-8222-222222222222'',
                  speaker_local_id = 0,
                  styles =
                    [\<lparr>style_name = Normal_ja, style_icon = None, style_local_id = 0,
                      voice_samples = []\<rparr>,
                     \<lparr>style_name = ''Happy'',
                      style_icon = Some ''data:image/png;base64,SEFQUFk='',
                      style_local_id = 1,
                      voice_samples = [\<lparr>audio = ''data:audio/wav;base64,AAAA'',
                                         transcript = ''hello''\<rparr>]\<rparr>,
                     \<lparr>style_name = ''Angry'', style_icon = None, style_local_id = 2,
                      voice_samples = []\<rparr>]\<rparr>,
                 \<lparr>speaker_name = ''Carol'', speaker_icon = ''data:image/png;base64,AAAA'',
                  supported_languages = [''ja''], speaker_uuid = ''uuid-'',
                  speaker_local_id = 1,
                  styles =
                    [\<lparr>style_name = Normal_ja, style_icon = None, style_local_id = 0,
                      voice_samples = []\<rparr>,
                     \<lparr>style_name = ''Joy'', style_icon = None, style_local_id = 1,
                      voice_samples = []\<rparr>,
                     \<lparr>style_name = ''Angry'', style_icon = None, style_local_id = 2,
                      voice_samples = []\<rparr>]\<rparr>]\<rparr>,
           hyper_parameters = hp_bob_carol, style_vectors = Some [4, 5]\<rparr>,
          [StyleRemoved ''Alice'' ''Sad'' 5, StyleAdded ''Alice'' ''Angry'' 2,
           SpeakerAdded ''Carol'' 1])"
proof -
  have arch: "model_architecture (manifest metadata_alice) = StyleBertVITS2_JPExtra"
    by (simp add: metadata_alice_def)
  show ?thesis
    unfolding updateAivmMetadata_def arch Let_def load_bob_carol
    by (simp add: is_style_bert_vits2_def)
       (simp add: metadata_alice_def hp_bob_carol_def example_hp_def has_id_def
          created_style_def new_style_name_def new_speaker_styles_def languages_of_def
          jp_extra_def architecture_of_def check_updated_speakers_def Neutral_def Normal_ja_def
          example_platform_def table_platform_def example_v4_def StyleBertVITS2_JPExtra_def)
qed
subsection \<open>generateAivmMetadata: the default style name\<close>

lemma map_snd_enumerate:
  "map (\<lambda>(i, x). g x) (enumerate n xs) = map g xs"
  by (induction xs arbitrary: n) auto

lemma generated_speakers_styles:
  "sp \<in> set (generated_speakers P v4 hp) \<Longrightarrow> styles sp = generated_styles hp"
  by (auto simp: generated_speakers_def)

lemma generated_styles_names:
  "map style_name (generated_styles hp) =
     map (new_style_name (style2id (data hp))) (map fst (style2id (data hp)))"
proof -
  have "map style_name (generated_styles hp) =
          map (\<lambda>(i, x). new_style_name (style2id (data hp)) x)
              (enumerate 0 (map fst (style2id (data hp))))"
    by (simp add: generated_styles_def case_prod_unfold)
  then show ?thesis
    by (simp only: map_snd_enumerate)
qed

lemma generate_Inr:
  assumes "generateAivmMetadata P v4 arch hp_file sv_file = Inr md"
  shows "speakers (manifest md) = generated_speakers P v4 (hyper_parameters md)"
  using assms
  by (auto simp: generateAivmMetadata_def split: sum.splits if_splits)

lemma generate_style_names:
  assumes "generateAivmMetadata P v4 arch hp_file sv_file = Inr md"
      and "sp \<in> set (speakers (manifest md))"
  shows "map style_name (styles sp) =
           map (new_style_name (style2id (data (hyper_parameters md))))
               (map fst (style2id (data (hyper_parameters md))))"
  using assms generated_speakers_styles generated_styles_names generate_Inr
  by metis

lemma map_enumerate_snd:
  assumes "\<And>k e. h (f (k, e)) = g e"
  shows "map h (map f (enumerate n es)) = map g es"
  by (induction es arbitrary: n) (simp_all add: assms)

text \<open>
  C7. Every style that \<open>generateAivmMetadata\<close> builds is named after its key in
  \<open>style2id\<close>, except that the key "Neutral" becomes the katakana label exactly when no key
  of the same \<open>style2id\<close> is that label. The styles that \<open>updateAivmMetadata\<close> returns are,
  for each retained speaker, its kept styles followed by one created style for each entry
  of \<open>style2id\<close> whose id no kept style has, in the order of the entries, and for each
  added speaker one created style for each entry of \<open>style2id\<close>; a created style has the
  id of its entry, no icon, no voice samples, and the name of its entry under the same
  rule for "Neutral".
\<close>

theorem neutral_renamed_unless_label_present:
  "(generateAivmMetadata P v4 arch hp_file sv_file = Inr md \<longrightarrow>
      (\<forall>sp \<in> set (speakers (manifest md)).
         map style_name (styles sp) =
         map (\<lambda>key. if key = Neutral \<and>
                         Normal_ja \<notin> fst ` set (style2id (data (hyper_parameters md)))
                      then Normal_ja else key)
             (map fst (style2id (data (hyper_parameters md)))))) \<and>
   (updateAivmMetadata P v4 existing hp_file' sv_file' = Inr (updated, ws) \<longrightarrow>
      map styles (speakers (manifest updated)) =
        map (\<lambda>sp.
               filter (\<lambda>st. has_id (style2id (data (hyper_parameters updated)))
                              (style_local_id st)) (styles sp) @
               map (\<lambda>(key, local_id).
                      \<lparr>style_name =
                         (if key = Neutral \<and>
                             Normal_ja \<notin> fst ` set (style2id (data (hyper_parameters updated)))
                          then Normal_ja else key),
                       style_icon = None, style_local_id = local_id, voice_samples = []\<rparr>)
                   (filter (\<lambda>e. snd e \<notin> style_local_id `
                               set (filter (\<lambda>st. has_id (style2id (data (hyper_parameters updated)))
                                              (style_local_id st)) (styles sp)))
                      (style2id (data (hyper_parameters updated)))))
            (filter (\<lambda>sp. has_id (spk2id (data (hyper_parameters updated)))
                           (speaker_local_id sp))
               (speakers (manifest existing))) @
        map (\<lambda>e. map (\<lambda>(key, local_id).
                         \<lparr>style_name =
                            (if key = Neutral \<and>
                                Normal_ja \<notin> fst ` set (style2id (data (hyper_parameters updated)))
                             then Normal_ja else key),
                          style_icon = None, style_local_id = local_id, voice_samples = []\<rparr>)
                      (style2id (data (hyper_parameters updated))))
            (filter (\<lambda>e. snd e \<notin> speaker_local_id `
                        set (filter (\<lambda>sp. has_id (spk2id (data (hyper_parameters updated)))
                                       (speaker_local_id sp))
                               (speakers (manifest existing))))
               (spk2id (data (hyper_parameters updated)))))"
proof (intro conjI impI)
  assume gen: "generateAivmMetadata P v4 arch hp_file sv_file = Inr md"
  show "\<forall>sp \<in> set (speakers (manifest md)).
         map style_name (styles sp) =
         map (\<lambda>key. if key = Neutral \<and>
                         Normal_ja \<notin> fst ` set (style2id (data (hyper_parameters md)))
                      then Normal_ja else key)
             (map fst (style2id (data (hyper_parameters md))))"
  proof
    fix sp
    assume "sp \<in> set (speakers (manifest md))"
    from generate_style_names [OF gen this]
    show "map style_name (styles sp) =
         map (\<lambda>key. if key = Neutral \<and>
                         Normal_ja \<notin> fst ` set (style2id (data (hyper_parameters md)))
                      then Normal_ja else key)
             (map fst (style2id (data (hyper_parameters md))))"
      by (simp add: new_style_name_def)
  qed
next
  assume upd: "updateAivmMetadata P v4 existing hp_file' sv_file' = Inr (updated, ws)"
  let ?s2i = "style2id (data (hyper_parameters updated))"
  let ?spk = "spk2id (data (hyper_parameters updated))"
  let ?mk = "\<lambda>(key, local_id).
                    \<lparr>style_name =
                       (if key = Neutral \<and> Normal_ja \<notin> fst ` set ?s2i
                        then Normal_ja else key),
                     style_icon = None, style_local_id = local_id, voice_samples = []\<rparr>"
  let ?retained = "filter (\<lambda>sp. has_id ?spk (speaker_local_id sp)) (speakers (manifest existing))"
  have mk: "created_style ?s2i = ?mk"
    by (auto simp: created_style_def new_style_name_def fun_eq_iff)
  from update_closed_form [OF upd] obtain hp sv where
    hp: "hyper_parameters updated = hp" and
    sps: "speakers (manifest updated) =
            map (reconciled_speaker hp)
              (filter (\<lambda>sp. has_id (spk2id (data hp)) (speaker_local_id sp))
                 (speakers (manifest existing)))
            @ map (\<lambda>(k, e). \<lparr>speaker_name = fst e, speaker_icon = DEFAULT_ICON_DATA_URL P,
                       supported_languages = languages_of hp, speaker_uuid = v4 k,
                       speaker_local_id = snd e,
                       styles = new_speaker_styles (style2id (data hp))\<rparr>)
                (enumerate 0
                   (filter (\<lambda>e. snd e \<notin> speaker_local_id `
                              set (filter (\<lambda>sp. has_id (spk2id (data hp))
                                             (speaker_local_id sp))
                                     (speakers (manifest existing))))
                      (spk2id (data hp))))"
    by auto
  note sps' = sps [folded hp]
  have old: "map styles (map (reconciled_speaker (hyper_parameters updated)) ?retained) =
        map (\<lambda>sp. filter (\<lambda>st. has_id ?s2i (style_local_id st)) (styles sp) @
                  map ?mk (filter (\<lambda>e. snd e \<notin> style_local_id `
                               set (filter (\<lambda>st. has_id ?s2i (style_local_id st)) (styles sp)))
                             ?s2i))
            ?retained"
    by (simp add: reconciled_speaker_def kept_styles_def added_entries_def mk)
  have new: "map styles
        (map (\<lambda>(k, e). \<lparr>speaker_name = fst e, speaker_icon = DEFAULT_ICON_DATA_URL P,
                       supported_languages = languages_of (hyper_parameters updated),
                       speaker_uuid = v4 k, speaker_local_id = snd e,
                       styles = new_speaker_styles ?s2i\<rparr>)
           (enumerate 0 (filter (\<lambda>e. snd e \<notin> speaker_local_id ` set ?retained) ?spk))) =
        map (\<lambda>e. map ?mk ?s2i) (filter (\<lambda>e. snd e \<notin> speaker_local_id ` set ?retained) ?spk)"
    by (intro map_enumerate_snd) (simp add: new_speaker_styles_def mk)
  show "map styles (speakers (manifest updated)) =
        map (\<lambda>sp. filter (\<lambda>st. has_id ?s2i (style_local_id st)) (styles sp) @
                  map ?mk (filter (\<lambda>e. snd e \<notin> style_local_id `
                               set (filter (\<lambda>st. has_id ?s2i (style_local_id st)) (styles sp)))
                             ?s2i))
            ?retained @
        map (\<lambda>e. map ?mk ?s2i) (filter (\<lambda>e. snd e \<notin> speaker_local_id ` set ?retained) ?spk)"
    using old new by (simp add: sps')
qed

theorem neutral_renamed_unless_label_present_witness:
  "generateAivmMetadata example_platform example_v4 StyleBertVITS2 ''scenario_a.json'' (Some [])
     = Inr \<lparr>manifest = (DefaultAivmManifest example_platform)
            \<lparr>name := model_name hp_scenario_A,
             model_architecture := architecture_of hp_scenario_A, uuid := example_v4 0,
             speakers := generated_speakers example_platform example_v4 hp_scenario_A\<rparr>,
          hyper_parameters = hp_scenario_A, style_vectors = Some []\<rparr> \<and>
   style2id (data hp_scenario_A) = [(Neutral, 0)] \<and>
   map (\<lambda>sp. map style_name (styles sp))
       (generated_speakers example_platform example_v4 hp_scenario_A) = [[Normal_ja]] \<and>
   generateAivmMetadata example_platform example_v4 StyleBertVITS2 ''scenario_b.json'' (Some [])
     = Inr \<lparr>manifest = (DefaultAivmManifest example_platform)
            \<lparr>name := model_name hp_scenario_B,
             model_architecture := architecture_of hp_scenario_B, uuid := example_v4 0,
             speakers := generated_speakers example_platform example_v4 hp_scenario_B\<rparr>,
          hyper_parameters = hp_scenario_B, style_vectors = Some []\<rparr> \<and>
   style2id (data hp_scenario_B) = [(Neutral, 0), (Normal_ja, 1)] \<and>
   map (\<lambda>sp. map style_name (styles sp))
       (generated_speakers example_platform example_v4 hp_scenario_B)
     = [[Neutral, Normal_ja]] \<and>
   (\<exists>updated ws.
      updateAivmMetadata example_platform example_v4 metadata_alice ''bob_carol.json''
        (Some [4, 5]) = Inr (updated, ws) \<and>
      style2id (data (hyper_parameters updated)) = [(Neutral, 0), (''Joy'', 1), (''Angry'', 2)] \<and>
      map styles (speakers (manifest updated)) =
        [[\<lparr>style_name = Normal_ja, style_icon = None, style_local_id = 0,
            voice_samples = []\<rparr>,
          \<lparr>style_name = ''Happy'', style_icon = Some ''data:image/png;base64,SEFQUFk='',
            style_local_id = 1,
            voice_samples = [\<lparr>audio = ''data:audio/wav;base64,AAAA'',
                               transcript = ''hello''\<rparr>]\<rparr>,
          \<lparr>style_name = ''Angry'', style_icon = None, style_local_id = 2,
            voice_samples = []\<rparr>],
         [\<lparr>style_name = Normal_ja, style_icon = None, style_local_id = 0,
            voice_samples = []\<rparr>,
          \<lparr>style_name = ''Joy'', style_icon = None, style_local_id = 1,
            voice_samples = []\<rparr>,
          \<lparr>style_name = ''Angry'', style_icon = None, style_local_id = 2,
            voice_samples = []\<rparr>]])"
proof -
  let ?mdA = "\<lparr>manifest = (DefaultAivmManifest example_platform)
            \<lparr>name := model_name hp_scenario_A,
             model_architecture := architecture_of hp_scenario_A, uuid := example_v4 0,
             speakers := generated_speakers example_platform example_v4 hp_scenario_A\<rparr>,
          hyper_parameters = hp_scenario_A, style_vectors = Some []\<rparr>"
  let ?mdB = "\<lparr>manifest = (DefaultAivmManifest example_platform)
            \<lparr>name := model_name hp_scenario_B,
             model_architecture := architecture_of hp_scenario_B, uuid := example_v4 0,
             speakers := generated_speakers example_platform example_v4 hp_scenario_B\<rparr>,
          hyper_parameters = hp_scenario_B, style_vectors = Some []\<rparr>"
  have sA: "style2id (data hp_scenario_A) = [(Neutral, 0)]"
    by (simp add: hp_scenario_A_def example_hp_def)
  have sB: "style2id (data hp_scenario_B) = [(Neutral, 0), (Normal_ja, 1)]"
    by (simp add: hp_scenario_B_def example_hp_def)
  have lA: "generated_speakers example_platform example_v4 hp_scenario_A \<noteq> []"
           "length (generated_speakers example_platform example_v4 hp_scenario_A) = 1"
    by (simp_all add: generated_speakers_def hp_scenario_A_def example_hp_def)
  have lB: "length (generated_speakers example_platform example_v4 hp_scenario_B) = 1"
    by (simp add: generated_speakers_def hp_scenario_B_def example_hp_def)
  have NN: "Neutral \<noteq> Normal_ja"
    by (simp add: Neutral_def Normal_ja_def)
  have A: "\<forall>sp \<in> set (generated_speakers example_platform example_v4 hp_scenario_A).
             map style_name (styles sp) = [Normal_ja]"
    using neutral_renamed_unless_label_present
      [of example_platform example_v4 StyleBertVITS2 "''scenario_a.json''" "Some []" ?mdA]
      generate_scenario_A sA NN
    by simp
  have B: "\<forall>sp \<in> set (generated_speakers example_platform example_v4 hp_scenario_B).
             map style_name (styles sp) = [Neutral, Normal_ja]"
    using neutral_renamed_unless_label_present
      [of example_platform example_v4 StyleBertVITS2 "''scenario_b.json''" "Some []" ?mdB]
      generate_scenario_B sB NN
    by simp
  have A': "map (\<lambda>sp. map style_name (styles sp))
       (generated_speakers example_platform example_v4 hp_scenario_A) = [[Normal_ja]]"
    using A lA by (cases "generated_speakers example_platform example_v4 hp_scenario_A") auto
  have B': "map (\<lambda>sp. map style_name (styles sp))
       (generated_speakers example_platform example_v4 hp_scenario_B) = [[Neutral, Normal_ja]]"
    using B lB by (cases "generated_speakers example_platform example_v4 hp_scenario_B") auto
  obtain updated ws where
    upd: "updateAivmMetadata example_platform example_v4 metadata_alice ''bob_carol.json''
            (Some [4, 5]) = Inr (updated, ws)" and
    hp: "hyper_parameters updated = hp_bob_carol"
    using update_alice by simp
  have s2i: "style2id (data hp_bob_carol) = [(Neutral, 0), (''Joy'', 1), (''Angry'', 2)]"
    and spk: "spk2id (data hp_bob_carol) = [(''Bob'', 0), (''Carol'', 1)]"
    by (simp_all add: hp_bob_carol_def example_hp_def)
  have rhs: "
        map (\<lambda>sp.
               filter (\<lambda>st. has_id (style2id (data hp_bob_carol))
                              (style_local_id st)) (styles sp) @
               map (\<lambda>(key, local_id).
                      \<lparr>style_name =
                         (if key = Neutral \<and>
                             Normal_ja \<notin> fst ` set (style2id (data hp_bob_carol))
                          then Normal_ja else key),
                       style_icon = None, style_local_id = local_id, voice_samples = []\<rparr>)
                   (filter (\<lambda>e. snd e \<notin> style_local_id `
                               set (filter (\<lambda>st. has_id (style2id (data hp_bob_carol))
                                              (style_local_id st)) (styles sp)))
                      (style2id (data hp_bob_carol))))
            (filter (\<lambda>sp. has_id (spk2id (data hp_bob_carol))
                           (speaker_local_id sp))
               (speakers (manifest metadata_alice))) @
        map (\<lambda>e. map (\<lambda>(key, local_id).
                         \<lparr>style_name =
                            (if key = Neutral \<and>
                                Normal_ja \<notin> fst ` set (style2id (data hp_bob_carol))
                             then Normal_ja else key),
                          style_icon = None, style_local_id = local_id, voice_samples = []\<rparr>)
                      (style2id (data hp_bob_carol)))
            (filter (\<lambda>e. snd e \<notin> speaker_local_id `
                        set (filter (\<lambda>sp. has_id (spk2id (data hp_bob_carol))
                                       (speaker_local_id sp))
                               (speakers (manifest metadata_alice))))
               (spk2id (data hp_bob_carol))) =
        [[\<lparr>style_name = Normal_ja, style_icon = None, style_local_id = 0,
            voice_samples = []\<rparr>,
          \<lparr>style_name = ''Happy'', style_icon = Some ''data:image/png;base64,SEFQUFk='',
            style_local_id = 1,
            voice_samples = [\<lparr>audio = ''data:audio/wav;base64,AAAA'',
                               transcript = ''hello''\<rparr>]\<rparr>,
          \<lparr>style_name = ''Angry'', style_icon = None, style_local_id = 2,
            voice_samples = []\<rparr>],
         [\<lparr>style_name = Normal_ja, style_icon = None, style_local_id = 0,
            voice_samples = []\<rparr>,
          \<lparr>style_name = ''Joy'', style_icon = None, style_local_id = 1,
            voice_samples = []\<rparr>,
          \<lparr>style_name = ''Angry'', style_icon = None, style_local_id = 2,
            voice_samples = []\<rparr>]]"
    by code_simp
  from neutral_renamed_unless_label_present
         [of example_platform example_v4 StyleBertVITS2 "''scenario_a.json''" "Some []" ?mdA
             metadata_alice "''bob_carol.json''" "Some [4, 5]" updated ws,
          THEN conjunct2, rule_format, OF upd]
  have "map styles (speakers (manifest updated)) =
        [[\<lparr>style_name = Normal_ja, style_icon = None, style_local_id = 0,
            voice_samples = []\<rparr>,
          \<lparr>style_name = ''Happy'', style_icon = Some ''data:image/png;base64,SEFQUFk='',
            style_local_id = 1,
            voice_samples = [\<lparr>audio = ''data:audio/wav;base64,AAAA'',
                               transcript = ''hello''\<rparr>]\<rparr>,
          \<lparr>style_name = ''Angry'', style_icon = None, style_local_id = 2,
            voice_samples = []\<rparr>],
         [\<lparr>style_name = Normal_ja, style_icon = None, style_local_id = 0,
            voice_samples = []\<rparr>,
          \<lparr>style_name = ''Joy'', style_icon = None, style_local_id = 1,
            voice_samples = []\<rparr>,
          \<lparr>style_name = ''Angry'', style_icon = None, style_local_id = 2,
            voice_samples = []\<rparr>]]"
    unfolding hp rhs .
  with upd hp s2i have C: "\<exists>updated ws.
      updateAivmMetadata example_platform example_v4 metadata_alice ''bob_carol.json''
        (Some [4, 5]) = Inr (updated, ws) \<and>
      style2id (data (hyper_parameters updated)) = [(Neutral, 0), (''Joy'', 1), (''Angry'', 2)] \<and>
      map styles (speakers (manifest updated)) =
        [[\<lparr>style_name = Normal_ja, style_icon = None, style_local_id = 0,
            voice_samples = []\<rparr>,
          \<lparr>style_name = ''Happy'', style_icon = Some ''data:image/png;base64,SEFQUFk='',
            style_local_id = 1,
            voice_samples = [\<lparr>audio = ''data:audio/wav;base64,AAAA'',
                               transcript = ''hello''\<rparr>]\<rparr>,
          \<lparr>style_name = ''Angry'', style_icon = None, style_local_id = 2,
            voice_samples = []\<rparr>],
         [\<lparr>style_name = Normal_ja, style_icon = None, style_local_id = 0,
            voice_samples = []\<rparr>,
          \<lparr>style_name = ''Joy'', style_icon = None, style_local_id = 1,
            voice_samples = []\<rparr>,
          \<lparr>style_name = ''Angry'', style_icon = None, style_local_id = 2,
            voice_samples = []\<rparr>]]"
    by (intro exI [of _ updated] exI [of _ ws]) simp
  show ?thesis
    using generate_scenario_A generate_scenario_B sA sB A' B' C by simp
qed

subsection \<open>updateAivmMetadata: the final check\<close>

lemma update_never_fails_the_check:
  assumes "loadAndValidateHyperParametersAndStyleVectors P
             (model_architecture (manifest existing)) hp_file sv_file = Inr (hp, sv)"
  shows "\<exists>updated ws. updateAivmMetadata P v4 existing hp_file sv_file = Inr (updated, ws)"
proof -
  let ?arch = "model_architecture (manifest existing)"
  let ?kept = "filter (\<lambda>sp. has_id (spk2id (data hp)) (speaker_local_id sp))
                 (speakers (manifest existing))"
  let ?new = "filter (\<lambda>e. snd e \<notin> speaker_local_id ` set ?kept) (spk2id (data hp))"
  let ?mk = "\<lambda>(k, e). \<lparr>speaker_name = fst e, speaker_icon = DEFAULT_ICON_DATA_URL P,
                 supported_languages = languages_of hp, speaker_uuid = v4 k,
                 speaker_local_id = snd e,
                 styles = new_speaker_styles (style2id (data hp))\<rparr>"
  let ?sps = "map (reconciled_speaker hp) ?kept @ map ?mk (enumerate 0 ?new)"
  from assms have arch: "is_style_bert_vits2 ?arch"
    and spk: "spk2id (data hp) \<noteq> []" and sty: "style2id (data hp) \<noteq> []"
    by (auto simp: loadAndValidateHyperParametersAndStyleVectors_def
        split: if_splits option.splits)
  have ne: "?sps \<noteq> []"
  proof (cases "?new = []")
    case True
    obtain e where e: "e \<in> set (spk2id (data hp))"
      using spk by (cases "spk2id (data hp)") auto
    with True have "snd e \<in> speaker_local_id ` set ?kept"
      by (auto simp: filter_empty_conv)
    then obtain x where "x \<in> set ?kept" by (elim imageE)
    then have "0 < length ?kept" by (rule length_pos_if_in_set)
    then show ?thesis by simp
  next
    case False
    then have "enumerate 0 ?new \<noteq> []"
      by (metis length_enumerate length_0_conv)
    then show ?thesis by (simp del: set_filter)
  qed
  have styles_kept: "styles (reconciled_speaker hp sp) \<noteq> []" for sp
  proof (cases "kept_styles (style2id (data hp)) sp = []")
    case True
    then have "added_entries (style2id (data hp)) sp = style2id (data hp)"
      by (simp add: added_entries_def)
    with sty show ?thesis
      by (simp add: reconciled_speaker_def)
  next
    case False
    then show ?thesis by (simp add: reconciled_speaker_def)
  qed
  have "\<forall>sp \<in> set ?sps. styles sp \<noteq> []"
    using styles_kept sty by (auto simp: new_speaker_styles_def)
  with ne have chk: "check_updated_speakers ?sps = None"
    by (simp only: check_updated_speakers_None) simp
  show ?thesis
    using assms arch chk
    by (simp add: updateAivmMetadata_def Let_def existing_speakers_loop_eq
        new_speakers_loop_eq)
qed

text \<open>
  C8. A manifest returned by \<open>updateAivmMetadata\<close> has at least one speaker and every
  speaker in it has at least one style: the two checks after the loops pass only for such
  a speaker list, throw "speakers became empty" for the empty list, and throw "styles
  became empty" for the first speaker without styles. These are thrown errors
  (\<open>Inl\<close>), not entries of the warning list.
\<close>

theorem update_never_returns_empty_lists:
  "(updateAivmMetadata P v4 existing hp_file sv_file = Inr (updated, ws) \<longrightarrow>
      speakers (manifest updated) \<noteq> [] \<and>
      (\<forall>sp \<in> set (speakers (manifest updated)). styles sp \<noteq> [])) \<and>
   check_updated_speakers [] = Some SpeakersBecameEmpty \<and>
   (check_updated_speakers sps = None \<longleftrightarrow>
      sps \<noteq> [] \<and> (\<forall>sp \<in> set sps. styles sp \<noteq> [])) \<and>
   (sps \<noteq> [] \<and> (\<exists>sp \<in> set sps. styles sp = []) \<longrightarrow>
      (\<exists>sp \<in> set sps. styles sp = [] \<and>
         check_updated_speakers sps =
           Some (StylesBecameEmpty (speaker_name sp) (speaker_local_id sp))))"
proof (intro conjI impI)
  assume upd: "updateAivmMetadata P v4 existing hp_file sv_file = Inr (updated, ws)"
  then have "check_updated_speakers (speakers (manifest updated)) = None"
    by (auto simp: updateAivmMetadata_def Let_def
        split: sum.splits if_splits option.splits prod.splits)
  then show "speakers (manifest updated) \<noteq> []"
    and "\<forall>sp \<in> set (speakers (manifest updated)). styles sp \<noteq> []"
    by (simp_all add: check_updated_speakers_None)
next
  show "check_updated_speakers [] = Some SpeakersBecameEmpty"
    by (simp add: check_updated_speakers_def)
next
  show "check_updated_speakers sps = None \<longleftrightarrow>
          sps \<noteq> [] \<and> (\<forall>sp \<in> set sps. styles sp \<noteq> [])"
    by (rule check_updated_speakers_None)
next
  assume a: "sps \<noteq> [] \<and> (\<exists>sp \<in> set sps. styles sp = [])"
  then obtain sp where sp: "find (\<lambda>sp. styles sp = []) sps = Some sp"
    by (cases "find (\<lambda>sp. styles sp = []) sps") (auto simp: find_None_iff)
  then have "sp \<in> set sps \<and> styles sp = []"
    by (auto simp: find_Some_iff)
  with a sp show "\<exists>sp \<in> set sps. styles sp = [] \<and>
         check_updated_speakers sps =
           Some (StylesBecameEmpty (speaker_name sp) (speaker_local_id sp))"
    by (auto simp: check_updated_speakers_def)
qed
theorem update_never_returns_empty_lists_witness:
  "(\<exists>updated ws.
      updateAivmMetadata example_platform example_v4 metadata_alice ''bob_carol.json''
        (Some [4, 5]) = Inr (updated, ws) \<and>
      map speaker_name (speakers (manifest updated)) = [''Alice'', ''Carol''] \<and>
      speakers (manifest updated) \<noteq> [] \<and>
      list_all (\<lambda>sp. styles sp \<noteq> []) (speakers (manifest updated))) \<and>
   check_updated_speakers [] = Some SpeakersBecameEmpty \<and>
   check_updated_speakers
     [\<lparr>speaker_name = ''Dan'', speaker_icon = '''', supported_languages = [],
       speaker_uuid = '''', speaker_local_id = 7, styles = []\<rparr>]
     = Some (StylesBecameEmpty ''Dan'' 7)"
proof -
  let ?dan = "\<lparr>speaker_name = ''Dan'', speaker_icon = '''', supported_languages = [],
       speaker_uuid = '''', speaker_local_id = 7, styles = []\<rparr>"
  obtain updated ws where
    upd: "updateAivmMetadata example_platform example_v4 metadata_alice ''bob_carol.json''
            (Some [4, 5]) = Inr (updated, ws)" and
    names: "map speaker_name (speakers (manifest updated)) = [''Alice'', ''Carol'']"
    using update_alice by simp
  note inst = update_never_returns_empty_lists
    [of example_platform example_v4 metadata_alice "''bob_carol.json''" "Some [4, 5]"
        updated ws "[?dan]"]
  from inst upd have ne: "speakers (manifest updated) \<noteq> []"
    and all: "list_all (\<lambda>sp. styles sp \<noteq> []) (speakers (manifest updated))"
    by (simp_all add: list_all_iff)
  from inst have e: "check_updated_speakers [] = Some SpeakersBecameEmpty"
    by simp
  from inst have "\<exists>sp \<in> set [?dan]. styles sp = [] \<and>
         check_updated_speakers [?dan] =
           Some (StylesBecameEmpty (speaker_name sp) (speaker_local_id sp))"
    by simp
  then have d: "check_updated_speakers [?dan] = Some (StylesBecameEmpty ''Dan'' 7)"
    by simp
  have "\<exists>updated ws.
      updateAivmMetadata example_platform example_v4 metadata_alice ''bob_carol.json''
        (Some [4, 5]) = Inr (updated, ws) \<and>
      map speaker_name (speakers (manifest updated)) = [''Alice'', ''Carol''] \<and>
      speakers (manifest updated) \<noteq> [] \<and>
      list_all (\<lambda>sp. styles sp \<noteq> []) (speakers (manifest updated))"
    using upd names ne all by (intro exI [of _ updated] exI [of _ ws]) simp
  with e d show ?thesis
    by (intro conjI)
qed

subsection \<open>updateAivmMetadata: styles kept by local id\<close>

text \<open>
  The revision with \<open>loadAndValidateHyperParametersAndStyleVectors\<close> keeps styles by
  \<open>local_id\<close>. When its \<open>updateAivmMetadata\<close> returns, every existing speaker whose \<open>local_id\<close> is a
  value of the new \<open>spk2id\<close> is in the result with all its fields except
  \<open>supported_languages\<close> and \<open>styles\<close>; its styles begin with the existing styles whose
  \<open>local_id\<close> is a value of the new \<open>style2id\<close>, unchanged (name, icon, local id and
  voice samples) and in their order, whatever name the new map gives those ids; every
  other existing style is absent from the result and has a \<open>StyleRemoved\<close> warning with
  the speaker's and the style's name.
\<close>

lemma update_keeps_styles_by_local_id:
  "updateAivmMetadata P v4 existing hp_file sv_file = Inr (updated, ws) \<longrightarrow>
   (\<forall>sp \<in> set (speakers (manifest existing)).
      has_id (spk2id (data (hyper_parameters updated))) (speaker_local_id sp) \<longrightarrow>
      (\<exists>sp' \<in> set (speakers (manifest updated)). \<exists>added.
         sp' = sp\<lparr>supported_languages := supported_languages sp', styles := styles sp'\<rparr> \<and>
         styles sp' =
           filter (\<lambda>st. has_id (style2id (data (hyper_parameters updated))) (style_local_id st))
             (styles sp) @ added \<and>
         (\<forall>st \<in> set added.
            has_id (style2id (data (hyper_parameters updated))) (style_local_id st)) \<and>
         (\<forall>st \<in> set (styles sp).
            \<not> has_id (style2id (data (hyper_parameters updated))) (style_local_id st) \<longrightarrow>
            st \<notin> set (styles sp') \<and>
            StyleRemoved (speaker_name sp) (style_name st) (style_local_id st) \<in> set ws)))"
proof (intro impI ballI)
  fix sp
  assume upd: "updateAivmMetadata P v4 existing hp_file sv_file = Inr (updated, ws)"
     and sp: "sp \<in> set (speakers (manifest existing))"
     and has: "has_id (spk2id (data (hyper_parameters updated))) (speaker_local_id sp)"
  let ?hp = "hyper_parameters updated"
  let ?s2i = "style2id (data ?hp)"
  let ?added = "map (created_style ?s2i) (added_entries ?s2i sp)"
  from update_closed_form [OF upd] have
    sps: "reconciled_speaker ?hp sp \<in> set (speakers (manifest updated))" and
    ws: "set (speaker_warnings ?hp sp) \<subseteq> set ws"
    using sp has by auto
  have 1: "reconciled_speaker ?hp sp =
             sp\<lparr>supported_languages := supported_languages (reconciled_speaker ?hp sp),
                styles := styles (reconciled_speaker ?hp sp)\<rparr>"
    by (simp add: reconciled_speaker_def)
  have 2: "styles (reconciled_speaker ?hp sp) =
             filter (\<lambda>st. has_id ?s2i (style_local_id st)) (styles sp) @ ?added"
    by (simp add: reconciled_speaker_def kept_styles_def)
  have 3: "\<forall>st \<in> set ?added. has_id ?s2i (style_local_id st)"
    by (auto simp: created_style_def added_entries_def has_id_def)
  have 4: "\<forall>st \<in> set (styles sp). \<not> has_id ?s2i (style_local_id st) \<longrightarrow>
            st \<notin> set (styles (reconciled_speaker ?hp sp)) \<and>
            StyleRemoved (speaker_name sp) (style_name st) (style_local_id st) \<in> set ws"
  proof (intro ballI impI conjI)
    fix st
    assume st: "st \<in> set (styles sp)" and no: "\<not> has_id ?s2i (style_local_id st)"
    show "st \<notin> set (styles (reconciled_speaker ?hp sp))"
      using no 3 unfolding 2 by auto
    have "StyleRemoved (speaker_name sp) (style_name st) (style_local_id st)
            \<in> set (speaker_warnings ?hp sp)"
      using st no has by (simp add: speaker_warnings_def)
    with ws show "StyleRemoved (speaker_name sp) (style_name st) (style_local_id st) \<in> set ws"
      by blast
  qed
  from sps 1 2 3 4
  show "\<exists>sp' \<in> set (speakers (manifest updated)). \<exists>added.
         sp' = sp\<lparr>supported_languages := supported_languages sp', styles := styles sp'\<rparr> \<and>
         styles sp' = filter (\<lambda>st. has_id ?s2i (style_local_id st)) (styles sp) @ added \<and>
         (\<forall>st \<in> set added. has_id ?s2i (style_local_id st)) \<and>
         (\<forall>st \<in> set (styles sp). \<not> has_id ?s2i (style_local_id st) \<longrightarrow>
            st \<notin> set (styles sp') \<and>
            StyleRemoved (speaker_name sp) (style_name st) (style_local_id st) \<in> set ws)"
    by blast
qed
lemma update_keeps_styles_by_local_id_example:
  "\<exists>updated ws.
     updateAivmMetadata example_platform example_v4 metadata_alice ''bob_carol.json''
       (Some [4, 5]) = Inr (updated, ws) \<and>
     style2id (data (hyper_parameters updated)) = [(Neutral, 0), (''Joy'', 1), (''Angry'', 2)] \<and>
     map (\<lambda>st. (style_name st, style_local_id st))
         (styles (hd (speakers (manifest metadata_alice))))
       = [(Normal_ja, 0), (''Happy'', 1), (''Sad'', 5)] \<and>
     map (\<lambda>st. (style_name st, style_local_id st)) (styles (hd (speakers (manifest updated))))
       = [(Normal_ja, 0), (''Happy'', 1), (''Angry'', 2)] \<and>
     take 2 (styles (hd (speakers (manifest updated))))
       = take 2 (styles (hd (speakers (manifest metadata_alice)))) \<and>
     StyleRemoved ''Alice'' ''Sad'' 5 \<in> set ws"
proof -
  let ?alice = "hd (speakers (manifest metadata_alice))"
  let ?sad = "\<lparr>style_name = ''Sad'', style_icon = None, style_local_id = 5,
               voice_samples = []\<rparr>"
  obtain updated ws where
    upd: "updateAivmMetadata example_platform example_v4 metadata_alice ''bob_carol.json''
            (Some [4, 5]) = Inr (updated, ws)" and
    hp: "hyper_parameters updated = hp_bob_carol" and
    sts: "map (\<lambda>st. (style_name st, style_local_id st))
            (styles (hd (speakers (manifest updated))))
          = [(Normal_ja, 0), (''Happy'', 1), (''Angry'', 2)]" and
    tk: "take 2 (styles (hd (speakers (manifest updated))))
          = take 2 (styles (hd (speakers (manifest metadata_alice))))"
    using update_alice by (simp add: metadata_alice_def)
  have s2i: "style2id (data hp_bob_carol) = [(Neutral, 0), (''Joy'', 1), (''Angry'', 2)]"
    and spk: "spk2id (data hp_bob_carol) = [(''Bob'', 0), (''Carol'', 1)]"
    by (simp_all add: hp_bob_carol_def example_hp_def)
  have alice: "?alice \<in> set (speakers (manifest metadata_alice))"
    "speaker_local_id ?alice = 0" "speaker_name ?alice = ''Alice''"
    "?sad \<in> set (styles ?alice)"
    "map (\<lambda>st. (style_name st, style_local_id st)) (styles ?alice)
       = [(Normal_ja, 0), (''Happy'', 1), (''Sad'', 5)]"
    by (simp_all add: metadata_alice_def)
  have retained: "has_id (spk2id (data (hyper_parameters updated))) (speaker_local_id ?alice)"
    by (simp add: hp spk alice(2) has_id_def)
  have gone: "\<not> has_id (style2id (data (hyper_parameters updated))) (style_local_id ?sad)"
    by (simp add: hp s2i has_id_def)
  let ?s2i = "style2id (data (hyper_parameters updated))"
  let ?D = "\<lambda>sp'. \<forall>st \<in> set (styles ?alice).
        \<not> has_id ?s2i (style_local_id st) \<longrightarrow>
        st \<notin> set (styles sp') \<and>
        StyleRemoved (speaker_name ?alice) (style_name st) (style_local_id st) \<in> set ws"
  from update_keeps_styles_by_local_id
         [of example_platform example_v4 metadata_alice "''bob_carol.json''" "Some [4, 5]"
             updated ws, rule_format, OF upd alice(1) retained]
  obtain sp' where
    "\<exists>added.
       sp' = ?alice\<lparr>supported_languages := supported_languages sp', styles := styles sp'\<rparr> \<and>
       styles sp' = filter (\<lambda>st. has_id ?s2i (style_local_id st)) (styles ?alice) @ added \<and>
       (\<forall>st \<in> set added. has_id ?s2i (style_local_id st)) \<and> ?D sp'" ..
  then obtain added where
    "sp' = ?alice\<lparr>supported_languages := supported_languages sp', styles := styles sp'\<rparr> \<and>
       styles sp' = filter (\<lambda>st. has_id ?s2i (style_local_id st)) (styles ?alice) @ added \<and>
       (\<forall>st \<in> set added. has_id ?s2i (style_local_id st)) \<and> ?D sp'" ..
  then have D: "?D sp'"
    by (elim conjE)
  from D [rule_format, OF alice(4) gone, THEN conjunct2]
  have "StyleRemoved (speaker_name ?alice) (style_name ?sad) (style_local_id ?sad) \<in> set ws" .
  then have w: "StyleRemoved ''Alice'' ''Sad'' 5 \<in> set ws"
    by (simp add: alice(3))
  show ?thesis
    using upd sts tk w alice(5) s2i hp
    by (intro exI [of _ updated] exI [of _ ws]) simp
qed


subsection \<open>applyAivmManifestToHyperParameters applied twice\<close>

lemma rebuild_id_map_eq:
  "rebuild_id_map old ps acc = set_all (filter (\<lambda>(n, i). found old i) ps) acc"
  by (induction ps arbitrary: acc) (auto simp: found_def set_all_def split: option.splits)

lemma map_of_set_all: "map_of (set_all ps acc) = map_of acc ++ map_of (rev ps)"
  by (induction ps arbitrary: acc) (auto simp: set_all_def map_of_obj_set fun_eq_iff map_add_def split: option.splits)

lemma distinct_set_all: "distinct (map fst acc) \<Longrightarrow> distinct (map fst (set_all ps acc))"
  by (induction ps arbitrary: acc) (auto simp: set_all_def distinct_obj_set)


lemma set_set_all_subset: "set (set_all ps []) \<subseteq> set ps"
proof
  fix x assume x: "x \<in> set (set_all ps [])"
  have d: "distinct (map fst (set_all ps []))"
    by (rule distinct_set_all) simp
  from x d have "map_of (set_all ps []) (fst x) = Some (snd x)"
    by simp
  then have "map_of (rev ps) (fst x) = Some (snd x)"
    by (simp add: map_of_set_all)
  then have "(fst x, snd x) \<in> set (rev ps)"
    by (rule map_of_SomeD)
  then show "x \<in> set ps" by simp
qed

lemma find_key_None: "find_key m i = None \<longleftrightarrow> i \<notin> snd ` set m"
  by (induction m) (auto split: if_splits)

lemma find_key_Some: "find_key m i = Some k \<Longrightarrow> (k, i) \<in> set m"
  by (induction m) (auto split: if_splits)

lemma found_nonempty_keys:
  assumes "\<forall>k \<in> fst ` set m. k \<noteq> []"
  shows "found m i \<longleftrightarrow> i \<in> snd ` set m"
proof (cases "find_key m i")
  case None
  then have "i \<notin> snd ` set m" by (simp add: find_key_None)
  with None show ?thesis by (simp add: found_def)
next
  case (Some k)
  then have "(k, i) \<in> set m" by (rule find_key_Some)
  with assms Some show ?thesis by (force simp: found_def)
qed

lemma map_of_rev_filter_Some:
  assumes "map_of (rev F) n = Some i" and "Q (n, i)"
  shows "map_of (rev (filter Q F)) n = Some i"
  using assms
proof (induction F)
  case Nil
  then show ?case by simp
next
  case (Cons x F)
  show ?case
  proof (cases "map_of (rev F) n")
    case None
    with Cons.prems have x: "x = (n, i)"
      by (cases x) (auto simp: map_add_def split: if_splits)
    from None have "n \<notin> fst ` set (rev F)"
      by (simp add: map_of_eq_None_iff)
    then have "n \<notin> fst ` set (rev (filter Q F))" by auto
    then have "map_of (rev (filter Q F)) n = None"
      by (simp add: map_of_eq_None_iff)
    with x Cons.prems(2) show ?thesis
      by (simp add: map_add_def)
  next
    case (Some j)
    with Cons.prems have "j = i"
      by (simp add: map_add_def)
    with Some Cons.IH Cons.prems(2) have "map_of (rev (filter Q F)) n = Some i"
      by simp
    then show ?thesis
      by (simp add: map_add_def)
  qed
qed

text \<open>One pass of rebuilding, then a second pass against the result of the first.\<close>

lemma rebuild_twice_map_of:
  assumes names: "\<forall>n \<in> fst ` set ps. n \<noteq> []"
  shows "map_of (rebuild_id_map (rebuild_id_map old ps []) ps []) =
         map_of (rebuild_id_map old ps [])"
proof -
  let ?F = "filter (\<lambda>(n, i). found old i) ps"
  let ?S1 = "set_all ?F []"
  let ?Q = "\<lambda>(n::string, i). i \<in> snd ` set ?S1"
  have sub: "set ?S1 \<subseteq> set ?F" by (rule set_set_all_subset)
  have keys: "\<forall>k \<in> fst ` set ?S1. k \<noteq> []"
    using sub names by force
  have found1: "found ?S1 i \<longleftrightarrow> i \<in> snd ` set ?S1" for i
    by (rule found_nonempty_keys [OF keys])
  have QF: "filter ?Q ps = filter ?Q ?F"
  proof -
    have imp: "(\<lambda>(n, i). found old i) x" if "x \<in> set ps" "?Q x" for x
    proof -
      obtain n i where x: "x = (n, i)" by (cases x)
      with that(2) obtain k where "(k, i) \<in> set ?S1" by auto
      with sub have "(k, i) \<in> set ?F" by blast
      then have "found old i" by simp
      with x show ?thesis by simp
    qed
    have "filter ?Q ?F = filter (\<lambda>x. (\<lambda>(n, i). found old i) x \<and> ?Q x) ps"
      by (simp only: filter_filter)
    also have "\<dots> = filter ?Q ps"
      by (rule filter_cong [OF refl]) (use imp in blast)
    finally show ?thesis by simp
  qed
  have S2: "rebuild_id_map ?S1 ps [] = set_all (filter ?Q ?F) []"
    by (simp only: rebuild_id_map_eq found1 QF)
  have d1: "distinct (map fst ?S1)" by (rule distinct_set_all) simp
  have "map_of (rev (filter ?Q ?F)) n = map_of (rev ?F) n" for n
  proof (cases "map_of (rev ?F) n")
    case None
    then have "n \<notin> fst ` set (rev ?F)" by (simp add: map_of_eq_None_iff)
    then have "n \<notin> fst ` set (rev (filter ?Q ?F))" by auto
    then have "map_of (rev (filter ?Q ?F)) n = None" by (simp add: map_of_eq_None_iff)
    with None show ?thesis by simp
  next
    case (Some i)
    then have "map_of ?S1 n = Some i" by (simp add: map_of_set_all)
    with d1 have "(n, i) \<in> set ?S1" by simp
    then have "?Q (n, i)" by force
    from map_of_rev_filter_Some [of ?F n i ?Q, OF Some this] Some show ?thesis by simp
  qed
  then have "map_of (set_all (filter ?Q ?F) []) = map_of ?S1"
    by (simp add: map_of_set_all fun_eq_iff)
  then have "map_of (rebuild_id_map ?S1 ps []) = map_of ?S1"
    by (simp only: S2)
  then show ?thesis
    by (simp only: rebuild_id_map_eq [of old])
qed


lemma rebuild_distinct: "distinct (map fst (rebuild_id_map old ps []))"
  unfolding rebuild_id_map_eq by (rule distinct_set_all) simp

lemma set_eq_of_map_of_eq:
  assumes "distinct (map fst xs)" "distinct (map fst ys)" "map_of xs = map_of ys"
  shows "set xs = set ys"
proof -
  have "(k, v) \<in> set xs \<longleftrightarrow> (k, v) \<in> set ys" for k v
    using assms by (metis map_of_eq_Some_iff)
  then show ?thesis by auto
qed

lemma rebuild_twice_set:
  assumes "\<forall>n \<in> fst ` set ps. n \<noteq> []"
  shows "set (rebuild_id_map (rebuild_id_map old ps []) ps []) = set (rebuild_id_map old ps [])"
  by (rule set_eq_of_map_of_eq [OF rebuild_distinct rebuild_distinct
        rebuild_twice_map_of [OF assms]])

lemma rebuild_twice_length:
  assumes "\<forall>n \<in> fst ` set ps. n \<noteq> []"
  shows "length (rebuild_id_map (rebuild_id_map old ps []) ps []) =
         length (rebuild_id_map old ps [])"
proof -
  have d: "distinct (rebuild_id_map old' ps [])" for old'
    using rebuild_distinct [of old' ps] by (rule distinct_map [THEN iffD1, THEN conjunct1])
  have "card (set (rebuild_id_map (rebuild_id_map old ps []) ps [])) =
        card (set (rebuild_id_map old ps []))"
    by (simp only: rebuild_twice_set [OF assms])
  then show ?thesis
    by (simp only: distinct_card [OF d])
qed

lemma rebuild_twice_same_list:
  assumes names: "\<forall>n \<in> fst ` set ps. n \<noteq> []"
      and func: "one_id_per_name ps"
  shows "rebuild_id_map (rebuild_id_map old ps []) ps [] = rebuild_id_map old ps []"
proof -
  let ?P = "\<lambda>(n::string, i). found old i"
  let ?F = "filter ?P ps"
  let ?S1 = "set_all ?F []"
  have sub: "set ?S1 \<subseteq> set ?F" by (rule set_set_all_subset)
  have keys: "\<forall>k \<in> fst ` set ?S1. k \<noteq> []"
    using sub names by force
  have found1: "found ?S1 i \<longleftrightarrow> i \<in> snd ` set ?S1" for i
    by (rule found_nonempty_keys [OF keys])
  have d1: "distinct (map fst ?S1)" by (rule distinct_set_all) simp
  have "(\<lambda>(n, i). found ?S1 i) x = ?P x" if x: "x \<in> set ps" for x
  proof -
    obtain n i where xe: "x = (n, i)" by (cases x)
    have "found ?S1 i \<longleftrightarrow> found old i"
    proof
      assume "found ?S1 i"
      then obtain k where "(k, i) \<in> set ?S1" by (auto simp: found1)
      with sub have "(k, i) \<in> set ?F" by blast
      then show "found old i" by simp
    next
      assume f: "found old i"
      with x xe have mem: "(n, i) \<in> set (rev ?F)" by simp
      then have "n \<in> fst ` set (rev ?F)" by force
      then obtain j where j: "map_of (rev ?F) n = Some j"
        by (cases "map_of (rev ?F) n") (simp_all add: map_of_eq_None_iff)
      then have "(n, j) \<in> set (rev ?F)" by (rule map_of_SomeD)
      then have "(n, j) \<in> set ps" by simp
      with func x xe have "j = i" unfolding one_id_per_name_def by fast
      with j have "map_of ?S1 n = Some i" by (simp add: map_of_set_all)
      with d1 have "(n, i) \<in> set ?S1" by simp
      then have "i \<in> snd ` set ?S1" by force
      then show "found ?S1 i" by (simp only: found1)
    qed
    with xe show ?thesis by simp
  qed
  then have "filter (\<lambda>(n, i). found ?S1 i) ps = ?F"
    by (intro filter_cong [OF refl])
  then have "rebuild_id_map ?S1 ps [] = ?S1"
    by (simp only: rebuild_id_map_eq)
  then show ?thesis
    by (simp only: rebuild_id_map_eq [of old])
qed
lemma sync_state_eq:
  "sync_state md =
     (if is_style_bert_vits2 (model_architecture (manifest md)) \<and> style_vectors md \<noteq> None
      then md\<lparr>hyper_parameters := (hyper_parameters md)
              \<lparr>model_name := name (manifest md),
               data := (data (hyper_parameters md))
                 \<lparr>training_files := Some ''train.list'',
                  validation_files := Some ''val.list'',
                  spk2id := rebuild_id_map (spk2id (data (hyper_parameters md)))
                              (speaker_ids (manifest md)) [],
                  n_speakers := int (length (rebuild_id_map (spk2id (data (hyper_parameters md)))
                              (speaker_ids (manifest md)) [])),
                  style2id := rebuild_id_map (style2id (data (hyper_parameters md)))
                              (style_ids (manifest md)) [],
                  num_styles := int (length (rebuild_id_map (style2id (data (hyper_parameters md)))
                              (style_ids (manifest md)) []))\<rparr>\<rparr>\<rparr>
      else md)"
  by (simp add: sync_state_def applyAivmManifestToHyperParameters_def Let_def)

text \<open>
  C9 (as amended). For an aggregate whose manifest has no empty speaker or style name,
  a second call of \<open>applyAivmManifestToHyperParameters\<close> changes nothing but, possibly,
  the order of the keys of \<open>spk2id\<close> and \<open>style2id\<close>: the manifest, the style vectors and
  every field of the hyper-parameters other than the two maps (model name, file fields,
  counts and the rest) are as after the first call, and the two maps hold the same
  entries. Where no name occurs with two ids, the maps are the same lists too.
\<close>

theorem sync_twice_same_entries:
  assumes "\<forall>sp \<in> set (speakers (manifest md)).
             speaker_name sp \<noteq> [] \<and> (\<forall>st \<in> set (styles sp). style_name st \<noteq> [])"
  shows "manifest (sync_state (sync_state md)) = manifest (sync_state md) \<and>
         style_vectors (sync_state (sync_state md)) = style_vectors (sync_state md) \<and>
         without_id_maps (hyper_parameters (sync_state (sync_state md))) =
           without_id_maps (hyper_parameters (sync_state md)) \<and>
         set (spk2id (data (hyper_parameters (sync_state (sync_state md))))) =
           set (spk2id (data (hyper_parameters (sync_state md)))) \<and>
         map_of (spk2id (data (hyper_parameters (sync_state (sync_state md))))) =
           map_of (spk2id (data (hyper_parameters (sync_state md)))) \<and>
         set (style2id (data (hyper_parameters (sync_state (sync_state md))))) =
           set (style2id (data (hyper_parameters (sync_state md)))) \<and>
         map_of (style2id (data (hyper_parameters (sync_state (sync_state md))))) =
           map_of (style2id (data (hyper_parameters (sync_state md)))) \<and>
         (one_id_per_name (speaker_ids (manifest md)) \<longrightarrow>
            spk2id (data (hyper_parameters (sync_state (sync_state md)))) =
            spk2id (data (hyper_parameters (sync_state md)))) \<and>
         (one_id_per_name (style_ids (manifest md)) \<longrightarrow>
            style2id (data (hyper_parameters (sync_state (sync_state md)))) =
            style2id (data (hyper_parameters (sync_state md))))"
proof (cases "is_style_bert_vits2 (model_architecture (manifest md)) \<and> style_vectors md \<noteq> None")
  case False
  then have "sync_state md = md"
    by (simp only: sync_state_eq if_False)
  then show ?thesis by simp
next
  case True
  let ?sp = "speaker_ids (manifest md)" and ?st = "style_ids (manifest md)"
  let ?S1 = "rebuild_id_map (spk2id (data (hyper_parameters md))) ?sp []"
  let ?T1 = "rebuild_id_map (style2id (data (hyper_parameters md))) ?st []"
  have nsp: "\<forall>n \<in> fst ` set ?sp. n \<noteq> []"
    using assms by (auto simp: speaker_ids_def)
  have nst: "\<forall>n \<in> fst ` set ?st. n \<noteq> []"
    using assms by (auto simp: style_ids_def)
  have once: "manifest (sync_state md) = manifest md"
    "style_vectors (sync_state md) = style_vectors md"
    "spk2id (data (hyper_parameters (sync_state md))) = ?S1"
    "style2id (data (hyper_parameters (sync_state md))) = ?T1"
    "without_id_maps (hyper_parameters (sync_state md)) =
       without_id_maps ((hyper_parameters md)
         \<lparr>model_name := name (manifest md),
          data := (data (hyper_parameters md))
            \<lparr>training_files := Some ''train.list'', validation_files := Some ''val.list'',
             n_speakers := int (length ?S1), num_styles := int (length ?T1)\<rparr>\<rparr>)"
    using True by (simp_all add: sync_state_eq [of md] without_id_maps_def)
  have True': "is_style_bert_vits2 (model_architecture (manifest (sync_state md))) \<and>
               style_vectors (sync_state md) \<noteq> None"
    using True by (simp add: once)
  have twice: "manifest (sync_state (sync_state md)) = manifest md"
    "style_vectors (sync_state (sync_state md)) = style_vectors md"
    "spk2id (data (hyper_parameters (sync_state (sync_state md)))) = rebuild_id_map ?S1 ?sp []"
    "style2id (data (hyper_parameters (sync_state (sync_state md)))) = rebuild_id_map ?T1 ?st []"
    "without_id_maps (hyper_parameters (sync_state (sync_state md))) =
       without_id_maps ((hyper_parameters md)
         \<lparr>model_name := name (manifest md),
          data := (data (hyper_parameters md))
            \<lparr>training_files := Some ''train.list'', validation_files := Some ''val.list'',
             n_speakers := int (length (rebuild_id_map ?S1 ?sp [])),
             num_styles := int (length (rebuild_id_map ?T1 ?st []))\<rparr>\<rparr>)"
    using True' unfolding sync_state_eq [of "sync_state md"]
    by (simp_all add: once without_id_maps_def sync_state_eq [of md] True)
  show ?thesis
    unfolding once twice
    using rebuild_twice_set [OF nsp] rebuild_twice_set [OF nst]
      rebuild_twice_map_of [OF nsp] rebuild_twice_map_of [OF nst]
      rebuild_twice_length [OF nsp] rebuild_twice_length [OF nst]
      rebuild_twice_same_list [OF nsp] rebuild_twice_same_list [OF nst]
    by simp
qed
lemma sync_state_frame:
  "manifest (sync_state md) = manifest md" "style_vectors (sync_state md) = style_vectors md"
  by (simp_all add: sync_state_eq)

theorem sync_twice_same_entries_witness:
  "list_all (\<lambda>sp. speaker_name sp \<noteq> [] \<and> list_all (\<lambda>st. style_name st \<noteq> []) (styles sp))
     (speakers (manifest metadata_alice)) \<and>
   one_id_per_name (speaker_ids (manifest metadata_alice)) \<and>
   one_id_per_name (style_ids (manifest metadata_alice)) \<and>
   spk2id (data (hyper_parameters (sync_state metadata_alice))) = [(''Alice'', 0)] \<and>
   style2id (data (hyper_parameters (sync_state metadata_alice)))
     = [(Normal_ja, 0), (''Happy'', 1), (''Sad'', 5)] \<and>
   model_name (hyper_parameters (sync_state metadata_alice)) = ''Alice model'' \<and>
   hyper_parameters (sync_state (sync_state metadata_alice))
     = hyper_parameters (sync_state metadata_alice)"
proof -
  have names: "\<forall>sp \<in> set (speakers (manifest metadata_alice)).
      speaker_name sp \<noteq> [] \<and> (\<forall>st \<in> set (styles sp). style_name st \<noteq> [])"
    by (simp add: metadata_alice_def Normal_ja_def)
  have one: "one_id_per_name (speaker_ids (manifest metadata_alice))"
    "one_id_per_name (style_ids (manifest metadata_alice))"
    by (simp_all add: one_id_per_name_def speaker_ids_def style_ids_def metadata_alice_def
        Normal_ja_def)
  have once: "spk2id (data (hyper_parameters (sync_state metadata_alice))) = [(''Alice'', 0)]"
    "style2id (data (hyper_parameters (sync_state metadata_alice)))
       = [(Normal_ja, 0), (''Happy'', 1), (''Sad'', 5)]"
    "model_name (hyper_parameters (sync_state metadata_alice)) = ''Alice model''"
    by (simp_all add: sync_state_eq metadata_alice_def is_style_bert_vits2_def speaker_ids_def
        style_ids_def example_hp_def Neutral_def Normal_ja_def)
  let ?h1 = "hyper_parameters (sync_state metadata_alice)"
  let ?h2 = "hyper_parameters (sync_state (sync_state metadata_alice))"
  from sync_twice_same_entries [OF names] one
  have "without_id_maps ?h2 = without_id_maps ?h1"
    and "spk2id (data ?h2) = spk2id (data ?h1)"
    and "style2id (data ?h2) = style2id (data ?h1)"
    by simp_all
  then have "?h2 = ?h1"
    by (cases ?h1, cases ?h2, cases "data ?h1", cases "data ?h2")
       (simp add: without_id_maps_def)
  with names one once show ?thesis
    by (simp add: list_all_iff)
qed

text \<open>
  The claim as stated fails on an aggregate that the manifest schema accepts: the second
  call leaves \<open>style2id\<close> with its keys in another order, so the hyper-parameters (and
  their serialisation) differ from those after the first call.
\<close>

theorem sync_twice_reorders_keys:
  "style_vectors metadata_two_speakers \<noteq> None \<and>
   style2id (data (hyper_parameters (sync_state metadata_two_speakers)))
     = [(''A'', 2), (''B'', 1)] \<and>
   style2id (data (hyper_parameters (sync_state (sync_state metadata_two_speakers))))
     = [(''B'', 1), (''A'', 2)] \<and>
   hyper_parameters (sync_state (sync_state metadata_two_speakers))
     \<noteq> hyper_parameters (sync_state metadata_two_speakers)"
proof -
  have 0: "style_vectors metadata_two_speakers \<noteq> None"
    by (simp add: metadata_two_speakers_def)
  have 1: "style2id (data (hyper_parameters (sync_state metadata_two_speakers)))
     = [(''A'', 2), (''B'', 1)]"
    by (simp add: sync_state_eq metadata_two_speakers_def is_style_bert_vits2_def
        style_ids_def example_hp_def)
  have m: "manifest (sync_state metadata_two_speakers) = manifest metadata_two_speakers"
    "style_vectors (sync_state metadata_two_speakers) \<noteq> None"
    using 0 by (simp_all only: sync_state_frame not_False_eq_True)
  have 2: "style2id (data (hyper_parameters (sync_state (sync_state metadata_two_speakers))))
     = [(''B'', 1), (''A'', 2)]"
    unfolding sync_state_eq [of "sync_state metadata_two_speakers"]
    by (simp add: m 1)
       (simp add: metadata_two_speakers_def is_style_bert_vits2_def style_ids_def)
  from 1 2 have "style2id (data (hyper_parameters (sync_state (sync_state metadata_two_speakers))))
      \<noteq> style2id (data (hyper_parameters (sync_state metadata_two_speakers)))"
    by simp
  then have 3: "hyper_parameters (sync_state (sync_state metadata_two_speakers))
     \<noteq> hyper_parameters (sync_state metadata_two_speakers)"
    by metis
  from 0 1 2 3 show ?thesis by simp
qed
text \<open>
  With an empty speaker name the key written by the first call is the empty string,
  which the test \<open>if (old_key)\<close> of the second call takes for "not found": the entry and
  the count are lost.
\<close>

lemma sync_twice_empty_name:
  "spk2id (data (hyper_parameters (sync_state metadata_unnamed_speaker))) = [('''', 0)] \<and>
   n_speakers (data (hyper_parameters (sync_state metadata_unnamed_speaker))) = 1 \<and>
   spk2id (data (hyper_parameters (sync_state (sync_state metadata_unnamed_speaker)))) = [] \<and>
   n_speakers (data (hyper_parameters (sync_state (sync_state metadata_unnamed_speaker)))) = 0"
proof -
  have 0: "is_style_bert_vits2 (model_architecture (manifest metadata_unnamed_speaker))"
    "style_vectors metadata_unnamed_speaker \<noteq> None"
    "speaker_ids (manifest metadata_unnamed_speaker) = [('''', 0)]"
    "spk2id (data (hyper_parameters metadata_unnamed_speaker)) = [(''Alice'', 0)]"
    by (simp_all add: metadata_unnamed_speaker_def metadata_alice_def is_style_bert_vits2_def
        speaker_ids_def example_hp_def)
  have 1: "spk2id (data (hyper_parameters (sync_state metadata_unnamed_speaker))) = [('''', 0)]"
    "n_speakers (data (hyper_parameters (sync_state metadata_unnamed_speaker))) = 1"
    unfolding sync_state_eq [of metadata_unnamed_speaker] using 0 by simp_all
  have 2: "is_style_bert_vits2 (model_architecture (manifest (sync_state metadata_unnamed_speaker)))"
    "style_vectors (sync_state metadata_unnamed_speaker) \<noteq> None"
    "speaker_ids (manifest (sync_state metadata_unnamed_speaker)) = [('''', 0)]"
    using 0 by (simp_all only: sync_state_frame not_False_eq_True)
  have 3: "spk2id (data (hyper_parameters (sync_state (sync_state metadata_unnamed_speaker)))) = []"
    "n_speakers (data (hyper_parameters (sync_state (sync_state metadata_unnamed_speaker)))) = 0"
    unfolding sync_state_eq [of "sync_state metadata_unnamed_speaker"] using 1 2 by simp_all
  from 1 3 show ?thesis by simp
qed

subsection \<open>The write operations and their argument\<close>

lemma snd_writeAivmMetadata:
  "snd (writeAivmMetadata P aivm_file md) =
     sync_state (md\<lparr>manifest := (manifest md)\<lparr>model_format := Safetensors\<rparr>\<rparr>)"
  by (simp add: writeAivmMetadata_def sync_state_def Let_def split: sum.splits)

lemma snd_writeAivmxMetadata:
  "snd (writeAivmxMetadata P aivmx_file md) =
     sync_state (md\<lparr>manifest := (manifest md)\<lparr>model_format := ONNX\<rparr>\<rparr>)"
  by (simp add: writeAivmxMetadata_def sync_state_def Let_def split: sum.splits option.splits)

text \<open>
  C3 (as amended). Both write operations change the aggregate they are given: they
  assign \<open>manifest.model_format\<close> and then call \<open>applyAivmManifestToHyperParameters\<close> on
  it, whatever happens later in the call. Afterwards the aggregate is the one that call
  leaves from the aggregate with the new \<open>model_format\<close>: the rest of the manifest and the
  style vectors are as before, the hyper-parameters are the synchronised ones.
\<close>

theorem write_operations_update_the_aggregate:
  "snd (writeAivmMetadata P aivm_file md) =
     sync_state (md\<lparr>manifest := (manifest md)\<lparr>model_format := Safetensors\<rparr>\<rparr>) \<and>
   snd (writeAivmxMetadata P aivmx_file md) =
     sync_state (md\<lparr>manifest := (manifest md)\<lparr>model_format := ONNX\<rparr>\<rparr>) \<and>
   manifest (snd (writeAivmMetadata P aivm_file md)) =
     (manifest md)\<lparr>model_format := Safetensors\<rparr> \<and>
   manifest (snd (writeAivmxMetadata P aivmx_file md)) = (manifest md)\<lparr>model_format := ONNX\<rparr> \<and>
   style_vectors (snd (writeAivmMetadata P aivm_file md)) = style_vectors md \<and>
   style_vectors (snd (writeAivmxMetadata P aivmx_file md)) = style_vectors md"
  by (simp add: snd_writeAivmMetadata snd_writeAivmxMetadata sync_state_frame)

text \<open>
  The claim as stated fails: after \<open>writeAivmxMetadata\<close> the aggregate passed in has
  another \<open>model_format\<close>, and after \<open>writeAivmMetadata\<close> another model name in its
  hyper-parameters, although the file given is not even a container.
\<close>

theorem write_operations_modify_their_argument:
  "model_format (manifest metadata_alice) = Safetensors \<and>
   model_format (manifest (snd (writeAivmxMetadata example_platform [] metadata_alice))) = ONNX \<and>
   model_name (hyper_parameters metadata_alice) = ''Example'' \<and>
   model_name (hyper_parameters (snd (writeAivmMetadata example_platform [] metadata_alice)))
     = ''Alice model'' \<and>
   snd (writeAivmxMetadata example_platform [] metadata_alice) \<noteq> metadata_alice \<and>
   snd (writeAivmMetadata example_platform [] metadata_alice) \<noteq> metadata_alice"
proof -
  have 1: "model_format (manifest metadata_alice) = Safetensors"
    "model_name (hyper_parameters metadata_alice) = ''Example''"
    by (simp_all add: metadata_alice_def example_hp_def)
  have 2: "model_format (manifest (snd (writeAivmxMetadata example_platform [] metadata_alice)))
             = ONNX"
    by (simp add: snd_writeAivmxMetadata sync_state_frame)
  have 3: "model_name (hyper_parameters
             (snd (writeAivmMetadata example_platform [] metadata_alice))) = ''Alice model''"
    by (simp add: snd_writeAivmMetadata sync_state_eq)
       (simp add: metadata_alice_def is_style_bert_vits2_def)
  have 4: "snd (writeAivmxMetadata example_platform [] metadata_alice) \<noteq> metadata_alice"
  proof
    assume "snd (writeAivmxMetadata example_platform [] metadata_alice) = metadata_alice"
    then have "model_format (manifest (snd (writeAivmxMetadata example_platform []
                 metadata_alice))) = model_format (manifest metadata_alice)"
      by (rule arg_cong)
    with 1(1) 2 show False by simp
  qed
  have 5: "snd (writeAivmMetadata example_platform [] metadata_alice) \<noteq> metadata_alice"
  proof
    assume "snd (writeAivmMetadata example_platform [] metadata_alice) = metadata_alice"
    then have "model_name (hyper_parameters (snd (writeAivmMetadata example_platform []
                 metadata_alice))) = model_name (hyper_parameters metadata_alice)"
      by (rule arg_cong)
    with 1(2) 3 show False by simp
  qed
  from 1 2 3 4 5 show ?thesis by simp
qed

subsection \<open>validateAivmMetadata: the architecture checks\<close>

lemma AivmManifestSchema_parse_architecture:
  "AivmManifestSchema_parse P v = Some m \<Longrightarrow> is_style_bert_vits2 (model_architecture m)"
  by (auto simp: AivmManifestSchema_parse_def ModelArchitectureSchema_def
      is_style_bert_vits2_def split: option.splits if_splits)

lemma validate_hyper_parameters_errors:
  "validate_hyper_parameters P m r = Inl e \<Longrightarrow>
     e = HyperParametersFormatError \<or> e = HyperParametersNotFound"
  by (auto simp: validate_hyper_parameters_def split: if_splits sum.splits)

lemma validateAivmMetadata_errors:
  "validateAivmMetadata P raw = Inl e \<Longrightarrow>
     e \<in> {ManifestNotFound, ManifestFormatError, HyperParametersFormatError,
          HyperParametersNotFound, StyleVectorsDecodeError}"
  by (auto simp: validateAivmMetadata_def validate_style_vectors_def
      split: option.splits if_splits sum.splits dest: validate_hyper_parameters_errors)

lemma validateAivmMetadata_architecture:
  "validateAivmMetadata P raw = Inr md \<Longrightarrow> is_style_bert_vits2 (model_architecture (manifest md))"
  by (auto simp: validateAivmMetadata_def split: option.splits if_splits sum.splits
      dest: AivmManifestSchema_parse_architecture)

text \<open>
  The enumeration of the manifest schema holds exactly the two names that
  \<open>validateAivmMetadata\<close> tests with \<open>includes\<close>. So a manifest that the schema has
  parsed never takes the \<open>else\<close> branch of the hyper-parameter block, a returned
  aggregate names a recognised architecture, and no failure of \<open>validateAivmMetadata\<close> is
  an unsupported-architecture error.
\<close>

lemma validateAivmMetadata_never_unsupported:
  "validateAivmMetadata P raw \<noteq> Inl (UnsupportedArchitecture a)"
  "validateAivmMetadata P raw \<noteq> Inl (UnsupportedHyperParameters a)"
  using validateAivmMetadata_errors [of P raw "UnsupportedArchitecture a"]
        validateAivmMetadata_errors [of P raw "UnsupportedHyperParameters a"]
  by auto

subsection \<open>The tensor container: write then read\<close>

lemma length_le_encode: "length (le_encode k n) = k"
  by (induction k arbitrary: n) auto

lemma le_decode_le_encode: "le_decode (le_encode k n) = n mod 256 ^ k"
proof (induction k arbitrary: n)
  case 0
  then show ?case by simp
next
  case (Suc k)
  have "unat (of_nat (n mod 256) :: byte) = n mod 256"
    by (simp add: unat_of_nat)
  then have "le_decode (le_encode (Suc k) n) = n mod 256 + 256 * ((n div 256) mod 256 ^ k)"
    by (simp add: Suc.IH)
  also have "\<dots> = n mod 256 ^ Suc k"
    by (simp add: mod_mult2_eq)
  finally show ?case .
qed

lemma header_size_of_le_encode:
  "n < 2 ^ 64 \<Longrightarrow> header_size_of (le_encode 8 n @ rest) = n"
  by (simp add: header_size_of_def length_le_encode le_decode_le_encode)

lemma set_props_JObj:
  "set_props (JObj e) entries = Inr (JObj (fold (\<lambda>(k, v) m. obj_set m k (JStr v)) entries e))"
  by (induction entries arbitrary: e) auto

lemma map_of_fold_obj_set:
  "map_of (fold (\<lambda>(k, v) m. obj_set m k (f v)) entries e) =
     map_of e ++ map_of (rev (map (\<lambda>(k, v). (k, f v)) entries))"
  by (induction entries arbitrary: e)
     (auto simp: map_of_obj_set fun_eq_iff map_add_def split: option.splits)

lemma map_of_rev_distinct:
  "distinct (map fst xs) \<Longrightarrow> map_of (rev xs) = map_of xs"
  by (rule map_of_inject_set [THEN iffD2]) (simp_all add: rev_map [symmetric])

text \<open>
  C5. Tensor-container round trip. Let \<open>B\<close> be a container: at least \<open>8 + H\<close> bytes,
  whose header bytes parse to a JSON object in which \<open>__metadata__\<close> is absent, falsy or
  an object with the entries \<open>existing\<close>; let \<open>M\<close> be a string-to-string map; and let
  the platform's JSON codec read back the header it prints (shorter than \<open>2^64\<close> bytes).
  Then writing \<open>M\<close> returns bytes \<open>B'\<close>; reading the metadata of \<open>B'\<close> returns an object
  that maps every key of \<open>M\<close> to its value in \<open>M\<close> and every other key as \<open>existing\<close>
  does, where \<open>existing\<close> is what reading \<open>B\<close> returns; and the bytes of \<open>B'\<close> after
  its header are the bytes of \<open>B\<close> after its header, located with the original \<open>H\<close>.
\<close>

theorem tensor_container_round_trip:
  assumes size: "8 + header_size_of B \<le> length B"
      and parse: "JSON_parse_bytes P (take (header_size_of B) (drop 8 B)) = Some (JObj header)"
      and meta: "metadata_or_empty (JObj header) = JObj existing"
      and keys: "distinct (map fst M)"
      and codec: "JSON_parse_bytes P (JSON_stringify_bytes P
                    (JObj (obj_set header ''__metadata__''
                       (JObj (fold (\<lambda>(k, v) m. obj_set m k (JStr v)) M existing))))) =
                  Some (JObj (obj_set header ''__metadata__''
                       (JObj (fold (\<lambda>(k, v) m. obj_set m k (JStr v)) M existing))))"
      and short: "length (JSON_stringify_bytes P
                    (JObj (obj_set header ''__metadata__''
                       (JObj (fold (\<lambda>(k, v) m. obj_set m k (JStr v)) M existing))))) < 2 ^ 64"
  shows "\<exists>B' merged.
           write_raw_metadata P B M = Inr B' \<and>
           read_raw_metadata P B' = Inr (Some (JObj merged)) \<and>
           map_of merged = map_of existing ++ map_of (map (\<lambda>(k, v). (k, JStr v)) M) \<and>
           read_raw_metadata P B = Inr (map_of header ''__metadata__'') \<and>
           drop (8 + header_size_of B') B' = drop (8 + header_size_of B) B"
proof -
  let ?merged = "fold (\<lambda>(k, v) m. obj_set m k (JStr v)) M existing"
  let ?new_header = "JObj (obj_set header ''__metadata__'' (JObj ?merged))"
  let ?nb = "JSON_stringify_bytes P ?new_header"
  let ?B' = "le_encode 8 (length ?nb) @ ?nb @ drop (8 + header_size_of B) B"
  from size have len: "\<not> length B < 8" "\<not> length B < 8 + header_size_of B"
    "\<not> 8 + header_size_of B > length B"
    by simp_all
  have w: "write_raw_metadata P B M = Inr ?B'"
    using len parse meta
    by (simp add: write_raw_metadata_def Let_def set_props_JObj)
  have hs: "header_size_of ?B' = length ?nb"
    using short by (rule header_size_of_le_encode)
  have r: "read_raw_metadata P ?B' = Inr (Some (JObj ?merged))"
    using codec
    by (simp add: read_raw_metadata_def hs length_le_encode map_of_obj_set)
  have m: "map_of ?merged = map_of existing ++ map_of (map (\<lambda>(k, v). (k, JStr v)) M)"
  proof -
    have "distinct (map fst (map (\<lambda>(k, v). (k, JStr v)) M))"
      using keys by (simp add: comp_def case_prod_unfold)
    then show ?thesis
      by (simp only: map_of_fold_obj_set map_of_rev_distinct)
  qed
  have r0: "read_raw_metadata P B = Inr (map_of header ''__metadata__'')"
    using len parse by (simp add: read_raw_metadata_def)
  have p: "drop (8 + header_size_of ?B') ?B' = drop (8 + header_size_of B) B"
    by (simp add: hs length_le_encode)
  from w r m r0 p show ?thesis by blast
qed
lemma header_texts_differ: "map of_char header0_text \<noteq> (map of_char header1_text :: byte list)"
proof
  assume "map of_char header0_text = (map of_char header1_text :: byte list)"
  then have "length (map of_char header0_text :: byte list) = length (map of_char header1_text :: byte list)"
    by (rule arg_cong)
  then show False
    by (simp add: header0_text_def header1_text_def)
qed

lemma headers_differ: "header0 \<noteq> header1"
  by (simp add: header0_def header1_def)

lemma example_platform_json:
  "JSON_parse_bytes example_platform (map of_char header0_text) = Some header0"
  "JSON_parse_bytes example_platform (map of_char header1_text) = Some header1"
  "JSON_stringify_bytes example_platform header1 = map of_char header1_text"
  "JSON_parse_bytes example_platform [0x78] = None"
  using header_texts_differ headers_differ
  by (simp_all add: example_platform_def table_platform_def)
     (simp_all add: header0_text_def header1_text_def)

lemma container0_parts:
  "header_size_of container0 = length header0_text"
  "length container0 = 8 + length header0_text + 4"
  "take (length header0_text) (drop 8 container0) = map of_char header0_text"
  "drop (8 + length header0_text) container0 = payload0"
proof -
  have "length header0_text < 2 ^ 64"
    by (simp add: header0_text_def)
  then show "header_size_of container0 = length header0_text"
    unfolding container0_def by (rule header_size_of_le_encode)
qed (simp_all add: container0_def length_le_encode payload0_def)

lemma container1_parts:
  "header_size_of container1 = length header1_text"
  "drop (8 + length header1_text) container1 = payload0"
proof -
  have "length header1_text < 2 ^ 64"
    by (simp add: header1_text_def)
  then show "header_size_of container1 = length header1_text"
    unfolding container1_def by (rule header_size_of_le_encode)
qed (simp_all add: container1_def length_le_encode)

theorem tensor_container_round_trip_witness:
  "write_raw_metadata example_platform container0 entries_new = Inr container1 \<and>
   read_raw_metadata example_platform container0
     = Inr (Some (JObj [(''format'', JStr ''pt''), (''aivm_manifest'', JStr ''old'')])) \<and>
   read_raw_metadata example_platform container1
     = Inr (Some (JObj [(''format'', JStr ''pt''), (''aivm_manifest'', JStr ''new''),
                        (''aivm_hyper_parameters'', JStr ''hp'')])) \<and>
   drop (8 + header_size_of container0) container0 = payload0 \<and>
   drop (8 + header_size_of container1) container1 = payload0"
proof -
  let ?header = "[(''__metadata__'', JObj [(''format'', JStr ''pt''), (''aivm_manifest'', JStr ''old'')]),
           (''w'', JObj [(''dtype'', JStr ''F32''), (''shape'', JArr [JNum 1]),
                        (''data_offsets'', JArr [JNum 0, JNum 4])])]"
  let ?existing = "[(''format'', JStr ''pt''), (''aivm_manifest'', JStr ''old'')]"
  have h0: "header0 = JObj ?header" by (simp add: header0_def)
  have new: "JObj (obj_set ?header ''__metadata__''
               (JObj (fold (\<lambda>(k, v) m. obj_set m k (JStr v)) entries_new ?existing))) = header1"
    by (simp add: entries_new_def header1_def)
  have size: "8 + header_size_of container0 \<le> length container0"
    by (simp add: container0_parts)
  have parse: "JSON_parse_bytes example_platform
                 (take (header_size_of container0) (drop 8 container0)) = Some (JObj ?header)"
    by (simp add: container0_parts example_platform_json h0 [symmetric])
  have meta: "metadata_or_empty (JObj ?header) = JObj ?existing"
    by (simp add: metadata_or_empty_def)
  have keys: "distinct (map fst entries_new)"
    by (simp add: entries_new_def)
  have codec: "JSON_parse_bytes example_platform (JSON_stringify_bytes example_platform
                 (JObj (obj_set ?header ''__metadata__''
                    (JObj (fold (\<lambda>(k, v) m. obj_set m k (JStr v)) entries_new ?existing))))) =
               Some (JObj (obj_set ?header ''__metadata__''
                    (JObj (fold (\<lambda>(k, v) m. obj_set m k (JStr v)) entries_new ?existing))))"
    unfolding new by (simp add: example_platform_json)
  have short: "length (JSON_stringify_bytes example_platform
                 (JObj (obj_set ?header ''__metadata__''
                    (JObj (fold (\<lambda>(k, v) m. obj_set m k (JStr v)) entries_new ?existing))))) < 2 ^ 64"
    unfolding new by (simp add: example_platform_json header1_text_def)
  from tensor_container_round_trip [OF size parse meta keys codec short]
  obtain B' merged where
    w: "write_raw_metadata example_platform container0 entries_new = Inr B'" and
    r: "read_raw_metadata example_platform B' = Inr (Some (JObj merged))" and
    r0: "read_raw_metadata example_platform container0 = Inr (map_of ?header ''__metadata__'')" and
    p: "drop (8 + header_size_of B') B' = drop (8 + header_size_of container0) container0"
    by blast
  have w1: "write_raw_metadata example_platform container0 entries_new = Inr container1"
    using size
    by (simp add: write_raw_metadata_def Let_def container0_parts example_platform_json
        h0 [symmetric])
       (simp add: h0 metadata_or_empty_def entries_new_def header1_def [symmetric]
          example_platform_json container1_def Let_def container0_parts)
  with w have B': "B' = container1" by simp
  have r1: "read_raw_metadata example_platform container1
     = Inr (Some (JObj [(''format'', JStr ''pt''), (''aivm_manifest'', JStr ''new''),
                        (''aivm_hyper_parameters'', JStr ''hp'')]))"
    by (simp add: read_raw_metadata_def container1_parts)
       (simp add: container1_def length_le_encode example_platform_json header1_def)
  from w1 r0 r1 p B' show ?thesis
    by (simp add: container0_parts container1_parts)
qed
subsection \<open>The tensor container: a header that is not JSON\<close>

lemma read_slice_failure:
  "8 \<le> length B \<Longrightarrow> length B < 8 + header_size_of B \<Longrightarrow>
     readAivmMetadata P B = Inl AivmFormatError"
  by (simp add: readAivmMetadata_def read_raw_metadata_def)

lemma read_parse_failure:
  "8 + header_size_of B \<le> length B \<Longrightarrow>
   JSON_parse_bytes P (take (header_size_of B) (drop 8 B)) = None \<Longrightarrow>
     readAivmMetadata P B = Inl SyntaxError"
  by (simp add: readAivmMetadata_def read_raw_metadata_def)

lemma write_parse_failure:
  "8 \<le> length B \<Longrightarrow>
   JSON_parse_bytes P (take (header_size_of B) (drop 8 B)) = None \<Longrightarrow>
     write_raw_metadata P B M = Inl AivmFormatError"
  by (simp add: write_raw_metadata_def)

text \<open>
  C6. In \<open>readAivmMetadata\<close> only the construction of the header view is inside a
  \<open>try\<close>. A length prefix that exceeds the file gives the format error of the AIVM file;
  header bytes that are not JSON make \<open>JSON.parse\<close> throw a \<open>SyntaxError\<close> that nothing
  catches. On the same file the write path, whose \<open>JSON.parse\<close> is inside a \<open>try\<close>,
  gives the format error.
\<close>

theorem read_does_not_catch_the_json_error:
  "header_size_of truncated_file = 100 \<and> length truncated_file = 10 \<and>
   readAivmMetadata example_platform truncated_file = Inl AivmFormatError \<and>
   header_size_of not_json_file = 1 \<and> length not_json_file = 9 \<and>
   JSON_parse_bytes example_platform [0x78] = None \<and>
   readAivmMetadata example_platform not_json_file = Inl SyntaxError \<and>
   write_raw_metadata example_platform not_json_file entries_new = Inl AivmFormatError"
proof -
  have t: "header_size_of truncated_file = 100" "length truncated_file = 10"
    unfolding truncated_file_def
    by (simp_all add: header_size_of_le_encode length_le_encode)
  have n: "header_size_of not_json_file = 1" "length not_json_file = 9"
    "drop 8 not_json_file = [0x78]"
    unfolding not_json_file_def
    by (simp_all add: header_size_of_le_encode length_le_encode)
  have 1: "readAivmMetadata example_platform truncated_file = Inl AivmFormatError"
    by (rule read_slice_failure) (simp_all add: t)
  have 2: "readAivmMetadata example_platform not_json_file = Inl SyntaxError"
    by (rule read_parse_failure) (simp_all add: n example_platform_json)
  have 3: "write_raw_metadata example_platform not_json_file entries_new = Inl AivmFormatError"
    by (rule write_parse_failure) (simp_all add: n example_platform_json)
  from t n 1 2 3 example_platform_json(4) show ?thesis by simp
qed

subsection \<open>updateAivmMetadata: objects reachable from the existing aggregate\<close>

lemma preserves_ret: "preserves n (ret x)"
  by (simp add: preserves_def ret_def)

lemma preserves_throw: "preserves n (throw e)"
  by (simp add: preserves_def throw_def)

lemma preserves_alloc: "preserves n (alloc c)"
  by (simp add: preserves_def alloc_def)

lemma preserves_get_cell: "preserves n (get_cell a)"
  by (simp add: preserves_def get_cell_def)

lemma preserves_put_cell: "n \<le> a \<Longrightarrow> preserves n (put_cell a c)"
  by (simp add: preserves_def put_cell_def)

lemma preserves_bnd:
  assumes m: "preserves n m" and q: "returns n m Q"
      and f: "\<And>x. Q x \<Longrightarrow> preserves n (f x)"
  shows "preserves n (bnd m f)"
  unfolding preserves_def
proof (intro allI impI)
  fix h :: store
  assume n: "n \<le> length h"
  obtain r h1 where mh: "m h = (r, h1)" by (cases "m h")
  from m n mh have 1: "length h \<le> length h1" "take n h1 = take n h"
    by (auto simp: preserves_def)
  show "length h \<le> length (snd (bnd m f h)) \<and> take n (snd (bnd m f h)) = take n h"
  proof (cases r)
    case (Inl e)
    with mh 1 show ?thesis by (simp add: bnd_def)
  next
    case (Inr x)
    with q n mh have "Q x" by (auto simp: returns_def)
    then have "preserves n (f x)" by (rule f)
    moreover from n 1 have "n \<le> length h1" by simp
    ultimately have "length h1 \<le> length (snd (f x h1))" "take n (snd (f x h1)) = take n h1"
      by (auto simp: preserves_def)
    with Inr mh 1 show ?thesis by (simp add: bnd_def)
  qed
qed

lemma returns_True: "returns n m (\<lambda>_. True)"
  by (simp add: returns_def)

lemma preserves_bnd_any:
  "preserves n m \<Longrightarrow> (\<And>x. preserves n (f x)) \<Longrightarrow> preserves n (bnd m f)"
  by (rule preserves_bnd [OF _ returns_True])

lemma returns_alloc: "returns n (alloc c) (\<lambda>a. n \<le> a)"
  by (simp add: returns_def alloc_def)

lemma returns_bnd:
  assumes m: "preserves n m" and f: "\<And>x. returns n (f x) Q"
  shows "returns n (bnd m f) Q"
  unfolding returns_def
proof (intro allI impI)
  fix h :: store and y h'
  assume n: "n \<le> length h" and r: "bnd m f h = (Inr y, h')"
  obtain r1 h1 where mh: "m h = (r1, h1)" by (cases "m h")
  from m n mh have "n \<le> length h1" by (auto simp: preserves_def)
  moreover from r mh obtain x where "r1 = Inr x" "f x h1 = (Inr y, h')"
    by (cases r1) (auto simp: bnd_def)
  ultimately show "Q y" using f unfolding returns_def by blast
qed

lemma returns_case_cell:
  assumes "\<And>s. c = StyleCell s \<Longrightarrow> returns n (f1 s) Q"
      and "\<And>a b c' d e f. c = SpeakerCell a b c' d e f \<Longrightarrow> returns n (f2 a b c' d e f) Q"
      and "\<And>a b. c = ManifestCell a b \<Longrightarrow> returns n (f3 a b) Q"
      and "\<And>a. c = RefArray a \<Longrightarrow> returns n (f4 a) Q"
      and "\<And>a. c = StringArray a \<Longrightarrow> returns n (f5 a) Q"
      and "\<And>a b c'. c = MetadataCell a b c' \<Longrightarrow> returns n (f6 a b c') Q"
  shows "returns n (case_cell f1 f2 f3 f4 f5 f6 c) Q"
  using assms by (cases c) simp_all

lemma returns_throw: "returns n (throw e) Q"
  by (simp add: returns_def throw_def)

lemma preserves_get_refs: "preserves n (get_refs a)"
  unfolding get_refs_def
  by (rule preserves_bnd_any [OF preserves_get_cell])
     (simp add: preserves_ret preserves_throw split: cell.split)

lemma preserves_get_strings: "preserves n (get_strings a)"
  unfolding get_strings_def
  by (rule preserves_bnd_any [OF preserves_get_cell])
     (simp add: preserves_ret preserves_throw split: cell.split)

lemma preserves_get_style: "preserves n (get_style a)"
  unfolding get_style_def
  by (rule preserves_bnd_any [OF preserves_get_cell])
     (simp add: preserves_ret preserves_throw split: cell.split)

lemma preserves_push: "n \<le> a \<Longrightarrow> preserves n (push a x)"
  unfolding push_def
  by (rule preserves_bnd_any [OF preserves_get_refs]) (rule preserves_put_cell)

lemma preserves_for_each:
  "(\<And>x s. preserves n (body x s)) \<Longrightarrow> preserves n (for_each xs body s)"
  by (induction xs arbitrary: s) (simp_all add: preserves_ret preserves_bnd_any)

lemma preserves_map_each:
  "(\<And>x. preserves n (f x)) \<Longrightarrow> preserves n (map_each xs f)"
  by (induction xs) (simp_all add: preserves_ret preserves_bnd_any)

lemma preserves_clone_style: "preserves n (clone_style a)"
  unfolding clone_style_def
  by (intro preserves_bnd_any preserves_get_style preserves_alloc)

lemma preserves_clone_speaker: "preserves n (clone_speaker a)"
  unfolding clone_speaker_def
  by (intro preserves_bnd_any preserves_get_cell)
     (auto split: cell.split
       intro!: preserves_bnd_any preserves_get_strings preserves_get_refs preserves_alloc
         preserves_map_each preserves_clone_style preserves_throw)

lemma preserves_structuredClone_manifest: "preserves n (structuredClone_manifest a)"
  unfolding structuredClone_manifest_def
  by (intro preserves_bnd_any preserves_get_cell)
     (auto split: cell.split
       intro!: preserves_bnd_any preserves_get_refs preserves_alloc preserves_map_each
         preserves_clone_speaker preserves_throw)

lemma returns_structuredClone_manifest:
  "returns n (structuredClone_manifest a) (\<lambda>a'. n \<le> a')"
  unfolding structuredClone_manifest_def
  by (intro returns_bnd preserves_get_cell returns_case_cell returns_throw
        preserves_get_refs preserves_map_each preserves_clone_speaker preserves_alloc
        returns_alloc)

lemma preserves_existing_style_step:
  "n \<le> updated_styles \<Longrightarrow>
     preserves n (existing_style_step s2i spname updated_styles existing_style st)"
  unfolding existing_style_step_def
  by (intro preserves_bnd_any preserves_get_style)
     (auto intro!: preserves_bnd_any preserves_push preserves_ret)

lemma preserves_added_style_step:
  "n \<le> updated_styles \<Longrightarrow>
     preserves n (added_style_step s2i spname processed updated_styles entry ws)"
  unfolding added_style_step_def
  by (auto intro!: preserves_bnd_any preserves_push preserves_ret preserves_alloc)

lemma preserves_existing_speaker_step:
  assumes "n \<le> updated_speakers"
  shows "preserves n (existing_speaker_step hp updated_speakers existing_speaker st)"
  unfolding existing_speaker_step_def
proof (intro preserves_bnd_any preserves_get_cell)
  fix c
  show "preserves n (case c of
        SpeakerCell nm icon langs uid lid sts \<Rightarrow>
          if has_id (spk2id (data hp)) lid then
            bnd (alloc (RefArray [])) (\<lambda>updated_styles.
            bnd (get_refs sts) (\<lambda>style_refs.
            bnd (for_each style_refs
                   (existing_style_step (style2id (data hp)) nm updated_styles) ({}, snd st))
              (\<lambda>(processed_styles, ws1).
            bnd (for_each (style2id (data hp))
                   (added_style_step (style2id (data hp)) nm processed_styles updated_styles) ws1)
              (\<lambda>ws2.
            bnd (get_strings langs) (\<lambda>supported.
            bnd (alloc (StringArray (languages_of hp))) (\<lambda>new_langs.
            bnd (ret (if supported \<noteq> languages_of hp
                      then (new_langs, ws2 @ [LanguagesChanged nm (languages_of hp)])
                      else (langs, ws2)))
              (\<lambda>(langs', ws3).
            bnd (alloc (SpeakerCell nm icon langs' uid lid updated_styles)) (\<lambda>updated_speaker.
            bnd (push updated_speakers updated_speaker) (\<lambda>_.
              ret (insert lid (fst st), ws3))))))))))
          else ret (fst st, snd st @ [SpeakerRemoved nm lid])
      | _ \<Rightarrow> throw TypeError)"
  proof (cases c)
    case (SpeakerCell nm icon langs uid lid sts)
    have "preserves n
            (bnd (alloc (RefArray [])) (\<lambda>updated_styles.
            bnd (get_refs sts) (\<lambda>style_refs.
            bnd (for_each style_refs
                   (existing_style_step (style2id (data hp)) nm updated_styles) ({}, snd st))
              (\<lambda>(processed_styles, ws1).
            bnd (for_each (style2id (data hp))
                   (added_style_step (style2id (data hp)) nm processed_styles updated_styles) ws1)
              (\<lambda>ws2.
            bnd (get_strings langs) (\<lambda>supported.
            bnd (alloc (StringArray (languages_of hp))) (\<lambda>new_langs.
            bnd (ret (if supported \<noteq> languages_of hp
                      then (new_langs, ws2 @ [LanguagesChanged nm (languages_of hp)])
                      else (langs, ws2)))
              (\<lambda>(langs', ws3).
            bnd (alloc (SpeakerCell nm icon langs' uid lid updated_styles)) (\<lambda>updated_speaker.
            bnd (push updated_speakers updated_speaker) (\<lambda>_.
              ret (insert lid (fst st), ws3)))))))))))"
    proof (rule preserves_bnd [OF preserves_alloc returns_alloc])
      fix updated_styles :: addr
      assume us: "n \<le> updated_styles"
      show "preserves n
            (bnd (get_refs sts) (\<lambda>style_refs.
            bnd (for_each style_refs
                   (existing_style_step (style2id (data hp)) nm updated_styles) ({}, snd st))
              (\<lambda>(processed_styles, ws1).
            bnd (for_each (style2id (data hp))
                   (added_style_step (style2id (data hp)) nm processed_styles updated_styles) ws1)
              (\<lambda>ws2.
            bnd (get_strings langs) (\<lambda>supported.
            bnd (alloc (StringArray (languages_of hp))) (\<lambda>new_langs.
            bnd (ret (if supported \<noteq> languages_of hp
                      then (new_langs, ws2 @ [LanguagesChanged nm (languages_of hp)])
                      else (langs, ws2)))
              (\<lambda>(langs', ws3).
            bnd (alloc (SpeakerCell nm icon langs' uid lid updated_styles)) (\<lambda>updated_speaker.
            bnd (push updated_speakers updated_speaker) (\<lambda>_.
              ret (insert lid (fst st), ws3))))))))))"
        using us assms
        by (auto simp: case_prod_unfold
            intro!: preserves_bnd_any preserves_get_refs preserves_for_each
              preserves_existing_style_step preserves_added_style_step preserves_get_strings
              preserves_alloc preserves_ret preserves_push)
    qed
    with SpeakerCell show ?thesis
      by (simp add: preserves_ret)
  qed (simp_all add: preserves_throw)
qed
lemma preserves_new_speaker_step:
  assumes "n \<le> updated_speakers"
  shows "preserves n (new_speaker_step P v4 hp processed updated_speakers entry st)"
proof (cases "snd entry \<notin> processed")
  case False
  then show ?thesis by (simp add: new_speaker_step_def preserves_ret)
next
  case True
  have "preserves n
          (bnd (alloc (RefArray [])) (\<lambda>new_speaker_styles.
           bnd (for_each (style2id (data hp))
                  (\<lambda>style_entry (_ :: unit).
                     bnd (alloc (StyleCell (created_style (style2id (data hp)) style_entry)))
                       (\<lambda>new_style. push new_speaker_styles new_style)) ())
             (\<lambda>_.
           bnd (alloc (StringArray (languages_of hp))) (\<lambda>langs.
           bnd (alloc (SpeakerCell (fst entry) (DEFAULT_ICON_DATA_URL P) langs (v4 (snd st))
                         (snd entry) new_speaker_styles)) (\<lambda>new_speaker.
           bnd (push updated_speakers new_speaker) (\<lambda>_.
             ret (fst st @ [SpeakerAdded (fst entry) (snd entry)], Suc (snd st))))))))"
  proof (rule preserves_bnd [OF preserves_alloc returns_alloc])
    fix new_speaker_styles :: addr
    assume "n \<le> new_speaker_styles"
    with assms show "preserves n
           (bnd (for_each (style2id (data hp))
                  (\<lambda>style_entry (_ :: unit).
                     bnd (alloc (StyleCell (created_style (style2id (data hp)) style_entry)))
                       (\<lambda>new_style. push new_speaker_styles new_style)) ())
             (\<lambda>_.
           bnd (alloc (StringArray (languages_of hp))) (\<lambda>langs.
           bnd (alloc (SpeakerCell (fst entry) (DEFAULT_ICON_DATA_URL P) langs (v4 (snd st))
                         (snd entry) new_speaker_styles)) (\<lambda>new_speaker.
           bnd (push updated_speakers new_speaker) (\<lambda>_.
             ret (fst st @ [SpeakerAdded (fst entry) (snd entry)], Suc (snd st)))))))"
      by (intro preserves_bnd_any preserves_for_each preserves_alloc preserves_push
            preserves_ret)
  qed
  with True show ?thesis by (simp add: new_speaker_step_def)
qed

lemma preserves_check_updated_speakers_store:
  "preserves n (check_updated_speakers_store updated_speakers)"
  unfolding check_updated_speakers_store_def
  by (intro preserves_bnd_any preserves_get_refs)
     (auto split: cell.split
       intro!: preserves_throw preserves_for_each preserves_bnd_any preserves_get_cell
         preserves_get_refs preserves_ret)

lemma preserves_update_tail:
  assumes nm: "n \<le> new_manifest"
  shows "preserves n
     (bnd (put_cell new_manifest (ManifestCell mf' cloned_speakers)) (\<lambda>_.
      bnd (alloc (RefArray [])) (\<lambda>updated_speakers.
      bnd (get_refs existing_speakers) (\<lambda>speaker_refs.
      bnd (for_each speaker_refs (existing_speaker_step hp updated_speakers) ({}, []))
        (\<lambda>(processed, ws1).
      bnd (for_each (spk2id (data hp))
             (new_speaker_step P v4 hp processed updated_speakers) (ws1, 0))
        (\<lambda>(ws, k).
      bnd (put_cell new_manifest (ManifestCell mf' updated_speakers)) (\<lambda>_.
      bnd (check_updated_speakers_store updated_speakers) (\<lambda>_.
      bnd (alloc (MetadataCell new_manifest hp (Some sv))) (\<lambda>updated_metadata.
        ret (updated_metadata, ws))))))))))"
proof (rule preserves_bnd_any [OF preserves_put_cell [OF nm]],
       rule preserves_bnd [OF preserves_alloc returns_alloc])
  fix updated_speakers :: addr
  assume "n \<le> updated_speakers"
  with nm show "preserves n
     (bnd (get_refs existing_speakers) (\<lambda>speaker_refs.
      bnd (for_each speaker_refs (existing_speaker_step hp updated_speakers) ({}, []))
        (\<lambda>(processed, ws1).
      bnd (for_each (spk2id (data hp))
             (new_speaker_step P v4 hp processed updated_speakers) (ws1, 0))
        (\<lambda>(ws, k).
      bnd (put_cell new_manifest (ManifestCell mf' updated_speakers)) (\<lambda>_.
      bnd (check_updated_speakers_store updated_speakers) (\<lambda>_.
      bnd (alloc (MetadataCell new_manifest hp (Some sv))) (\<lambda>updated_metadata.
        ret (updated_metadata, ws))))))))"
    by (auto simp: case_prod_unfold
        intro!: preserves_bnd_any preserves_get_refs preserves_for_each
          preserves_existing_speaker_step preserves_new_speaker_step preserves_put_cell
          preserves_check_updated_speakers_store preserves_alloc preserves_ret)
qed

lemma preserves_updateAivmMetadata_store:
  "preserves n (updateAivmMetadata_store P v4 existing_metadata hp_file sv_file)"
  unfolding updateAivmMetadata_store_def
proof (intro preserves_bnd_any preserves_get_cell)
  fix c
  show "preserves n (case c of
        MetadataCell existing_manifest _ _ \<Rightarrow>
          bnd (get_cell existing_manifest) (\<lambda>c. case c of
             ManifestCell existing_fields existing_speakers \<Rightarrow>
               (case loadAndValidateHyperParametersAndStyleVectors P
                       (mf_model_architecture existing_fields) hp_file sv_file of
                  Inl e \<Rightarrow> throw e
                | Inr (hp, sv) \<Rightarrow>
                    if is_style_bert_vits2 (mf_model_architecture existing_fields) then
                      bnd (structuredClone_manifest existing_manifest) (\<lambda>new_manifest.
                      bnd (get_cell new_manifest) (\<lambda>c. case c of
                         ManifestCell mf cloned_speakers \<Rightarrow>
                           bnd (put_cell new_manifest
                                  (ManifestCell
                                     (mf\<lparr>mf_model_architecture := architecture_of hp\<rparr>)
                                     cloned_speakers)) (\<lambda>_.
                           bnd (alloc (RefArray [])) (\<lambda>updated_speakers.
                           bnd (get_refs existing_speakers) (\<lambda>speaker_refs.
                           bnd (for_each speaker_refs
                                  (existing_speaker_step hp updated_speakers) ({}, []))
                             (\<lambda>(processed, ws1).
                           bnd (for_each (spk2id (data hp))
                                  (new_speaker_step P v4 hp processed updated_speakers) (ws1, 0))
                             (\<lambda>(ws, n).
                           bnd (put_cell new_manifest
                                  (ManifestCell
                                     (mf\<lparr>mf_model_architecture := architecture_of hp\<rparr>)
                                     updated_speakers)) (\<lambda>_.
                           bnd (check_updated_speakers_store updated_speakers) (\<lambda>_.
                           bnd (alloc (MetadataCell new_manifest hp (Some sv))) (\<lambda>updated_metadata.
                             ret (updated_metadata, ws)))))))))
                       | _ \<Rightarrow> throw TypeError))
                    else throw (UnsupportedArchitecture (mf_model_architecture existing_fields)))
           | _ \<Rightarrow> throw TypeError)
      | _ \<Rightarrow> throw TypeError)"
  proof (cases c)
    case (MetadataCell existing_manifest hp0 sv0)
    have "preserves n (bnd (get_cell existing_manifest) (\<lambda>c. case c of
             ManifestCell existing_fields existing_speakers \<Rightarrow>
               (case loadAndValidateHyperParametersAndStyleVectors P
                       (mf_model_architecture existing_fields) hp_file sv_file of
                  Inl e \<Rightarrow> throw e
                | Inr (hp, sv) \<Rightarrow>
                    if is_style_bert_vits2 (mf_model_architecture existing_fields) then
                      bnd (structuredClone_manifest existing_manifest) (\<lambda>new_manifest.
                      bnd (get_cell new_manifest) (\<lambda>c. case c of
                         ManifestCell mf cloned_speakers \<Rightarrow>
                           bnd (put_cell new_manifest
                                  (ManifestCell
                                     (mf\<lparr>mf_model_architecture := architecture_of hp\<rparr>)
                                     cloned_speakers)) (\<lambda>_.
                           bnd (alloc (RefArray [])) (\<lambda>updated_speakers.
                           bnd (get_refs existing_speakers) (\<lambda>speaker_refs.
                           bnd (for_each speaker_refs
                                  (existing_speaker_step hp updated_speakers) ({}, []))
                             (\<lambda>(processed, ws1).
                           bnd (for_each (spk2id (data hp))
                                  (new_speaker_step P v4 hp processed updated_speakers) (ws1, 0))
                             (\<lambda>(ws, n).
                           bnd (put_cell new_manifest
                                  (ManifestCell
                                     (mf\<lparr>mf_model_architecture := architecture_of hp\<rparr>)
                                     updated_speakers)) (\<lambda>_.
                           bnd (check_updated_speakers_store updated_speakers) (\<lambda>_.
                           bnd (alloc (MetadataCell new_manifest hp (Some sv))) (\<lambda>updated_metadata.
                             ret (updated_metadata, ws)))))))))
                       | _ \<Rightarrow> throw TypeError))
                    else throw (UnsupportedArchitecture (mf_model_architecture existing_fields)))
           | _ \<Rightarrow> throw TypeError))"
    proof (intro preserves_bnd_any preserves_get_cell)
      fix c'
      show "preserves n (case c' of
             ManifestCell existing_fields existing_speakers \<Rightarrow>
               (case loadAndValidateHyperParametersAndStyleVectors P
                       (mf_model_architecture existing_fields) hp_file sv_file of
                  Inl e \<Rightarrow> throw e
                | Inr (hp, sv) \<Rightarrow>
                    if is_style_bert_vits2 (mf_model_architecture existing_fields) then
                      bnd (structuredClone_manifest existing_manifest) (\<lambda>new_manifest.
                      bnd (get_cell new_manifest) (\<lambda>c. case c of
                         ManifestCell mf cloned_speakers \<Rightarrow>
                           bnd (put_cell new_manifest
                                  (ManifestCell
                                     (mf\<lparr>mf_model_architecture := architecture_of hp\<rparr>)
                                     cloned_speakers)) (\<lambda>_.
                           bnd (alloc (RefArray [])) (\<lambda>updated_speakers.
                           bnd (get_refs existing_speakers) (\<lambda>speaker_refs.
                           bnd (for_each speaker_refs
                                  (existing_speaker_step hp updated_speakers) ({}, []))
                             (\<lambda>(processed, ws1).
                           bnd (for_each (spk2id (data hp))
                                  (new_speaker_step P v4 hp processed updated_speakers) (ws1, 0))
                             (\<lambda>(ws, n).
                           bnd (put_cell new_manifest
                                  (ManifestCell
                                     (mf\<lparr>mf_model_architecture := architecture_of hp\<rparr>)
                                     updated_speakers)) (\<lambda>_.
                           bnd (check_updated_speakers_store updated_speakers) (\<lambda>_.
                           bnd (alloc (MetadataCell new_manifest hp (Some sv))) (\<lambda>updated_metadata.
                             ret (updated_metadata, ws)))))))))
                       | _ \<Rightarrow> throw TypeError))
                    else throw (UnsupportedArchitecture (mf_model_architecture existing_fields)))
           | _ \<Rightarrow> throw TypeError)"
      proof (cases c')
        case (ManifestCell existing_fields existing_speakers)
        have clone: "preserves n
               (bnd (structuredClone_manifest existing_manifest) (\<lambda>new_manifest.
                bnd (get_cell new_manifest) (\<lambda>c. case c of
                   ManifestCell mf cloned_speakers \<Rightarrow>
                     bnd (put_cell new_manifest
                            (ManifestCell
                               (mf\<lparr>mf_model_architecture := architecture_of hp\<rparr>)
                               cloned_speakers)) (\<lambda>_.
                     bnd (alloc (RefArray [])) (\<lambda>updated_speakers.
                     bnd (get_refs existing_speakers) (\<lambda>speaker_refs.
                     bnd (for_each speaker_refs
                            (existing_speaker_step hp updated_speakers) ({}, []))
                       (\<lambda>(processed, ws1).
                     bnd (for_each (spk2id (data hp))
                            (new_speaker_step P v4 hp processed updated_speakers) (ws1, 0))
                       (\<lambda>(ws, n).
                     bnd (put_cell new_manifest
                            (ManifestCell
                               (mf\<lparr>mf_model_architecture := architecture_of hp\<rparr>)
                               updated_speakers)) (\<lambda>_.
                     bnd (check_updated_speakers_store updated_speakers) (\<lambda>_.
                     bnd (alloc (MetadataCell new_manifest hp (Some sv))) (\<lambda>updated_metadata.
                       ret (updated_metadata, ws)))))))))
                 | _ \<Rightarrow> throw TypeError)))" for hp sv
        proof (rule preserves_bnd [OF preserves_structuredClone_manifest
                 returns_structuredClone_manifest])
          fix new_manifest :: addr
          assume nm: "n \<le> new_manifest"
          show "preserves n
                (bnd (get_cell new_manifest) (\<lambda>c. case c of
                   ManifestCell mf cloned_speakers \<Rightarrow>
                     bnd (put_cell new_manifest
                            (ManifestCell
                               (mf\<lparr>mf_model_architecture := architecture_of hp\<rparr>)
                               cloned_speakers)) (\<lambda>_.
                     bnd (alloc (RefArray [])) (\<lambda>updated_speakers.
                     bnd (get_refs existing_speakers) (\<lambda>speaker_refs.
                     bnd (for_each speaker_refs
                            (existing_speaker_step hp updated_speakers) ({}, []))
                       (\<lambda>(processed, ws1).
                     bnd (for_each (spk2id (data hp))
                            (new_speaker_step P v4 hp processed updated_speakers) (ws1, 0))
                       (\<lambda>(ws, n).
                     bnd (put_cell new_manifest
                            (ManifestCell
                               (mf\<lparr>mf_model_architecture := architecture_of hp\<rparr>)
                               updated_speakers)) (\<lambda>_.
                     bnd (check_updated_speakers_store updated_speakers) (\<lambda>_.
                     bnd (alloc (MetadataCell new_manifest hp (Some sv))) (\<lambda>updated_metadata.
                       ret (updated_metadata, ws)))))))))
                 | _ \<Rightarrow> throw TypeError))"
            by (rule preserves_bnd_any [OF preserves_get_cell])
               (simp add: preserves_update_tail [OF nm] preserves_throw split: cell.split)
        qed
        show ?thesis
          unfolding ManifestCell
          by (simp add: clone preserves_throw split: sum.split prod.split)
      qed (simp_all add: preserves_throw)
    qed
    with MetadataCell show ?thesis by simp
  qed (simp_all add: preserves_throw)
qed

text \<open>
  C10. \<open>updateAivmMetadata\<close> writes only to objects it has created itself: the copy
  made by \<open>structuredClone\<close>, the new arrays, speakers and styles, and the aggregate it
  returns. Whether it returns or throws, every object and array that was in the store
  before the call, so the existing aggregate with its manifest, speakers, styles,
  hyper-parameters and style vectors, is afterwards what it was.
\<close>

theorem update_leaves_existing_objects_unchanged:
  "length h \<le> length (snd (updateAivmMetadata_store P v4 existing_metadata hp_file sv_file h)) \<and>
   take (length h) (snd (updateAivmMetadata_store P v4 existing_metadata hp_file sv_file h)) = h"
  using preserves_updateAivmMetadata_store
    [of "length h" P v4 existing_metadata hp_file sv_file]
  by (simp add: preserves_def)
text \<open>
  A run on the store holding \<open>metadata_alice\<close>. The aggregate returned reads as the
  result of \<open>updateAivmMetadata\<close> on \<open>metadata_alice\<close>; the speaker pushed for Alice
  (address 21) refers to the existing array of languages (4) and, in its new array of
  styles (18), to the two existing style objects that were kept (0 and 1).
\<close>

lemma update_store_alice:
  "(case updateAivmMetadata_store example_platform example_v4 8 ''bob_carol.json'' (Some [4, 5])
          store_alice of
      (Inr (r, ws), h) \<Rightarrow>
        map_option (\<lambda>md. (md, ws)) (metadata_at h r) =
          (case updateAivmMetadata example_platform example_v4 metadata_alice
                  ''bob_carol.json'' (Some [4, 5]) of
             Inr x \<Rightarrow> Some x | Inl _ \<Rightarrow> None) \<and>
        cell_at h 21 = Some (SpeakerCell ''Alice'' ''data:image/png;base64,QUxJQ0U='' 4
                                ''22222222-2222-4222-8222-222222222222'' 0 18) \<and>
        refs_at h 18 = Some [0, 1, 19]
    | (Inl e, h) \<Rightarrow> False)"
  by code_simp

theorem update_leaves_existing_objects_unchanged_witness:
  "metadata_at store_alice 8 = Some metadata_alice \<and>
   take (length store_alice)
     (snd (updateAivmMetadata_store example_platform example_v4 8 ''bob_carol.json''
             (Some [4, 5]) store_alice)) = store_alice \<and>
   metadata_at
     (snd (updateAivmMetadata_store example_platform example_v4 8 ''bob_carol.json''
             (Some [4, 5]) store_alice)) 8 = Some metadata_alice \<and>
   fst (updateAivmMetadata_store example_platform example_v4 8 ''bob_carol.json''
          (Some [4, 5]) store_alice)
     = Inr (28, [StyleRemoved ''Alice'' ''Sad'' 5, StyleAdded ''Alice'' ''Angry'' 2,
                 SpeakerAdded ''Carol'' 1])"
proof -
  have 1: "metadata_at store_alice 8 = Some metadata_alice"
    by code_simp
  have 2: "metadata_at
     (snd (updateAivmMetadata_store example_platform example_v4 8 ''bob_carol.json''
             (Some [4, 5]) store_alice)) 8 = Some metadata_alice"
    by code_simp
  have 3: "fst (updateAivmMetadata_store example_platform example_v4 8 ''bob_carol.json''
          (Some [4, 5]) store_alice)
     = Inr (28, [StyleRemoved ''Alice'' ''Sad'' 5, StyleAdded ''Alice'' ''Angry'' 2,
                 SpeakerAdded ''Carol'' 1])"
    by code_simp
  from update_leaves_existing_objects_unchanged
         [of store_alice example_platform example_v4 8 "''bob_carol.json''" "Some [4, 5]"]
  have "take (length store_alice)
     (snd (updateAivmMetadata_store example_platform example_v4 8 ''bob_carol.json''
             (Some [4, 5]) store_alice)) = store_alice"
    by (rule conjunct2)
  with 1 2 3 show ?thesis by (intro conjI)
qed

end
